theory Spec2Isabelle
  imports Main "HOL-Library.Word"
begin

unbundle bit_operations_syntax

section \<open>Common vocabulary of librbd/internal.cc\<close>

text \<open>
  Return codes are C \<open>int\<close>s: zero or positive on success, a negated errno value on failure.
  No arithmetic is done on them, so they are modelled as \<^typ>\<open>int\<close>. The errno numbers are
  the Linux ones.
\<close>

definition ENOENT :: int where "ENOENT = 2"
definition EIO :: int where "EIO = 5"
definition EBUSY :: int where "EBUSY = 16"
definition EEXIST :: int where "EEXIST = 17"
definition EINVAL :: int where "EINVAL = 22"
definition ENOSYS :: int where "ENOSYS = 38"
definition EOPNOTSUPP :: int where "EOPNOTSUPP = 95"

lemmas errno_defs =
  ENOENT_def EIO_def EBUSY_def EEXIST_def EINVAL_def ENOSYS_def EOPNOTSUPP_def

type_synonym uint64_t = "64 word"

section \<open>clip\_io: validate an extent against the image size\<close>

text \<open>
  \<^verbatim>\<open>int clip_io(ImageCtx *ictx, uint64_t off, uint64_t *len)\<close>.
  The two values read from the image context, \<open>ictx->get_image_size(ictx->snap_id)\<close> and
  \<open>ictx->snap_exists\<close>, are the first two arguments. The result is the return code together
  with the value of \<open>*len\<close> on return. All arithmetic is on \<open>uint64_t\<close> and wraps, and
  \<open>size_t\<close> is taken to be 64 bits wide, so the cast in the clipping branch is the identity.
\<close>

definition clip_io :: "uint64_t \<Rightarrow> bool \<Rightarrow> uint64_t \<Rightarrow> uint64_t \<Rightarrow> int \<times> uint64_t" where
  "clip_io image_size snap_exists off len =
     (if \<not> snap_exists then (- ENOENT, len)
      else if len = 0 then (0, len)
      else if off \<ge> image_size then (- EINVAL, len)
      else if off + len > image_size then (0, image_size - off)
      else (0, len))"


section \<open>Snapshots and their protection state\<close>

text \<open>
  The snapshot id type \<open>snap_t\<close> is \<open>uint64_t\<close>; \<open>CEPH_NOSNAP\<close> is the reserved id
  \<open>(uint64_t)(-2)\<close> that stands for the image head.
\<close>

type_synonym snap_t = uint64_t

definition CEPH_NOSNAP :: snap_t where
  "CEPH_NOSNAP = - 2"

datatype protection_status = UNPROTECTED | PROTECTING | PROTECTED | UNPROTECTING

record SnapInfo =
  snap_size :: uint64_t
  protection :: protection_status

text \<open>
  The part of \<open>ImageCtx\<close> that the snapshot queries read: the table from snapshot names
  to ids and the table from ids to snapshot records.
\<close>

record ImageCtx =
  snap_ids :: "string \<rightharpoonup> snap_t"
  snap_info :: "snap_t \<rightharpoonup> SnapInfo"

text \<open>
  Modelled from the spec: \<open>ImageCtx::get_snap_id\<close> is defined outside internal.cc. A snapshot
  is a named state with an id; the lookup of a name that the image does not know gives
  \<open>CEPH_NOSNAP\<close>, which is what every caller in internal.cc tests for.
\<close>

definition get_snap_id :: "ImageCtx \<Rightarrow> string \<Rightarrow> snap_t" where
  "get_snap_id ictx snap_name =
     (case snap_ids ictx snap_name of Some snap \<Rightarrow> snap | None \<Rightarrow> CEPH_NOSNAP)"

text \<open>
  Modelled from the spec: \<open>ImageCtx::is_snap_unprotected\<close> is defined outside internal.cc. It
  reports whether the protection state of the snapshot is the state unprotected, and fails
  with \<open>-ENOENT\<close> without writing its output when the image has no record of the id. The
  result is the return code and the value written, if any.
\<close>

definition is_snap_unprotected :: "ImageCtx \<Rightarrow> snap_t \<Rightarrow> int \<times> bool option" where
  "is_snap_unprotected ictx snap =
     (case snap_info ictx snap of
        Some info \<Rightarrow> (0, Some (protection info = UNPROTECTED))
      | None \<Rightarrow> (- ENOENT, None))"

text \<open>
  \<^verbatim>\<open>int snap_is_protected(ImageCtx *ictx, const char *snap_name, bool *is_protected)\<close>.
  \<open>refresh_r\<close> is what \<open>ictx->state->refresh_if_required()\<close> returned. The local
  \<open>bool is_unprotected\<close> is not initialised in the source; \<open>indeterminate\<close> is the value it
  happens to hold, which is what gets negated when \<open>is_snap_unprotected\<close> fails. The result
  is the return code and the value stored through \<open>is_protected\<close>, or \<open>None\<close> when the
  function returns before the store.
\<close>

definition snap_is_protected :: "ImageCtx \<Rightarrow> int \<Rightarrow> string \<Rightarrow> bool \<Rightarrow> int \<times> bool option" where
  "snap_is_protected ictx refresh_r snap_name indeterminate =
     (if refresh_r < 0 then (refresh_r, None)
      else let snap = get_snap_id ictx snap_name in
        if snap = CEPH_NOSNAP then (- ENOENT, None)
        else let (r, written) = is_snap_unprotected ictx snap;
                 is_unprotected = (case written of Some b \<Rightarrow> b | None \<Rightarrow> indeterminate)
             in (r, Some (\<not> is_unprotected)))"

section \<open>snap\_remove\<close>

text \<open>
  \<^verbatim>\<open>int snap_remove(ImageCtx *ictx, const char *snap_name, uint32_t flags, ProgressContext& pctx)\<close>.
  The function either returns a code to its caller or ends the process through
  \<open>ceph_abort()\<close>; the two are kept apart in the result type.
\<close>

datatype outcome = Returned int | Aborted

text \<open>The calls that \<open>snap_remove\<close> makes, in the order it makes them.\<close>

datatype snap_op =
    GetSnapNamespace
  | RefreshIfRequired
  | FlattenChildren
  | SnapIsProtected
  | SnapUnprotect
  | SnapRemove

text \<open>
  What the callees answer: the return code of each call and, for the two protection
  queries, the flag they store. \<open>ns_is_user\<close> says whether the namespace returned by
  \<open>get_snap_namespace\<close> is a \<open>UserSnapshotNamespace\<close>.
\<close>

record snap_remove_env =
  ns_r :: int
  ns_is_user :: bool
  sr_refresh_r :: int
  flatten_r :: int
  protected1_r :: int
  protected1 :: bool
  unprotect_r :: int
  protected2_r :: int
  protected2 :: bool
  remove_r :: int

type_synonym uint32_t = "32 word"

text \<open>
  The two flag bits \<open>RBD_SNAP_REMOVE_FLATTEN\<close> and \<open>RBD_SNAP_REMOVE_UNPROTECT\<close> are
  declared in the public header, not in internal.cc; they are the first two arguments.
\<close>

definition snap_remove ::
  "uint32_t \<Rightarrow> uint32_t \<Rightarrow> snap_remove_env \<Rightarrow> uint32_t \<Rightarrow> outcome \<times> snap_op list" where
  "snap_remove RBD_SNAP_REMOVE_FLATTEN RBD_SNAP_REMOVE_UNPROTECT env flags =
     (if ns_r env < 0 then (Returned (ns_r env), [GetSnapNamespace])
      else if \<not> ns_is_user env then (Returned (- EINVAL), [GetSnapNamespace])
      else if sr_refresh_r env < 0 then
        (Returned (sr_refresh_r env), [GetSnapNamespace, RefreshIfRequired])
      else if flags AND RBD_SNAP_REMOVE_FLATTEN \<noteq> 0 \<and> flatten_r env < 0 then
        (Returned (flatten_r env), [GetSnapNamespace, RefreshIfRequired, FlattenChildren])
      else
        let ops = [GetSnapNamespace, RefreshIfRequired]
                  @ (if flags AND RBD_SNAP_REMOVE_FLATTEN \<noteq> 0 then [FlattenChildren] else [])
                  @ [SnapIsProtected]
        in
          if protected1_r env < 0 then (Returned (protected1_r env), ops)
          else if protected1 env \<and> flags AND RBD_SNAP_REMOVE_UNPROTECT \<noteq> 0 then
            (if unprotect_r env < 0 then (Returned (unprotect_r env), ops @ [SnapUnprotect])
             else if protected2_r env < 0 then
               (Returned (protected2_r env), ops @ [SnapUnprotect, SnapIsProtected])
             else if protected2 env then (Aborted, ops @ [SnapUnprotect, SnapIsProtected])
             else (Returned (remove_r env), ops @ [SnapUnprotect, SnapIsProtected, SnapRemove]))
          else (Returned (remove_r env), ops @ [SnapRemove]))"

text \<open>
  The checks that come before the protection query: the namespace lookup, the namespace
  kind, the refresh and, when requested, the flattening of the children.
\<close>

definition snap_remove_reaches_query :: "uint32_t \<Rightarrow> snap_remove_env \<Rightarrow> uint32_t \<Rightarrow> bool" where
  "snap_remove_reaches_query RBD_SNAP_REMOVE_FLATTEN env flags =
     (0 \<le> ns_r env \<and> ns_is_user env \<and> 0 \<le> sr_refresh_r env
      \<and> (flags AND RBD_SNAP_REMOVE_FLATTEN = 0 \<or> 0 \<le> flatten_r env))"

section \<open>Breaking the exclusive lock\<close>

text \<open>
  \<open>exclusive_lock::Locker\<close>, the record that \<open>GetLockerRequest\<close> fills in. Only the address
  is read by internal.cc; it is already in its printed form there. The field \<open>cookie\<close> is
  named \<open>locker_cookie\<close> here, to keep \<open>cookie\<close> for the argument of \<open>break_lock\<close>.
\<close>

record Locker =
  entity :: string
  locker_cookie :: string
  address :: string
  handle :: uint64_t

datatype rbd_lock_mode_t = RBD_LOCK_MODE_EXCLUSIVE | RBD_LOCK_MODE_SHARED

text \<open>
  The two asynchronous requests that \<open>lock_break\<close> sends. \<open>BreakRequest\<close> carries the
  locker to break, the image's \<open>blacklist_on_break_lock\<close> setting and the force flag.
\<close>

datatype lock_break_op =
    GetLockerRequest
  | BreakRequest Locker bool bool

record lock_break_env =
  get_owner_r :: int
  locker :: Locker
  lb_blacklist_on_break_lock :: bool
  break_r :: int

text \<open>
  \<^verbatim>\<open>int lock_break(ImageCtx *ictx, rbd_lock_mode_t lock_mode, const std::string &lock_owner)\<close>.
\<close>

definition lock_break ::
  "lock_break_env \<Rightarrow> rbd_lock_mode_t \<Rightarrow> string \<Rightarrow> int \<times> lock_break_op list" where
  "lock_break env lock_mode lock_owner =
     (if lock_mode \<noteq> RBD_LOCK_MODE_EXCLUSIVE then (- EOPNOTSUPP, [])
      else if get_owner_r env = - ENOENT then (get_owner_r env, [GetLockerRequest])
      else if get_owner_r env < 0 then (get_owner_r env, [GetLockerRequest])
      else if address (locker env) \<noteq> lock_owner then (- EBUSY, [GetLockerRequest])
      else
        let ops = [GetLockerRequest,
                   BreakRequest (locker env) (lb_blacklist_on_break_lock env) True]
        in if break_r env = - ENOENT then (break_r env, ops)
           else if break_r env < 0 then (break_r env, ops)
           else (0, ops))"

text \<open>
  Modelled from the spec: what the two requests do on the store. \<open>GetLockerRequest\<close> and
  \<open>BreakRequest\<close> are defined outside internal.cc; \<open>lock_break\<close> only creates them, sends
  them and waits for their codes. The specification says of the break that it "reads the
  current locker from the store" and, on a match, "optionally adds the owner's network
  address to a blacklist (configurable duration) before issuing the break". So the request
  that reads the locker has one step; the break request blacklists the address of the locker
  it was created with when it was created with the blacklist flag set, and then breaks the
  lock of that locker. \<open>lock_break_steps\<close> lists the steps of the requests that \<open>lock_break\<close>
  sends, in the order it sends them.
\<close>

datatype lock_store_op =
    ReadLocker
  | BlacklistLocker string
  | BreakLocker Locker

fun request_steps :: "lock_break_op \<Rightarrow> lock_store_op list" where
  "request_steps GetLockerRequest = [ReadLocker]"
| "request_steps (BreakRequest l blacklist_locker force_break_lock) =
     (if blacklist_locker then [BlacklistLocker (address l)] else []) @ [BreakLocker l]"

definition lock_break_steps ::
  "lock_break_env \<Rightarrow> rbd_lock_mode_t \<Rightarrow> string \<Rightarrow> lock_store_op list" where
  "lock_break_steps env lock_mode lock_owner =
     concat (map request_steps (snd (lock_break env lock_mode lock_owner)))"

text \<open>
  \<open>break_lock\<close> works on the advisory lock of the image header. A locker is identified by
  \<open>locker_id_t\<close> (client name and cookie) and described by \<open>locker_info_t\<close>, of which the
  printed address is read. \<open>entity_name_t\<close> values are kept in their printed form.
\<close>

type_synonym entity_name_t = string

record locker_id_t =
  id_locker :: entity_name_t
  id_cookie :: string

record locker_info_t =
  addr :: string

datatype break_lock_op =
    BreakLockRefresh
  | GetLockInfo
  | BlacklistAdd string uint32_t
  | ClsBreakLock string entity_name_t
  | NotifyUpdate

text \<open>
  \<open>parse_client\<close> stands for \<open>entity_name_t::parse\<close>: the parsed name, or \<open>None\<close> when
  the string does not parse. \<open>lockers\<close> is the map returned by \<open>get_lock_info\<close>, in
  the order the loop walks it.
\<close>

record break_lock_env =
  bl_refresh_r :: int
  parse_client :: "string \<Rightarrow> entity_name_t option"
  blacklist_on_break_lock :: bool
  blacklist_expire_seconds :: uint32_t
  lock_info_r :: int
  lockers :: "(locker_id_t \<times> locker_info_t) list"
  blacklist_r :: int
  cls_break_r :: int

text \<open>
  The loop over the lockers: the address of the first locker whose client is \<open>lock_client\<close>,
  or the empty string the variable \<open>client_address\<close> starts with.
\<close>

fun find_client_address :: "(locker_id_t \<times> locker_info_t) list \<Rightarrow> entity_name_t \<Rightarrow> string" where
  "find_client_address [] lock_client = []"
| "find_client_address (it # rest) lock_client =
     (if id_locker (fst it) = lock_client then addr (snd it)
      else find_client_address rest lock_client)"

text \<open>
  \<^verbatim>\<open>int break_lock(ImageCtx *ictx, const string& client, const string& cookie)\<close>.
\<close>

definition break_lock ::
  "break_lock_env \<Rightarrow> string \<Rightarrow> string \<Rightarrow> int \<times> break_lock_op list" where
  "break_lock env client cookie =
     (if bl_refresh_r env < 0 then (bl_refresh_r env, [BreakLockRefresh])
      else case parse_client env client of
        None \<Rightarrow> (- EINVAL, [BreakLockRefresh])
      | Some lock_client \<Rightarrow>
          if blacklist_on_break_lock env then
            (if lock_info_r env < 0 then (lock_info_r env, [BreakLockRefresh, GetLockInfo])
             else
               let client_address = find_client_address (lockers env) lock_client in
               if client_address = [] then (- ENOENT, [BreakLockRefresh, GetLockInfo])
               else
                 let ops = [BreakLockRefresh, GetLockInfo,
                            BlacklistAdd client_address (blacklist_expire_seconds env)]
                 in if blacklist_r env < 0 then (blacklist_r env, ops)
                    else if cls_break_r env < 0 then
                      (cls_break_r env, ops @ [ClsBreakLock cookie lock_client])
                    else (0, ops @ [ClsBreakLock cookie lock_client, NotifyUpdate]))
          else if cls_break_r env < 0 then
            (cls_break_r env, [BreakLockRefresh, ClsBreakLock cookie lock_client])
          else (0, [BreakLockRefresh, ClsBreakLock cookie lock_client, NotifyUpdate]))"

section \<open>clone\<close>

text \<open>
  The feature bits and the mask of all supported features are declared in the public
  headers, not in internal.cc. They are passed to the model as a record, so that every
  statement below holds for whatever values the headers give them.
\<close>

record feature_consts =
  RBD_FEATURES_ALL :: uint64_t
  RBD_FEATURE_LAYERING :: uint64_t
  RBD_FEATURE_JOURNALING :: uint64_t

text \<open>
  \<open>cls::rbd::MirrorMode\<close>. The store hands the mode over as a number, and the code has
  a branch for numbers that are none of the three modes, so the type is the number.
\<close>

type_synonym MirrorMode = nat

definition MIRROR_MODE_DISABLED :: MirrorMode where "MIRROR_MODE_DISABLED = 0"
definition MIRROR_MODE_IMAGE :: MirrorMode where "MIRROR_MODE_IMAGE = 1"
definition MIRROR_MODE_POOL :: MirrorMode where "MIRROR_MODE_POOL = 2"

lemmas mirror_mode_defs = MIRROR_MODE_DISABLED_def MIRROR_MODE_IMAGE_def MIRROR_MODE_POOL_def

text \<open>
  The options of \<open>ImageOptions\<close> that \<open>clone\<close> reads or writes. Each is either unset or
  holds a \<open>uint64_t\<close>; \<open>get\<close> on an unset option fails and leaves its output alone.
\<close>

record ImageOptions =
  opt_format :: "uint64_t option"
  opt_features :: "uint64_t option"
  opt_order :: "uint64_t option"

text \<open>
  What \<open>clone\<close> reads from the open parent image: the selected snapshot, the format, the
  feature mask, the size of the image at the selected snapshot and the object order.
\<close>

record parent_image =
  p_snap_id :: snap_t
  p_old_format :: bool
  p_features :: uint64_t
  p_size :: uint64_t
  p_order :: uint64_t

text \<open>
  The calls that \<open>clone\<close> makes on the store and on the two image handles, in the order it
  makes them. \<open>Create\<close> carries the size and the options handed to \<open>create\<close>;
  \<open>RemoveImage\<close> is the call of \<open>remove\<close> on the child's name.
\<close>

datatype clone_op =
    DetectFormat
  | IsTagOwner
  | Create uint64_t ImageOptions
  | OpenChild
  | SetParent
  | AddChild
  | RefreshParent
  | MetadataList
  | MetadataSet
  | MirrorModeGet
  | MirrorEnable
  | CloseChild
  | RemoveChild
  | RemoveImage

text \<open>
  What the callees answer. A field ending in \<open>_r\<close> is a return code. \<open>cl_snap_protected\<close>
  and \<open>cl_snap_protected2\<close> are the values of the variable \<open>snap_protected\<close> after the first
  and the second call of \<open>is_snap_protected\<close>; \<open>cl_mirror_mode\<close> is the value of
  \<open>mirror_mode_internal\<close> after \<open>mirror_mode_get\<close>; \<open>cl_child_journaling\<close> is what
  \<open>c_imctx->test_features(RBD_FEATURE_JOURNALING)\<close> gives. The last three fields are the
  codes of the calls made on the error paths.
\<close>

record clone_env =
  cl_detect_format_r :: int
  cl_snap_protected_r :: int
  cl_snap_protected :: bool
  cl_tag_owner_r :: int
  cl_is_primary :: bool
  cl_create_r :: int
  cl_open_r :: int
  cl_set_parent_r :: int
  cl_add_child_r :: int
  cl_refresh_r :: int
  cl_snap_protected2_r :: int
  cl_snap_protected2 :: bool
  cl_metadata_list_r :: int
  cl_pairs_empty :: bool
  cl_metadata_set_r :: int
  cl_child_journaling :: bool
  cl_mirror_mode_get_r :: int
  cl_mirror_mode :: MirrorMode
  cl_mirror_enable_r :: int
  cl_close_r :: int
  cl_remove_child_r :: int
  cl_close_on_error_r :: int
  cl_remove_r :: int

text \<open>
  The three labels at the end of \<open>clone\<close>. Control falls from each label into the next;
  the codes of the calls made there are logged and dropped.
\<close>

definition err_remove :: "clone_op list" where
  "err_remove = [RemoveImage]"

definition err_close_child :: "clone_op list" where
  "err_close_child = CloseChild # err_remove"

definition err_remove_child :: "clone_op list" where
  "err_remove_child = RemoveChild # err_close_child"

text \<open>
  The part of \<open>clone\<close> after \<open>create\<close> has succeeded, from the opening of the child to the
  end of the function. \<open>snap_protected\<close> is the value the variable holds on entry.
\<close>

definition clone_child :: "clone_env \<Rightarrow> string \<Rightarrow> bool \<Rightarrow> int \<times> clone_op list" where
  "clone_child env non_primary_global_image_id snap_protected =
     (if cl_open_r env < 0 then (cl_open_r env, [OpenChild] @ err_remove)
      else if cl_set_parent_r env < 0 then
        (cl_set_parent_r env, [OpenChild, SetParent] @ err_close_child)
      else if cl_add_child_r env < 0 then
        (cl_add_child_r env, [OpenChild, SetParent, AddChild] @ err_close_child)
      else
        let ops = [OpenChild, SetParent, AddChild, RefreshParent];
            r = (if cl_refresh_r env = 0 then cl_snap_protected2_r env else cl_refresh_r env);
            snap_protected = (if cl_refresh_r env = 0 then cl_snap_protected2 env
                              else snap_protected)
        in
          if r < 0 \<or> \<not> snap_protected then (- EINVAL, ops @ err_remove_child)
          else
            let ops = ops @ [MetadataList]; r = cl_metadata_list_r env in
            if r < 0 \<and> r \<noteq> - EOPNOTSUPP \<and> r \<noteq> - EIO then (r, ops @ err_remove_child)
            else if r = 0 \<and> \<not> cl_pairs_empty env \<and> cl_metadata_set_r env < 0 then
              (cl_metadata_set_r env, ops @ [MetadataSet] @ err_remove_child)
            else
              let ops = ops @ (if r = 0 \<and> \<not> cl_pairs_empty env then [MetadataSet] else []) in
              if cl_child_journaling env then
                (if cl_mirror_mode_get_r env < 0 \<and> cl_mirror_mode_get_r env \<noteq> - ENOENT then
                   (cl_mirror_mode_get_r env, ops @ [MirrorModeGet] @ err_remove_child)
                 else if cl_mirror_mode env = MIRROR_MODE_POOL
                         \<or> non_primary_global_image_id \<noteq> [] then
                   (if cl_mirror_enable_r env < 0 then
                      (cl_mirror_enable_r env,
                       ops @ [MirrorModeGet, MirrorEnable] @ err_remove_child)
                    else (cl_close_r env, ops @ [MirrorModeGet, MirrorEnable, CloseChild]))
                 else (cl_close_r env, ops @ [MirrorModeGet, CloseChild]))
              else (cl_close_r env, ops @ [CloseChild]))"

text \<open>
  \<^verbatim>\<open>int clone(ImageCtx *p_imctx, IoCtx& c_ioctx, const char *c_name, ImageOptions& c_opts,
            const std::string &non_primary_global_image_id,
            const std::string &primary_mirror_uuid)\<close>.
  The model is in three parts, in the order of the source. \<open>clone_validate\<close> is the function
  from its first line to the line that stores the features into \<open>c_opts\<close>: it gives
  \<open>Inl\<close> of the code returned and the calls made when one of the checks returns, and
  otherwise \<open>Inr\<close> of the size and the options that are handed to \<open>create\<close>, with the calls
  made so far. The flag \<open>use_p_features\<close> of the source is set exactly when the features
  option is unset, so the model tests the option where the source tests the flag.
\<close>

definition clone_validate ::
  "feature_consts \<Rightarrow> parent_image \<Rightarrow> clone_env \<Rightarrow> ImageOptions \<Rightarrow> string
   \<Rightarrow> (int \<times> clone_op list) + (uint64_t \<times> ImageOptions \<times> clone_op list)" where
  "clone_validate fc p_imctx env c_opts non_primary_global_image_id =
     (if p_snap_id p_imctx = CEPH_NOSNAP then Inl (- EINVAL, [])
      else
        let c_opts = (if opt_format c_opts = None then c_opts\<lparr>opt_format := Some 2\<rparr> else c_opts);
            format = (case opt_format c_opts of Some v \<Rightarrow> v | None \<Rightarrow> 0)
        in
        if format < 2 then Inl (- EINVAL, [])
        else if (case opt_features c_opts of
                   Some features \<Rightarrow> features AND NOT (RBD_FEATURES_ALL fc) \<noteq> 0
                 | None \<Rightarrow> False) then Inl (- ENOSYS, [])
        else if cl_detect_format_r env \<noteq> - ENOENT then Inl (- EEXIST, [DetectFormat])
        else if p_old_format p_imctx then Inl (- EINVAL, [DetectFormat])
        else
          let size = p_size p_imctx in
          if p_features p_imctx AND RBD_FEATURE_LAYERING fc \<noteq> RBD_FEATURE_LAYERING fc then
            Inl (- ENOSYS, [DetectFormat])
          else if cl_snap_protected_r env < 0 then Inl (cl_snap_protected_r env, [DetectFormat])
          else if \<not> cl_snap_protected env then Inl (- EINVAL, [DetectFormat])
          else if p_features p_imctx AND RBD_FEATURE_JOURNALING fc \<noteq> 0
                  \<and> cl_tag_owner_r env < 0 then
            Inl (cl_tag_owner_r env, [DetectFormat, IsTagOwner])
          else if p_features p_imctx AND RBD_FEATURE_JOURNALING fc \<noteq> 0
                  \<and> \<not> cl_is_primary env \<and> \<not> non_primary_global_image_id \<noteq> [] then
            Inl (- EINVAL, [DetectFormat, IsTagOwner])
          else
            let ops = DetectFormat
                      # (if p_features p_imctx AND RBD_FEATURE_JOURNALING fc \<noteq> 0
                         then [IsTagOwner] else []);
                features = (case opt_features c_opts of
                              Some features \<Rightarrow> features
                            | None \<Rightarrow> p_features p_imctx);
                c_opts = (if opt_order c_opts = None
                          then c_opts\<lparr>opt_order := Some (p_order p_imctx)\<rparr> else c_opts)
            in
            if features AND RBD_FEATURE_LAYERING fc \<noteq> RBD_FEATURE_LAYERING fc then
              Inl (- ENOSYS, ops)
            else Inr (size, c_opts\<lparr>opt_features := Some features\<rparr>, ops))"

text \<open>
  \<open>clone\<close> itself: the validation, then \<open>create\<close>, then the part after \<open>create\<close>. The
  variable \<open>snap_protected\<close> still holds what the first protection query stored. The result
  is the return code and the calls made.
\<close>

definition clone ::
  "feature_consts \<Rightarrow> parent_image \<Rightarrow> clone_env \<Rightarrow> ImageOptions \<Rightarrow> string
   \<Rightarrow> int \<times> clone_op list" where
  "clone fc p_imctx env c_opts non_primary_global_image_id =
     (case clone_validate fc p_imctx env c_opts non_primary_global_image_id of
        Inl early \<Rightarrow> early
      | Inr (image_size, c_opts, ops) \<Rightarrow>
          let ops = ops @ [Create image_size c_opts] in
          if cl_create_r env < 0 then (cl_create_r env, ops)
          else
            let (r, child_ops) =
                  clone_child env non_primary_global_image_id (cl_snap_protected env)
            in (r, ops @ child_ops))"

text \<open>
  The conditions under which \<open>clone\<close> gets to the call of \<open>create\<close>: each test of
  \<open>clone_validate\<close> that returns an error is false, in the order of the source. The parent
  is opened at a snapshot; the format, when the caller gave one, is at least 2; the
  features, when the caller gave them, are within \<open>RBD_FEATURES_ALL\<close>; no image of the
  child's name exists; the parent is not an old-format image and has layering; the
  protection query succeeds and says protected; with journaling on the parent, the tag
  owner query succeeds and the parent is primary or a global image id was given; and the
  features of the child (the caller's, or else the parent's) have layering.
\<close>

definition clone_checks_pass ::
  "feature_consts \<Rightarrow> parent_image \<Rightarrow> clone_env \<Rightarrow> ImageOptions \<Rightarrow> string \<Rightarrow> bool" where
  "clone_checks_pass fc p_imctx env c_opts non_primary_global_image_id \<longleftrightarrow>
     p_snap_id p_imctx \<noteq> CEPH_NOSNAP
     \<and> (case opt_format c_opts of Some format \<Rightarrow> 2 \<le> format | None \<Rightarrow> True)
     \<and> (case opt_features c_opts of
           Some features \<Rightarrow> features AND NOT (RBD_FEATURES_ALL fc) = 0
         | None \<Rightarrow> True)
     \<and> cl_detect_format_r env = - ENOENT
     \<and> \<not> p_old_format p_imctx
     \<and> p_features p_imctx AND RBD_FEATURE_LAYERING fc = RBD_FEATURE_LAYERING fc
     \<and> 0 \<le> cl_snap_protected_r env
     \<and> cl_snap_protected env
     \<and> (p_features p_imctx AND RBD_FEATURE_JOURNALING fc = 0
          \<or> 0 \<le> cl_tag_owner_r env
            \<and> (cl_is_primary env \<or> non_primary_global_image_id \<noteq> []))
     \<and> (case opt_features c_opts of Some features \<Rightarrow> features | None \<Rightarrow> p_features p_imctx)
          AND RBD_FEATURE_LAYERING fc = RBD_FEATURE_LAYERING fc"

section \<open>Mirroring: disabling and enabling an image\<close>

text \<open>\<open>cls::rbd::MirrorImageState\<close>, the state field of the mirror record of an image.\<close>

datatype MirrorImageState =
    MIRROR_IMAGE_STATE_DISABLING
  | MIRROR_IMAGE_STATE_ENABLED
  | MIRROR_IMAGE_STATE_DISABLED

text \<open>
  The calls that the mirroring functions of internal.cc make on the store and on image
  handles. \<open>ImageRecordGet\<close> and \<open>ImageRecordSet\<close> read and write the mirror record of the
  image at hand; \<open>ChildRecordGet\<close> reads the record of a child image and carries the
  child's id and the code the read returned; \<open>RecordGet\<close> reads the record of an image of
  the pool by id. \<open>SendDisableRequest\<close> and \<open>SendEnableRequest\<close> stand for
  \<open>mirror::DisableRequest\<close> (with its force flag) and \<open>mirror::EnableRequest\<close>, the terminal
  steps that live outside internal.cc.
\<close>

datatype mirror_op =
    ImageRefresh
  | PoolModeGet
  | ImageRecordGet
  | ImageRecordSet MirrorImageState
  | ListChildrenInfo snap_t
  | IoctxCreate int
  | ChildRecordGet string int
  | SendDisableRequest bool
  | ParentRecordGet
  | SendEnableRequest
  | PeerList
  | UuidSet string
  | PoolModeSet MirrorMode
  | NotifyModeUpdated MirrorMode
  | ListImages
  | GetFeatures string
  | ImageOpen string
  | ImageClose string
  | ListMirrorImages
  | RecordGet string

text \<open>
  What \<open>list_children_info\<close> returns for one snapshot: its code and the map \<open>image_info\<close>,
  as the list of its entries in iteration order. An entry has the pool (id and name), the
  code of \<open>ioctx_create2\<close> for the pool, and the ids of the children in the pool, each with
  the code that \<open>mirror_image_get\<close> returns for it.
\<close>

record pool_children =
  pc_pool_id :: int
  pc_pool_name :: string
  pc_ioctx_r :: int
  pc_children :: "(string \<times> int) list"

record snap_children =
  sc_snap_id :: snap_t
  sc_list_r :: int
  sc_image_info :: "pool_children list"

text \<open>
  The three nested loops of \<open>mirror_image_disable\<close>, innermost first. Each gives \<open>Some r\<close>
  when the function returns \<open>r\<close> from inside the loop and \<open>None\<close> when the loop runs to its
  end, together with the calls made.
\<close>

fun check_child_ids :: "(string \<times> int) list \<Rightarrow> int option \<times> mirror_op list" where
  "check_child_ids [] = (None, [])"
| "check_child_ids (id_it # rest) =
     (if snd id_it \<noteq> - ENOENT then (Some (- EBUSY), [ChildRecordGet (fst id_it) (snd id_it)])
      else let (res, ops) = check_child_ids rest
           in (res, ChildRecordGet (fst id_it) (snd id_it) # ops))"

fun check_image_info :: "pool_children list \<Rightarrow> int option \<times> mirror_op list" where
  "check_image_info [] = (None, [])"
| "check_image_info (info # rest) =
     (if pc_ioctx_r info < 0 then (Some (pc_ioctx_r info), [IoctxCreate (pc_pool_id info)])
      else case check_child_ids (pc_children info) of
        (Some r, ops) \<Rightarrow> (Some r, IoctxCreate (pc_pool_id info) # ops)
      | (None, ops) \<Rightarrow>
          let (res, ops') = check_image_info rest
          in (res, IoctxCreate (pc_pool_id info) # ops @ ops'))"

fun check_snap_info :: "snap_children list \<Rightarrow> int option \<times> mirror_op list" where
  "check_snap_info [] = (None, [])"
| "check_snap_info (info # rest) =
     (if sc_list_r info < 0 then (Some (sc_list_r info), [ListChildrenInfo (sc_snap_id info)])
      else case check_image_info (sc_image_info info) of
        (Some r, ops) \<Rightarrow> (Some r, ListChildrenInfo (sc_snap_id info) # ops)
      | (None, ops) \<Rightarrow>
          let (res, ops') = check_snap_info rest
          in (res, ListChildrenInfo (sc_snap_id info) # ops @ ops'))"

text \<open>
  What the callees of \<open>mirror_image_disable\<close> answer. \<open>md_mirror_mode\<close> is the pool mode that
  \<open>mirror_mode_get\<close> stored; \<open>md_snaps\<close> is \<open>ictx->snap_info\<close> in iteration order, each
  snapshot with the answer of \<open>list_children_info\<close> for it; \<open>md_rollback_r\<close> is the code of the
  write that puts the record back to enabled, which is logged and dropped.
\<close>

record disable_env =
  md_refresh_r :: int
  md_mode_get_r :: int
  md_mirror_mode :: MirrorMode
  md_image_get_r :: int
  md_image_set_r :: int
  md_snaps :: "snap_children list"
  md_disable_internal_r :: int
  md_rollback_r :: int

text \<open>
  \<^verbatim>\<open>int mirror_image_disable(ImageCtx *ictx, bool force)\<close>. The scope-exit handler runs
  on every return after the record has been written as disabling, and writes the record
  as enabled when \<open>rollback\<close> has been set.
\<close>

definition mirror_image_disable :: "disable_env \<Rightarrow> bool \<Rightarrow> int \<times> mirror_op list" where
  "mirror_image_disable env force =
     (if md_refresh_r env < 0 then (md_refresh_r env, [ImageRefresh])
      else if md_mode_get_r env < 0 then (md_mode_get_r env, [ImageRefresh, PoolModeGet])
      else if md_mirror_mode env \<noteq> MIRROR_MODE_IMAGE then
        (- EINVAL, [ImageRefresh, PoolModeGet])
      else if md_image_get_r env = - ENOENT then
        (0, [ImageRefresh, PoolModeGet, ImageRecordGet])
      else if md_image_get_r env = - EOPNOTSUPP then
        (md_image_get_r env, [ImageRefresh, PoolModeGet, ImageRecordGet])
      else if md_image_get_r env < 0 then
        (md_image_get_r env, [ImageRefresh, PoolModeGet, ImageRecordGet])
      else
        let ops = [ImageRefresh, PoolModeGet, ImageRecordGet,
                   ImageRecordSet MIRROR_IMAGE_STATE_DISABLING]
        in
        if md_image_set_r env < 0 then (md_image_set_r env, ops)
        else case check_snap_info (md_snaps env) of
          (Some r, check_ops) \<Rightarrow>
            (r, ops @ check_ops @ [ImageRecordSet MIRROR_IMAGE_STATE_ENABLED])
        | (None, check_ops) \<Rightarrow>
            if md_disable_internal_r env < 0 then
              (md_disable_internal_r env,
               ops @ check_ops @ [SendDisableRequest force,
                                  ImageRecordSet MIRROR_IMAGE_STATE_ENABLED])
            else (0, ops @ check_ops @ [SendDisableRequest force]))"

text \<open>
  What the callees of \<open>mirror_image_enable\<close> answer. \<open>en_has_parent\<close> says whether
  \<open>ictx->parent\<close> is set, \<open>en_parent_same_pool\<close> whether parent and image are in one pool,
  \<open>en_parent_journaling\<close> and \<open>en_journaling\<close> whether the journaling feature is on for the
  parent and for the image.
\<close>

record enable_env =
  en_refresh_r :: int
  en_mode_get_r :: int
  en_mirror_mode :: MirrorMode
  en_has_parent :: bool
  en_parent_same_pool :: bool
  en_parent_journaling :: bool
  en_parent_image_get_r :: int
  en_journaling :: bool
  en_enable_r :: int

text \<open>
  \<^verbatim>\<open>int mirror_image_enable(ImageCtx *ictx, bool relax_same_pool_parent_check)\<close>, with
  \<open>mirror_image_enable_internal\<close> unfolded at its end.
\<close>

definition mirror_image_enable :: "enable_env \<Rightarrow> bool \<Rightarrow> int \<times> mirror_op list" where
  "mirror_image_enable env relax_same_pool_parent_check =
     (if en_refresh_r env < 0 then (en_refresh_r env, [ImageRefresh])
      else if en_mode_get_r env < 0 then (en_mode_get_r env, [ImageRefresh, PoolModeGet])
      else if en_mirror_mode env \<noteq> MIRROR_MODE_IMAGE then
        (- EINVAL, [ImageRefresh, PoolModeGet])
      else if en_has_parent env \<and> relax_same_pool_parent_check \<and> en_parent_same_pool env
              \<and> \<not> en_parent_journaling env then
        (- EINVAL, [ImageRefresh, PoolModeGet])
      else if en_has_parent env
              \<and> \<not> (relax_same_pool_parent_check \<and> en_parent_same_pool env)
              \<and> en_parent_image_get_r env = - ENOENT then
        (- EINVAL, [ImageRefresh, PoolModeGet, ParentRecordGet])
      else
        let ops = [ImageRefresh, PoolModeGet]
                  @ (if en_has_parent env
                        \<and> \<not> (relax_same_pool_parent_check \<and> en_parent_same_pool env)
                     then [ParentRecordGet] else [])
        in
        if \<not> en_journaling env then (- EINVAL, ops)
        else if en_enable_r env < 0 then (en_enable_r env, ops @ [SendEnableRequest])
        else (0, ops @ [SendEnableRequest]))"

section \<open>Mirroring: setting the pool mode\<close>

text \<open>
  One entry of the image directory as \<open>mirror_mode_set\<close> walks it when the new mode is
  pool: the name and id of the image, the code of \<open>get_features\<close>, whether the features it
  stored have the journaling bit, the code of opening the image, the answers for
  \<open>mirror_image_enable\<close> on it, and the code of closing it.
\<close>

record pool_image =
  pi_name :: string
  pi_id :: string
  pi_get_features_r :: int
  pi_journaling :: bool
  pi_open_r :: int
  pi_enable :: enable_env
  pi_close_r :: int

text \<open>The loop over the images of the pool, with the convention of the loops above.\<close>

fun enable_images :: "pool_image list \<Rightarrow> int option \<times> mirror_op list" where
  "enable_images [] = (None, [])"
| "enable_images (img # rest) =
     (if pi_get_features_r img < 0 then (Some (pi_get_features_r img), [GetFeatures (pi_id img)])
      else if pi_journaling img then
        (if pi_open_r img < 0 then
           (Some (pi_open_r img), [GetFeatures (pi_id img), ImageOpen (pi_id img)])
         else
           let (r, ops) = mirror_image_enable (pi_enable img) True;
               ops = [GetFeatures (pi_id img), ImageOpen (pi_id img)] @ ops
           in
           if r < 0 then (Some r, ops)
           else if pi_close_r img < 0 then (Some (pi_close_r img), ops @ [ImageClose (pi_id img)])
           else let (res, ops') = enable_images rest
                in (res, ops @ [ImageClose (pi_id img)] @ ops'))
      else let (res, ops') = enable_images rest
           in (res, GetFeatures (pi_id img) # ops'))"

text \<open>
  One entry of the set of mirrored images as \<open>mirror_mode_set\<close> walks it when the new mode
  is disabled: the id, the code of reading its mirror record and the state found in the
  record, the code of opening the image, the answers for \<open>mirror_image_disable\<close> on it, and
  the code of closing it.
\<close>

record mirrored_image =
  mi_id :: string
  mi_get_r :: int
  mi_state :: MirrorImageState
  mi_open_r :: int
  mi_disable :: disable_env
  mi_close_r :: int

fun disable_images :: "MirrorMode \<Rightarrow> mirrored_image list \<Rightarrow> int option \<times> mirror_op list" where
  "disable_images current_mirror_mode [] = (None, [])"
| "disable_images current_mirror_mode (img # rest) =
     (if current_mirror_mode = MIRROR_MODE_IMAGE then
        (if mi_get_r img < 0 \<and> mi_get_r img \<noteq> - ENOENT then
           (Some (mi_get_r img), [RecordGet (mi_id img)])
         else if mi_state img = MIRROR_IMAGE_STATE_ENABLED then
           (Some (- EINVAL), [RecordGet (mi_id img)])
         else let (res, ops') = disable_images current_mirror_mode rest
              in (res, RecordGet (mi_id img) # ops'))
      else
        (if mi_open_r img < 0 then (Some (mi_open_r img), [ImageOpen (mi_id img)])
         else
           let (r, ops) = mirror_image_disable (mi_disable img) False;
               ops = ImageOpen (mi_id img) # ops
           in
           if r < 0 then (Some r, ops)
           else if mi_close_r img < 0 then (Some (mi_close_r img), ops @ [ImageClose (mi_id img)])
           else let (res, ops') = disable_images current_mirror_mode rest
                in (res, ops @ [ImageClose (mi_id img)] @ ops')))"

text \<open>
  What the callees of \<open>mirror_mode_set\<close> answer. \<open>ms_peers_empty\<close> says whether the peer list
  is empty after \<open>mirror_peer_list\<close>; \<open>ms_current_mode\<close> is the mode that \<open>mirror_mode_get\<close>
  stored; \<open>ms_uuid\<close> is the printed form of the freshly generated random uuid; \<open>ms_images\<close>
  and \<open>ms_mirror_images\<close> are what \<open>list_images_v2\<close> and \<open>list_mirror_images\<close> collected, in
  iteration order.
\<close>

record mode_set_env =
  ms_peer_list_r :: int
  ms_peers_empty :: bool
  ms_mode_get_r :: int
  ms_current_mode :: MirrorMode
  ms_uuid :: string
  ms_uuid_set_r :: int
  ms_set_image_r :: int
  ms_notify_image_r :: int
  ms_list_images_r :: int
  ms_images :: "pool_image list"
  ms_list_mirror_r :: int
  ms_mirror_images :: "mirrored_image list"
  ms_set_mode_r :: int
  ms_notify_r :: int

text \<open>
  \<^verbatim>\<open>int mirror_mode_set(IoCtx& io_ctx, rbd_mirror_mode_t mirror_mode)\<close>. The three values
  of \<open>rbd_mirror_mode_t\<close> are cast to the values of \<open>cls::rbd::MirrorMode\<close> of the same
  names, and any other number is refused; the model uses one type for both.

  The model is in two parts. \<open>mirror_mode_set_walk\<close> is the end of the function, reached
  when the new mode is pool or disabled: the walk over the images and the final write of
  the mode with its notification.
\<close>

definition mirror_mode_set_walk ::
  "mode_set_env \<Rightarrow> MirrorMode \<Rightarrow> MirrorMode \<Rightarrow> int \<times> mirror_op list" where
  "mirror_mode_set_walk env current_mirror_mode next_mirror_mode =
     (let (res, ops) =
            (if next_mirror_mode = MIRROR_MODE_POOL then
               (if ms_list_images_r env < 0 then (Some (ms_list_images_r env), [ListImages])
                else let (res, loop_ops) = enable_images (ms_images env)
                     in (res, ListImages # loop_ops))
             else if next_mirror_mode = MIRROR_MODE_DISABLED then
               (if ms_list_mirror_r env < 0 then
                  (Some (ms_list_mirror_r env), [ListMirrorImages])
                else let (res, loop_ops) =
                           disable_images current_mirror_mode (ms_mirror_images env)
                     in (res, ListMirrorImages # loop_ops))
             else (None, []))
      in
      case res of
        Some r \<Rightarrow> (r, ops)
      | None \<Rightarrow>
          if ms_set_mode_r env < 0 then
            (ms_set_mode_r env, ops @ [PoolModeSet next_mirror_mode])
          else (0, ops @ [PoolModeSet next_mirror_mode, NotifyModeUpdated next_mirror_mode]))"

definition mirror_mode_set :: "mode_set_env \<Rightarrow> MirrorMode \<Rightarrow> int \<times> mirror_op list" where
  "mirror_mode_set env mirror_mode =
     (if mirror_mode \<noteq> MIRROR_MODE_DISABLED \<and> mirror_mode \<noteq> MIRROR_MODE_IMAGE
         \<and> mirror_mode \<noteq> MIRROR_MODE_POOL then (- EINVAL, [])
      else
        let next_mirror_mode = mirror_mode;
            ops = (if next_mirror_mode = MIRROR_MODE_DISABLED then [PeerList] else [])
        in
        if next_mirror_mode = MIRROR_MODE_DISABLED
           \<and> ms_peer_list_r env < 0 \<and> ms_peer_list_r env \<noteq> - ENOENT then
          (ms_peer_list_r env, ops)
        else if next_mirror_mode = MIRROR_MODE_DISABLED \<and> \<not> ms_peers_empty env then
          (- EBUSY, ops)
        else
          let ops = ops @ [PoolModeGet]; current_mirror_mode = ms_current_mode env in
          if ms_mode_get_r env < 0 then (ms_mode_get_r env, ops)
          else if current_mirror_mode = next_mirror_mode then (0, ops)
          else if current_mirror_mode = MIRROR_MODE_DISABLED \<and> ms_uuid_set_r env < 0 then
            (ms_uuid_set_r env, ops @ [UuidSet (ms_uuid env)])
          else
            let ops = ops @ (if current_mirror_mode = MIRROR_MODE_DISABLED
                             then [UuidSet (ms_uuid env)] else [])
            in
            if current_mirror_mode \<noteq> MIRROR_MODE_IMAGE \<and> ms_set_image_r env < 0 then
              (ms_set_image_r env, ops @ [PoolModeSet MIRROR_MODE_IMAGE])
            else
              let ops = ops @ (if current_mirror_mode \<noteq> MIRROR_MODE_IMAGE
                               then [PoolModeSet MIRROR_MODE_IMAGE,
                                     NotifyModeUpdated MIRROR_MODE_IMAGE]
                               else [])
              in
              if next_mirror_mode = MIRROR_MODE_IMAGE then (0, ops)
              else
                let (r, walk_ops) =
                      mirror_mode_set_walk env current_mirror_mode next_mirror_mode
                in (r, ops @ walk_ops))"

section \<open>copy: the bulk copy between two images\<close>

text \<open>
  The content of a \<open>bufferlist\<close> is a list of bytes. An operation of the sweep that is
  outstanding is either a read that has been issued and whose completion \<open>C_CopyRead\<close> has
  not run yet (with the offset and the length asked for), or a write that has been issued
  and whose completion \<open>C_CopyWrite\<close> has not run yet (with the offset and the content).
\<close>

type_synonym byte = "8 word"

datatype inflight = Reading uint64_t uint64_t | Writing uint64_t "byte list"

text \<open>
  The calls that \<open>copy\<close> and the two completions make, in the order they make them: the
  listing and the setting of the metadata, \<open>aio_read\<close> on the source, \<open>aio_write\<close> on the
  destination, \<open>end_op\<close> on the throttle with the code it is given, and \<open>update_progress\<close>
  with its two arguments.
\<close>

datatype copy_op =
    CopyMetadataList
  | CopyMetadataSet
  | AioRead uint64_t uint64_t
  | AioWrite uint64_t "byte list"
  | EndOp int
  | UpdateProgress uint64_t uint64_t

text \<open>
  The state of a run: the code the throttle keeps (\<open>m_ret\<close>), the operations that are
  outstanding, oldest first, and the calls made so far.
\<close>

record copy_state =
  m_ret :: int
  pending :: "inflight list"
  copy_ops :: "copy_op list"

text \<open>
  What \<open>copy\<close> reads from the two images and what its callees answer: the sizes of the
  source and of the destination, the stripe period of the source, the bound
  \<open>concurrent_management_ops\<close> given to the throttle, the codes of the two metadata calls and
  whether the listing was empty, the code and the content with which a read of the source
  at an offset and of a length completes, and the code with which a write to the
  destination completes.
\<close>

record copy_env =
  src_size :: uint64_t
  dest_size :: uint64_t
  period :: uint64_t
  concurrent_management_ops :: nat
  cp_metadata_list_r :: int
  cp_pairs_empty :: bool
  cp_metadata_set_r :: int
  read_chunk :: "uint64_t \<Rightarrow> uint64_t \<Rightarrow> int \<times> byte list"
  write_chunk :: "uint64_t \<Rightarrow> byte list \<Rightarrow> int"

text \<open>The length of the chunk at an offset: \<^verbatim>\<open>min(period, src_size - offset)\<close>.\<close>

definition chunk_len :: "copy_env \<Rightarrow> uint64_t \<Rightarrow> uint64_t" where
  "chunk_len env offset = min (period env) (src_size env - offset)"

text \<open>
  Modelled from the spec: \<open>bufferlist::is_zero\<close>, defined outside internal.cc. The
  specification speaks of "a chunk whose content is entirely zero".
\<close>

definition is_zero :: "byte list \<Rightarrow> bool" where
  "is_zero bl = list_all (\<lambda>b. b = 0) bl"

text \<open>
  Modelled from the spec: the throttle. \<open>SimpleThrottle\<close> is defined outside internal.cc.
  The specification describes the sweep as having "up to a bounded number of outstanding
  chunk operations at once" and says that "the pipeline must surface the first encountered
  error, continue to drain in-flight operations". So \<open>end_op\<close> keeps the first negative code
  it is given; \<open>pending_error\<close> says whether a code has been kept; \<open>start_op\<close> (further
  down) returns once fewer operations than the bound are outstanding; and \<open>wait_for_ret\<close>
  (further down) returns the code kept once no operation is outstanding.
\<close>

definition end_op :: "int \<Rightarrow> copy_state \<Rightarrow> copy_state" where
  "end_op r st =
     st\<lparr>m_ret := (if r < 0 \<and> m_ret st = 0 then r else m_ret st),
        copy_ops := copy_ops st @ [EndOp r]\<rparr>"

definition pending_error :: "copy_state \<Rightarrow> bool" where
  "pending_error st \<longleftrightarrow> m_ret st < 0"

definition remove_nth :: "nat \<Rightarrow> 'a list \<Rightarrow> 'a list" where
  "remove_nth i xs = take i xs @ drop (Suc i) xs"

text \<open>
  The completion of the outstanding operation at position \<open>i\<close>. For a read this is
  \<^verbatim>\<open>C_CopyRead::finish(int r)\<close>: a negative code ends the operation with that code; the
  assertion \<^verbatim>\<open>m_bl->length() == (size_t)r\<close> stops the process when it fails, which is the
  result \<open>None\<close>; a content that is all zero ends the operation with \<open>r\<close> and nothing is
  written; any other content is written to the destination at the same offset, and the
  write takes the place of the read among the outstanding operations. For a write this is
  \<^verbatim>\<open>C_CopyWrite::finish(int r)\<close>, which ends the operation with the code of the write.
  The function is only used at positions below the number of outstanding operations.
\<close>

definition complete_at :: "copy_env \<Rightarrow> nat \<Rightarrow> copy_state \<Rightarrow> copy_state option" where
  "complete_at env i st =
     (case pending st ! i of
        Reading offset len \<Rightarrow>
          (let (r, bl) = read_chunk env offset len;
               st = st\<lparr>pending := remove_nth i (pending st)\<rparr>
           in if r < 0 then Some (end_op r st)
              else if int (length bl) \<noteq> r then None
              else if is_zero bl then Some (end_op r st)
              else Some (st\<lparr>pending := pending st @ [Writing offset bl],
                            copy_ops := copy_ops st @ [AioWrite offset bl]\<rparr>))
      | Writing offset bl \<Rightarrow>
          Some (end_op (write_chunk env offset bl)
                  (st\<lparr>pending := remove_nth i (pending st)\<rparr>)))"

text \<open>
  The completions run on other threads, at any moment after their operation has been
  issued and in any order. The order is a parameter of the model. A list of numbers says
  which outstanding operations complete at a point of the run where \<open>copy\<close> does not wait:
  each number picks one of the operations then outstanding (modulo their count), and is
  skipped when none is outstanding.
\<close>

fun complete_picks :: "copy_env \<Rightarrow> nat list \<Rightarrow> copy_state \<Rightarrow> copy_state option" where
  "complete_picks env [] st = Some st"
| "complete_picks env (p # ps) st =
     (if pending st = [] then complete_picks env ps st
      else case complete_at env (p mod length (pending st)) st of
        None \<Rightarrow> None
      | Some st' \<Rightarrow> complete_picks env ps st')"

text \<open>
  Where \<open>copy\<close> waits, completions go on until the wait ends. A read that completes may
  leave a write outstanding, so the number of completions still to come is bounded by two
  for each read and one for each write; this is the measure with which the two waits below
  are shown to end.
\<close>

fun weight :: "inflight list \<Rightarrow> nat" where
  "weight [] = 0"
| "weight (Reading offset len # rest) = 2 + weight rest"
| "weight (Writing offset bl # rest) = 1 + weight rest"

lemma weight_append: "weight (xs @ ys) = weight xs + weight ys"
  by (induction xs rule: weight.induct) simp_all

lemma weight_remove_nth:
  "i < length xs \<Longrightarrow>
   weight (remove_nth i xs) + (case xs ! i of Reading _ _ \<Rightarrow> 2 | Writing _ _ \<Rightarrow> 1) = weight xs"
proof (induction xs arbitrary: i rule: weight.induct)
  case 1
  then show ?case by simp
next
  case (2 offset len rest)
  then show ?case by (cases i) (simp_all add: remove_nth_def)
next
  case (3 offset bl rest)
  then show ?case by (cases i) (simp_all add: remove_nth_def)
qed

lemma complete_at_weight:
  assumes "complete_at env i st = Some st'" and "i < length (pending st)"
  shows "weight (pending st') < weight (pending st)"
proof (cases "pending st ! i")
  case (Reading offset len)
  obtain r bl where rb: "read_chunk env offset len = (r, bl)" by (cases "read_chunk env offset len")
  from weight_remove_nth [OF assms(2)] Reading
  have w: "weight (remove_nth i (pending st)) + 2 = weight (pending st)" by simp
  from assms(1) Reading rb w show ?thesis
    by (auto simp add: complete_at_def end_op_def weight_append Let_def split: if_splits)
next
  case (Writing offset bl)
  from weight_remove_nth [OF assms(2)] Writing
  have w: "weight (remove_nth i (pending st)) + 1 = weight (pending st)" by simp
  from assms(1) Writing w show ?thesis
    by (auto simp add: complete_at_def end_op_def)
qed

text \<open>
  Modelled from the spec: the wait of \<open>wait_for_ret\<close>, which lasts until no operation is
  outstanding. The list says which operation completes next; when the list is used up the
  oldest one does.
\<close>

function drain :: "copy_env \<Rightarrow> nat list \<Rightarrow> copy_state \<Rightarrow> copy_state option" where
  "drain env picks st =
     (if pending st = [] then Some st
      else case complete_at env (case picks of [] \<Rightarrow> 0 | p # _ \<Rightarrow> p mod length (pending st)) st of
        None \<Rightarrow> None
      | Some st' \<Rightarrow> drain env (tl picks) st')"
  by pat_completeness auto
termination
proof (relation "measure (\<lambda>(env, picks, st). weight (pending st))")
  show "wf (measure (\<lambda>(env, picks, st). weight (pending st)))" by simp
next
  fix env :: copy_env and picks :: "nat list" and st st' :: copy_state
  assume ne: "pending st \<noteq> []"
    and c: "complete_at env (case picks of [] \<Rightarrow> 0 | p # _ \<Rightarrow> p mod length (pending st)) st = Some st'"
  have "(case picks of [] \<Rightarrow> 0 | p # _ \<Rightarrow> p mod length (pending st)) < length (pending st)"
    using ne by (cases picks) simp_all
  from complete_at_weight [OF c this]
  show "((env, tl picks, st'), (env, picks, st)) \<in> measure (\<lambda>(env, picks, st). weight (pending st))"
    by simp
qed

text \<open>
  Modelled from the spec: \<open>start_op\<close>, called by the constructor of \<open>C_CopyRead\<close>. It returns
  at once when fewer operations than the bound are outstanding. Otherwise it waits for
  completions, the oldest operation first (completions in another order are those of the
  list that is run just before the call). With a bound of 0 and nothing outstanding it
  waits for ever, which is the result \<open>None\<close>.
\<close>

function start_op :: "copy_env \<Rightarrow> copy_state \<Rightarrow> copy_state option" where
  "start_op env st =
     (if length (pending st) < concurrent_management_ops env then Some st
      else if pending st = [] then None
      else case complete_at env 0 st of
        None \<Rightarrow> None
      | Some st' \<Rightarrow> start_op env st')"
  by pat_completeness auto
termination
proof (relation "measure (\<lambda>(env, st). weight (pending st))")
  show "wf (measure (\<lambda>(env, st). weight (pending st)))" by simp
next
  fix env :: copy_env and st st' :: copy_state
  assume ne: "pending st \<noteq> []" and c: "complete_at env 0 st = Some st'"
  from ne have "0 < length (pending st)" by simp
  from complete_at_weight [OF c this]
  show "((env, st'), (env, st)) \<in> measure (\<lambda>(env, st). weight (pending st))" by simp
qed

declare drain.simps [simp del] start_op.simps [simp del]

text \<open>
  Modelled from the spec: \<open>wait_for_ret\<close>, which waits until no operation is outstanding
  and returns the code the throttle has kept.
\<close>

definition wait_for_ret :: "copy_env \<Rightarrow> nat list \<Rightarrow> copy_state \<Rightarrow> (int \<times> copy_state) option" where
  "wait_for_ret env picks st =
     (case drain env picks st of None \<Rightarrow> None | Some st' \<Rightarrow> Some (m_ret st', st'))"

text \<open>
  The loop of \<open>copy\<close>, from the offset at hand. \<open>sched\<close> gives, for each turn of the loop,
  the completions that run before the test of \<open>pending_error\<close> and those that run between
  that test and the call of \<open>start_op\<close>; \<open>final\<close> gives the order of the completions during
  the last wait. Every interleaving of the source is the run of the model on some \<open>sched\<close>
  and \<open>final\<close>. The offset is a \<open>uint64_t\<close> and wraps around when the period is added. The
  result is \<open>None\<close> when the call does not return: the assertion of \<open>C_CopyRead\<close> fails,
  \<open>start_op\<close> waits for ever, or the loop never ends.
\<close>

partial_function (option) copy_loop ::
  "copy_env \<Rightarrow> (nat list \<times> nat list) list \<Rightarrow> nat list \<Rightarrow> uint64_t \<Rightarrow> copy_state
   \<Rightarrow> (int \<times> copy_state) option" where
  "copy_loop env sched final offset st =
     (if offset < src_size env then
        (case complete_picks env (case sched of [] \<Rightarrow> [] | s # _ \<Rightarrow> fst s) st of
           None \<Rightarrow> None
         | Some st \<Rightarrow>
             if pending_error st then wait_for_ret env final st
             else
               (case complete_picks env (case sched of [] \<Rightarrow> [] | s # _ \<Rightarrow> snd s) st of
                  None \<Rightarrow> None
                | Some st \<Rightarrow>
                    let len = chunk_len env offset in
                    (case start_op env st of
                       None \<Rightarrow> None
                     | Some st \<Rightarrow>
                         copy_loop env (tl sched) final (offset + period env)
                           (st\<lparr>pending := pending st @ [Reading offset len],
                               copy_ops := copy_ops st
                                 @ [AioRead offset len, UpdateProgress offset (src_size env)]\<rparr>))))
      else
        (case wait_for_ret env final st of
           None \<Rightarrow> None
         | Some (r, st) \<Rightarrow>
             if 0 \<le> r then
               Some (r, st\<lparr>copy_ops := copy_ops st
                                @ [UpdateProgress (src_size env) (src_size env)]\<rparr>)
             else Some (r, st)))"

text \<open>
  \<^verbatim>\<open>int copy(ImageCtx *src, ImageCtx *dest, ProgressContext &prog_ctx)\<close>. The result is the
  code returned together with the final state, which holds the calls made.
\<close>

definition copy ::
  "copy_env \<Rightarrow> (nat list \<times> nat list) list \<Rightarrow> nat list \<Rightarrow> (int \<times> copy_state) option" where
  "copy env sched final =
     (let st = \<lparr>m_ret = 0, pending = [], copy_ops = []\<rparr> in
      if dest_size env < src_size env then Some (- EINVAL, st)
      else
        let st = st\<lparr>copy_ops := [CopyMetadataList]\<rparr>; r = cp_metadata_list_r env in
        if r < 0 \<and> r \<noteq> - EOPNOTSUPP \<and> r \<noteq> - EIO then Some (r, st)
        else if r = 0 \<and> \<not> cp_pairs_empty env \<and> cp_metadata_set_r env < 0 then
          Some (cp_metadata_set_r env, st\<lparr>copy_ops := [CopyMetadataList, CopyMetadataSet]\<rparr>)
        else
          copy_loop env sched final 0
            (st\<lparr>copy_ops := CopyMetadataList
                   # (if r = 0 \<and> \<not> cp_pairs_empty env then [CopyMetadataSet] else [])\<rparr>))"

text \<open>
  The assertion of \<open>C_CopyRead\<close> holds for every read: a read that does not fail hands over
  as many bytes as its code says.
\<close>

definition reads_consistent :: "copy_env \<Rightarrow> bool" where
  "reads_consistent env \<longleftrightarrow>
     (\<forall>offset len. 0 \<le> fst (read_chunk env offset len) \<longrightarrow>
        int (length (snd (read_chunk env offset len))) = fst (read_chunk env offset len))"

text \<open>
  The first negative code among the calls of \<open>end_op\<close>, or 0 when there is none, and the
  invariant of the sweep: the throttle keeps that code; what has been written, or is being
  written, at an offset is the content read at that offset, which is not all zero; and a
  read that is outstanding at an offset has the length of the chunk at that offset.
  \<open>copy_post\<close> is what holds when the loop returns.
\<close>

fun first_error :: "copy_op list \<Rightarrow> int" where
  "first_error [] = 0"
| "first_error (EndOp r # rest) = (if r < 0 then r else first_error rest)"
| "first_error (_ # rest) = first_error rest"

definition written_ok :: "copy_env \<Rightarrow> uint64_t \<Rightarrow> byte list \<Rightarrow> bool" where
  "written_ok env offset bl \<longleftrightarrow>
     \<not> is_zero bl \<and> bl = snd (read_chunk env offset (chunk_len env offset))
     \<and> 0 \<le> fst (read_chunk env offset (chunk_len env offset))"

definition copy_inv :: "copy_env \<Rightarrow> copy_state \<Rightarrow> bool" where
  "copy_inv env st \<longleftrightarrow>
     m_ret st = first_error (copy_ops st)
     \<and> (\<forall>offset bl. AioWrite offset bl \<in> set (copy_ops st) \<longrightarrow> written_ok env offset bl)
     \<and> (\<forall>offset bl. Writing offset bl \<in> set (pending st) \<longrightarrow> written_ok env offset bl)
     \<and> (\<forall>offset len. Reading offset len \<in> set (pending st) \<longrightarrow> len = chunk_len env offset)"

definition copy_post :: "copy_env \<Rightarrow> int \<times> copy_state \<Rightarrow> bool" where
  "copy_post env res \<longleftrightarrow>
     copy_inv env (snd res) \<and> pending (snd res) = [] \<and> fst res = m_ret (snd res)
     \<and> (0 \<le> fst res \<longrightarrow>
          copy_ops (snd res) \<noteq> []
          \<and> last (copy_ops (snd res)) = UpdateProgress (src_size env) (src_size env))"

section \<open>Example inputs\<close>

text \<open>
  Concrete values on which the statements below are exercised: the feature bits as the
  public headers give them, a parent image opened at a protected snapshot with layering
  enabled, and answers of the store under which every call of \<open>clone\<close> succeeds.
\<close>

definition example_features :: feature_consts where
  "example_features =
     \<lparr>RBD_FEATURES_ALL = 255, RBD_FEATURE_LAYERING = 1, RBD_FEATURE_JOURNALING = 64\<rparr>"

definition example_parent :: parent_image where
  "example_parent =
     \<lparr>p_snap_id = 4, p_old_format = False, p_features = 65, p_size = 1024, p_order = 22\<rparr>"

definition example_opts :: ImageOptions where
  "example_opts = \<lparr>opt_format = None, opt_features = None, opt_order = None\<rparr>"

definition example_clone_env :: clone_env where
  "example_clone_env =
     \<lparr>cl_detect_format_r = - 2, cl_snap_protected_r = 0, cl_snap_protected = True,
      cl_tag_owner_r = 0, cl_is_primary = True, cl_create_r = 0, cl_open_r = 0,
      cl_set_parent_r = 0, cl_add_child_r = 0, cl_refresh_r = 0, cl_snap_protected2_r = 0,
      cl_snap_protected2 = True, cl_metadata_list_r = 0, cl_pairs_empty = False,
      cl_metadata_set_r = 0, cl_child_journaling = True, cl_mirror_mode_get_r = 0,
      cl_mirror_mode = 2, cl_mirror_enable_r = 0, cl_close_r = 0, cl_remove_child_r = - 2,
      cl_close_on_error_r = - 5, cl_remove_r = - 16\<rparr>"

definition example_disable_env :: disable_env where
  "example_disable_env =
     \<lparr>md_refresh_r = 0, md_mode_get_r = 0, md_mirror_mode = MIRROR_MODE_IMAGE,
      md_image_get_r = 0, md_image_set_r = 0,
      md_snaps =
        [\<lparr>sc_snap_id = 4, sc_list_r = 0, sc_image_info = []\<rparr>,
         \<lparr>sc_snap_id = 7, sc_list_r = 0,
          sc_image_info =
            [\<lparr>pc_pool_id = 2, pc_pool_name = ''rbd'', pc_ioctx_r = 0,
              pc_children = [(''10a4'', - 2)]\<rparr>,
             \<lparr>pc_pool_id = 5, pc_pool_name = ''clones'', pc_ioctx_r = 0,
              pc_children = [(''10b7'', 0)]\<rparr>]\<rparr>],
      md_disable_internal_r = 0, md_rollback_r = - 5\<rparr>"

definition example_enable_env :: enable_env where
  "example_enable_env =
     \<lparr>en_refresh_r = 0, en_mode_get_r = 0, en_mirror_mode = MIRROR_MODE_IMAGE,
      en_has_parent = False, en_parent_same_pool = False, en_parent_journaling = False,
      en_parent_image_get_r = 0, en_journaling = True, en_enable_r = 0\<rparr>"

definition example_mode_set_env :: mode_set_env where
  "example_mode_set_env =
     \<lparr>ms_peer_list_r = 0, ms_peers_empty = True, ms_mode_get_r = 0,
      ms_current_mode = MIRROR_MODE_DISABLED,
      ms_uuid = ''7f3c9a52-5d0e-4c0b-9a61-2f8e5b1c7d44'', ms_uuid_set_r = 0,
      ms_set_image_r = 0, ms_notify_image_r = 0, ms_list_images_r = 0,
      ms_images =
        [\<lparr>pi_name = ''vm-disk'', pi_id = ''10a4'', pi_get_features_r = 0, pi_journaling = True,
          pi_open_r = 0, pi_enable = example_enable_env, pi_close_r = 0\<rparr>],
      ms_list_mirror_r = 0,
      ms_mirror_images =
        [\<lparr>mi_id = ''10a4'', mi_get_r = 0, mi_state = MIRROR_IMAGE_STATE_ENABLED,
          mi_open_r = 0, mi_disable = example_disable_env\<lparr>md_snaps := []\<rparr>,
          mi_close_r = 0\<rparr>],
      ms_set_mode_r = 0, ms_notify_r = 0\<rparr>"

text \<open>
  A locker of the exclusive lock with the answers under which \<open>lock_break\<close> breaks its lock,
  the answers when there is no current locker, and a header lock held by one client with
  the answers under which \<open>break_lock\<close> blacklists the client and breaks the lock.
\<close>

definition example_locker :: Locker where
  "example_locker =
     \<lparr>entity = ''client.4123'', locker_cookie = ''auto 1'', address = ''10.0.0.7:0/33'',
      handle = 1\<rparr>"

definition example_lock_break_env :: lock_break_env where
  "example_lock_break_env =
     \<lparr>get_owner_r = 0, locker = example_locker, lb_blacklist_on_break_lock = True,
      break_r = 0\<rparr>"

definition example_vacated_env :: lock_break_env where
  "example_vacated_env =
     \<lparr>get_owner_r = - ENOENT,
      locker = \<lparr>entity = [], locker_cookie = [], address = [], handle = 0\<rparr>,
      lb_blacklist_on_break_lock = True, break_r = 0\<rparr>"

definition example_break_lock_env :: break_lock_env where
  "example_break_lock_env =
     \<lparr>bl_refresh_r = 0, parse_client = Some, blacklist_on_break_lock = True,
      blacklist_expire_seconds = 3600, lock_info_r = 0,
      lockers = [(\<lparr>id_locker = ''client.4123'', id_cookie = ''c1''\<rparr>,
                  \<lparr>addr = ''10.0.0.7:0/33''\<rparr>)],
      blacklist_r = 0, cls_break_r = 0\<rparr>"

text \<open>
  A source of 10 bytes with a stripe period of 4, so three chunks, of which the second is
  all zero; at most two operations outstanding; no metadata. In the second environment
  the write of the first chunk fails with \<open>-5\<close> and the read of the third with \<open>-2\<close>.
\<close>

definition example_copy_env :: copy_env where
  "example_copy_env =
     \<lparr>src_size = 10, dest_size = 10, period = 4, concurrent_management_ops = 2,
      cp_metadata_list_r = 0, cp_pairs_empty = True, cp_metadata_set_r = 0,
      read_chunk = (\<lambda>offset len. if offset = 4 then (4, [0, 0, 0, 0])
                                  else if offset = 8 then (2, [7, 9])
                                  else (4, [3, 0, 5, 6])),
      write_chunk = (\<lambda>offset bl. 0)\<rparr>"

definition example_failing_copy_env :: copy_env where
  "example_failing_copy_env =
     example_copy_env
       \<lparr>read_chunk := (\<lambda>offset len. if offset = 4 then (4, [0, 0, 0, 0])
                                    else if offset = 8 then (- 2, [])
                                    else (4, [3, 0, 5, 6])),
        write_chunk := (\<lambda>offset bl. if offset = 0 then - 5 else 0)\<rparr>"

lemmas example_defs =
  example_features_def example_parent_def example_opts_def example_clone_env_def

section \<open>Properties of clip\_io\<close>

lemma clip_io_no_snapshot:
  "clip_io image_size False off len = (- ENOENT, len)"
  by (simp add: clip_io_def)

lemma clip_io_zero_length:
  "clip_io image_size True off 0 = (0, 0)"
  by (simp add: clip_io_def)

lemma clip_io_start_past_end:
  "len \<noteq> 0 \<Longrightarrow> image_size \<le> off \<Longrightarrow> clip_io image_size True off len = (- EINVAL, len)"
  by (simp add: clip_io_def)

lemma clip_io_clips_without_overflow:
  assumes "len \<noteq> 0" and "off < image_size"
    and "unat off + unat len < 2 ^ 64"
    and "unat off + unat len > unat image_size"
  shows "clip_io image_size True off len = (0, image_size - off)"
proof -
  have "unat (off + len) = unat off + unat len"
    using assms(3) by (simp add: unat_word_ariths)
  then have "off + len > image_size"
    using assms(4) by (simp add: word_less_nat_alt)
  moreover have "\<not> image_size \<le> off"
    using assms(2) by simp
  ultimately show ?thesis
    using assms(1) by (simp add: clip_io_def)
qed

text \<open>
  C10. The clipping branch compares the wrapped sum \<open>off + *len\<close> with the image size. For
  an image of 10 bytes, offset 2 and length \<open>2^64 - 1\<close> the sum wraps to 1, the request is
  accepted and its length is left at \<open>2^64 - 1\<close>, although the extent reaches far past
  the end of the image and the clipped length would be 8.
\<close>

theorem clip_io_wrapped_extent_not_clipped:
  "clip_io 10 True 2 18446744073709551615 = (0, 18446744073709551615)
   \<and> unat (2 :: uint64_t) + unat (18446744073709551615 :: uint64_t) > unat (10 :: uint64_t)
   \<and> (10 :: uint64_t) - 2 = 8"
  by (simp add: clip_io_def)

section \<open>Properties of snap\_is\_protected\<close>

text \<open>
  C9. On an open image (the refresh did not fail) whose snapshot tables know the name,
  \<open>snap_is_protected\<close> succeeds and reports the snapshot protected exactly when its
  protection state is not \<open>UNPROTECTED\<close>, so the protected, the unprotecting and the
  protecting state all count as protected; for a name the image does not know it fails with
  \<open>-ENOENT\<close> and stores nothing.
\<close>

theorem snap_is_protected_iff_not_unprotected:
  assumes "0 \<le> refresh_r"
  shows "(snap_ids ictx snap_name = Some snap \<and> snap \<noteq> CEPH_NOSNAP \<and> snap_info ictx snap = Some info
          \<longrightarrow> snap_is_protected ictx refresh_r snap_name indeterminate
              = (0, Some (protection info \<noteq> UNPROTECTED)))
       \<and> (snap_ids ictx snap_name = None
          \<longrightarrow> snap_is_protected ictx refresh_r snap_name indeterminate = (- ENOENT, None))"
  using assms
  by (simp add: snap_is_protected_def get_snap_id_def is_snap_unprotected_def)

theorem snap_is_protected_witness:
  "snap_is_protected
     \<lparr>snap_ids = [''s1'' \<mapsto> 4], snap_info = [4 \<mapsto> \<lparr>snap_size = 10, protection = UNPROTECTING\<rparr>]\<rparr>
     0 ''s1'' False = (0, Some True)
   \<and> snap_is_protected
     \<lparr>snap_ids = [''s1'' \<mapsto> 4], snap_info = [4 \<mapsto> \<lparr>snap_size = 10, protection = UNPROTECTING\<rparr>]\<rparr>
     0 ''s2'' False = (- ENOENT, None)"
  using snap_is_protected_iff_not_unprotected
    [of 0 "\<lparr>snap_ids = [''s1'' \<mapsto> 4], snap_info = [4 \<mapsto> \<lparr>snap_size = 10, protection = UNPROTECTING\<rparr>]\<rparr>"
        "''s1''" 4 "\<lparr>snap_size = 10, protection = UNPROTECTING\<rparr>" False]
    snap_is_protected_iff_not_unprotected
    [of 0 "\<lparr>snap_ids = [''s1'' \<mapsto> 4], snap_info = [4 \<mapsto> \<lparr>snap_size = 10, protection = UNPROTECTING\<rparr>]\<rparr>"
        "''s2''" 4 "\<lparr>snap_size = 10, protection = UNPROTECTING\<rparr>" False]
  by (simp add: CEPH_NOSNAP_def)

section \<open>Properties of snap\_remove\<close>

text \<open>
  The abort is reached in exactly one situation, whatever the flag bits are: every earlier
  step succeeded, the snapshot was reported protected, the unprotect flag is set, the
  unprotect call succeeded and the second query succeeded and still reported the snapshot
  protected.
\<close>

lemma snap_remove_aborts_iff:
  "fst (snap_remove F U env flags) = Aborted
   \<longleftrightarrow> snap_remove_reaches_query F env flags \<and> 0 \<le> protected1_r env \<and> protected1 env
       \<and> flags AND U \<noteq> 0 \<and> 0 \<le> unprotect_r env \<and> 0 \<le> protected2_r env \<and> protected2 env"
  by (auto simp add: snap_remove_def snap_remove_reaches_query_def Let_def)

text \<open>
  C5. Take a call of \<open>snap_remove\<close> with the unprotect flag set that gets as far as a
  successful protection query. If the snapshot is not protected, no unprotect is issued and
  the call goes on to the removal, whose code it returns. If it is protected, unprotect is
  issued once, and when it succeeds the next call is the second protection query. The call
  ends in \<open>ceph_abort()\<close>, and not in a returned code, exactly when unprotect succeeded and
  the second query succeeded and still reported the snapshot protected.
\<close>

theorem snap_remove_unprotect_first:
  assumes "flags AND U \<noteq> 0"
    and "snap_remove_reaches_query F env flags"
    and "0 \<le> protected1_r env"
  shows "(\<not> protected1 env \<longrightarrow>
            fst (snap_remove F U env flags) = Returned (remove_r env)
            \<and> SnapUnprotect \<notin> set (snd (snap_remove F U env flags)))
       \<and> (protected1 env \<longrightarrow>
            (\<exists>rest. snd (snap_remove F U env flags)
                 = [GetSnapNamespace, RefreshIfRequired]
                   @ (if flags AND F \<noteq> 0 then [FlattenChildren] else [])
                   @ [SnapIsProtected, SnapUnprotect] @ rest
               \<and> SnapUnprotect \<notin> set rest
               \<and> (0 \<le> unprotect_r env \<longrightarrow> rest \<noteq> [] \<and> hd rest = SnapIsProtected)))
       \<and> (fst (snap_remove F U env flags) = Aborted
            \<longleftrightarrow> protected1 env \<and> 0 \<le> unprotect_r env \<and> 0 \<le> protected2_r env \<and> protected2 env)"
  using assms
  by (auto simp add: snap_remove_def snap_remove_reaches_query_def Let_def)

theorem snap_remove_unprotect_first_witness:
  "fst (snap_remove 2 1
      \<lparr>ns_r = 0, ns_is_user = True, sr_refresh_r = 0, flatten_r = 0, protected1_r = 0,
       protected1 = True, unprotect_r = 0, protected2_r = 0, protected2 = True, remove_r = 0\<rparr> 1)
     = Aborted
   \<and> fst (snap_remove 2 1
      \<lparr>ns_r = 0, ns_is_user = True, sr_refresh_r = 0, flatten_r = 0, protected1_r = 0,
       protected1 = False, unprotect_r = 0, protected2_r = 0, protected2 = False, remove_r = - 16\<rparr> 1)
     = Returned (- 16)"
  using snap_remove_unprotect_first
    [of 1 1 2 "\<lparr>ns_r = 0, ns_is_user = True, sr_refresh_r = 0, flatten_r = 0, protected1_r = 0,
       protected1 = True, unprotect_r = 0, protected2_r = 0, protected2 = True, remove_r = 0\<rparr>"]
    snap_remove_unprotect_first
    [of 1 1 2 "\<lparr>ns_r = 0, ns_is_user = True, sr_refresh_r = 0, flatten_r = 0, protected1_r = 0,
       protected1 = False, unprotect_r = 0, protected2_r = 0, protected2 = False, remove_r = - 16\<rparr>"]
  by (simp add: snap_remove_reaches_query_def)

section \<open>Properties of lock\_break and break\_lock\<close>

lemma find_client_address_in:
  "find_client_address ls c \<noteq> [] \<Longrightarrow>
   \<exists>it \<in> set ls. id_locker (fst it) = c \<and> addr (snd it) = find_client_address ls c"
  by (induction ls) (auto split: if_splits)

text \<open>
  C4, as the code has it. A request in a mode other than exclusive is refused with
  \<open>-EOPNOTSUPP\<close> before anything is read. A request in exclusive mode starts by reading the
  current locker. If the read succeeds and the stored address differs from the owner given
  by the caller, the call returns \<open>-EBUSY\<close> and sends no break request, so the lock is left
  as it is. If the address matches, one break request is sent for the stored locker with the
  image's blacklist setting: when blacklisting is configured the owner's address is put on
  the blacklist before the break is issued, and otherwise the break is issued alone. If
  there is no current locker, the read returns \<open>-ENOENT\<close> and so does \<open>lock_break\<close>, having
  sent nothing more: a no-op, told apart from the \<open>0\<close> of a lock that was broken, but reported
  with a negative code. In \<open>break_lock\<close>, when blacklisting is configured, a break of the
  header lock is only ever issued right after the address of a current locker of that
  client has been put on the blacklist, successfully; and for a client that holds the lock
  the blacklisting is attempted first, the break following only when it succeeded.
\<close>

theorem lock_break_protocol:
  "(lock_mode \<noteq> RBD_LOCK_MODE_EXCLUSIVE \<longrightarrow>
      lock_break env lock_mode lock_owner = (- EOPNOTSUPP, [])
      \<and> lock_break_steps env lock_mode lock_owner = [])
   \<and> (lock_mode = RBD_LOCK_MODE_EXCLUSIVE \<longrightarrow>
      (\<exists>rest. snd (lock_break env lock_mode lock_owner) = GetLockerRequest # rest)
      \<and> (\<exists>rest. lock_break_steps env lock_mode lock_owner = ReadLocker # rest))
   \<and> (lock_mode = RBD_LOCK_MODE_EXCLUSIVE \<and> 0 \<le> get_owner_r env
        \<and> address (locker env) \<noteq> lock_owner \<longrightarrow>
      lock_break env lock_mode lock_owner = (- EBUSY, [GetLockerRequest])
      \<and> lock_break_steps env lock_mode lock_owner = [ReadLocker])
   \<and> (lock_mode = RBD_LOCK_MODE_EXCLUSIVE \<and> 0 \<le> get_owner_r env
        \<and> address (locker env) = lock_owner \<longrightarrow>
      lock_break env lock_mode lock_owner
        = (if break_r env < 0 then break_r env else 0,
           [GetLockerRequest, BreakRequest (locker env) (lb_blacklist_on_break_lock env) True])
      \<and> lock_break_steps env lock_mode lock_owner
        = (if lb_blacklist_on_break_lock env
           then [ReadLocker, BlacklistLocker lock_owner, BreakLocker (locker env)]
           else [ReadLocker, BreakLocker (locker env)]))
   \<and> (lock_mode = RBD_LOCK_MODE_EXCLUSIVE \<and> get_owner_r env = - ENOENT \<longrightarrow>
      lock_break env lock_mode lock_owner = (- ENOENT, [GetLockerRequest])
      \<and> fst (lock_break env lock_mode lock_owner) < 0
      \<and> lock_break_steps env lock_mode lock_owner = [ReadLocker])
   \<and> (blacklist_on_break_lock benv
        \<and> ClsBreakLock ck c \<in> set (snd (break_lock benv client ck')) \<longrightarrow>
      (\<exists>it \<in> set (lockers benv). \<exists>rest.
         id_locker (fst it) = c \<and> addr (snd it) \<noteq> [] \<and> 0 \<le> blacklist_r benv
         \<and> snd (break_lock benv client ck')
            = [BreakLockRefresh, GetLockInfo,
               BlacklistAdd (addr (snd it)) (blacklist_expire_seconds benv),
               ClsBreakLock ck c] @ rest
         \<and> ClsBreakLock ck c \<notin> set rest))
   \<and> (blacklist_on_break_lock benv \<and> 0 \<le> bl_refresh_r benv
        \<and> parse_client benv client = Some c \<and> 0 \<le> lock_info_r benv
        \<and> find_client_address (lockers benv) c \<noteq> [] \<longrightarrow>
      break_lock benv client ck'
        = (if blacklist_r benv < 0 then
             (blacklist_r benv,
              [BreakLockRefresh, GetLockInfo,
               BlacklistAdd (find_client_address (lockers benv) c) (blacklist_expire_seconds benv)])
           else if cls_break_r benv < 0 then
             (cls_break_r benv,
              [BreakLockRefresh, GetLockInfo,
               BlacklistAdd (find_client_address (lockers benv) c) (blacklist_expire_seconds benv),
               ClsBreakLock ck' c])
           else
             (0, [BreakLockRefresh, GetLockInfo,
                  BlacklistAdd (find_client_address (lockers benv) c) (blacklist_expire_seconds benv),
                  ClsBreakLock ck' c, NotifyUpdate])))"
proof (intro conjI impI)
  assume a: "blacklist_on_break_lock benv
             \<and> ClsBreakLock ck c \<in> set (snd (break_lock benv client ck'))"
  then obtain lc where lc: "parse_client benv client = Some lc"
    by (cases "parse_client benv client") (auto simp: break_lock_def split: if_splits)
  from a lc have ne: "find_client_address (lockers benv) lc \<noteq> []"
    by (auto simp: break_lock_def Let_def split: if_splits)
  from a lc ne have eqs: "ck = ck'" "c = lc" "0 \<le> blacklist_r benv"
    by (auto simp: break_lock_def Let_def split: if_splits)
  from find_client_address_in [OF ne] obtain it where
    it: "it \<in> set (lockers benv)" "id_locker (fst it) = lc"
        "addr (snd it) = find_client_address (lockers benv) lc" by blast
  from a lc ne eqs have "\<exists>rest. snd (break_lock benv client ck')
            = [BreakLockRefresh, GetLockInfo,
               BlacklistAdd (find_client_address (lockers benv) lc) (blacklist_expire_seconds benv),
               ClsBreakLock ck c] @ rest
         \<and> ClsBreakLock ck c \<notin> set rest"
    by (auto simp: break_lock_def Let_def split: if_splits)
  with it ne eqs show "\<exists>it \<in> set (lockers benv). \<exists>rest.
         id_locker (fst it) = c \<and> addr (snd it) \<noteq> [] \<and> 0 \<le> blacklist_r benv
         \<and> snd (break_lock benv client ck')
            = [BreakLockRefresh, GetLockInfo,
               BlacklistAdd (addr (snd it)) (blacklist_expire_seconds benv),
               ClsBreakLock ck c] @ rest
         \<and> ClsBreakLock ck c \<notin> set rest"
    by (intro bexI [of _ it]) auto
next
  assume "blacklist_on_break_lock benv \<and> 0 \<le> bl_refresh_r benv
        \<and> parse_client benv client = Some c \<and> 0 \<le> lock_info_r benv
        \<and> find_client_address (lockers benv) c \<noteq> []"
  then show "break_lock benv client ck'
        = (if blacklist_r benv < 0 then
             (blacklist_r benv,
              [BreakLockRefresh, GetLockInfo,
               BlacklistAdd (find_client_address (lockers benv) c) (blacklist_expire_seconds benv)])
           else if cls_break_r benv < 0 then
             (cls_break_r benv,
              [BreakLockRefresh, GetLockInfo,
               BlacklistAdd (find_client_address (lockers benv) c) (blacklist_expire_seconds benv),
               ClsBreakLock ck' c])
           else
             (0, [BreakLockRefresh, GetLockInfo,
                  BlacklistAdd (find_client_address (lockers benv) c) (blacklist_expire_seconds benv),
                  ClsBreakLock ck' c, NotifyUpdate]))"
    by (simp add: break_lock_def Let_def)
qed (auto simp: lock_break_def lock_break_steps_def Let_def errno_defs)

theorem lock_break_protocol_witness:
  "lock_break example_lock_break_env RBD_LOCK_MODE_SHARED ''10.0.0.7:0/33'' = (- EOPNOTSUPP, [])
   \<and> lock_break example_lock_break_env RBD_LOCK_MODE_EXCLUSIVE ''10.0.0.9:0/12''
       = (- EBUSY, [GetLockerRequest])
   \<and> lock_break_steps example_lock_break_env RBD_LOCK_MODE_EXCLUSIVE ''10.0.0.9:0/12''
       = [ReadLocker]
   \<and> lock_break example_lock_break_env RBD_LOCK_MODE_EXCLUSIVE ''10.0.0.7:0/33''
       = (0, [GetLockerRequest, BreakRequest example_locker True True])
   \<and> lock_break_steps example_lock_break_env RBD_LOCK_MODE_EXCLUSIVE ''10.0.0.7:0/33''
       = [ReadLocker, BlacklistLocker ''10.0.0.7:0/33'', BreakLocker example_locker]
   \<and> lock_break_steps (example_lock_break_env\<lparr>lb_blacklist_on_break_lock := False\<rparr>)
         RBD_LOCK_MODE_EXCLUSIVE ''10.0.0.7:0/33''
       = [ReadLocker, BreakLocker example_locker]
   \<and> lock_break example_vacated_env
         RBD_LOCK_MODE_EXCLUSIVE ''10.0.0.7:0/33''
       = (- ENOENT, [GetLockerRequest])
   \<and> break_lock example_break_lock_env ''client.4123'' ''c1''
       = (0, [BreakLockRefresh, GetLockInfo, BlacklistAdd ''10.0.0.7:0/33'' 3600,
              ClsBreakLock ''c1'' ''client.4123'', NotifyUpdate])
   \<and> break_lock (example_break_lock_env\<lparr>blacklist_r := - 1\<rparr>) ''client.4123'' ''c1''
       = (- 1, [BreakLockRefresh, GetLockInfo, BlacklistAdd ''10.0.0.7:0/33'' 3600])"
proof -
  have h1: "RBD_LOCK_MODE_SHARED \<noteq> RBD_LOCK_MODE_EXCLUSIVE" by simp
  from lock_break_protocol [where lock_mode = RBD_LOCK_MODE_SHARED and env = example_lock_break_env
      and lock_owner = "''10.0.0.7:0/33''", THEN conjunct1] h1
  have c1: "lock_break example_lock_break_env RBD_LOCK_MODE_SHARED ''10.0.0.7:0/33'' = (- EOPNOTSUPP, [])
      \<and> lock_break_steps example_lock_break_env RBD_LOCK_MODE_SHARED ''10.0.0.7:0/33'' = []"
    by (rule mp)
  have h2: "RBD_LOCK_MODE_EXCLUSIVE = RBD_LOCK_MODE_EXCLUSIVE \<and> 0 \<le> get_owner_r example_lock_break_env
      \<and> address (locker example_lock_break_env) \<noteq> ''10.0.0.9:0/12''"
    by (simp add: example_lock_break_env_def example_locker_def)
  from lock_break_protocol [where lock_mode = RBD_LOCK_MODE_EXCLUSIVE and env = example_lock_break_env
      and lock_owner = "''10.0.0.9:0/12''", THEN conjunct2, THEN conjunct2, THEN conjunct1] h2
  have c2: "lock_break example_lock_break_env RBD_LOCK_MODE_EXCLUSIVE ''10.0.0.9:0/12''
        = (- EBUSY, [GetLockerRequest])
      \<and> lock_break_steps example_lock_break_env RBD_LOCK_MODE_EXCLUSIVE ''10.0.0.9:0/12''
        = [ReadLocker]"
    by (rule mp)
  have h3: "RBD_LOCK_MODE_EXCLUSIVE = RBD_LOCK_MODE_EXCLUSIVE \<and> 0 \<le> get_owner_r example_lock_break_env
      \<and> address (locker example_lock_break_env) = ''10.0.0.7:0/33''"
    by (simp add: example_lock_break_env_def example_locker_def)
  from lock_break_protocol [where lock_mode = RBD_LOCK_MODE_EXCLUSIVE and env = example_lock_break_env
      and lock_owner = "''10.0.0.7:0/33''", THEN conjunct2, THEN conjunct2, THEN conjunct2,
      THEN conjunct1] h3
  have "lock_break example_lock_break_env RBD_LOCK_MODE_EXCLUSIVE ''10.0.0.7:0/33''
        = (if break_r example_lock_break_env < 0 then break_r example_lock_break_env else 0,
           [GetLockerRequest,
            BreakRequest (locker example_lock_break_env)
              (lb_blacklist_on_break_lock example_lock_break_env) True])
      \<and> lock_break_steps example_lock_break_env RBD_LOCK_MODE_EXCLUSIVE ''10.0.0.7:0/33''
        = (if lb_blacklist_on_break_lock example_lock_break_env
           then [ReadLocker, BlacklistLocker ''10.0.0.7:0/33'',
                 BreakLocker (locker example_lock_break_env)]
           else [ReadLocker, BreakLocker (locker example_lock_break_env)])"
    by (rule mp)
  then have c3: "lock_break example_lock_break_env RBD_LOCK_MODE_EXCLUSIVE ''10.0.0.7:0/33''
        = (0, [GetLockerRequest, BreakRequest example_locker True True])
      \<and> lock_break_steps example_lock_break_env RBD_LOCK_MODE_EXCLUSIVE ''10.0.0.7:0/33''
        = [ReadLocker, BlacklistLocker ''10.0.0.7:0/33'', BreakLocker example_locker]"
    by (simp add: example_lock_break_env_def)
  have h4: "RBD_LOCK_MODE_EXCLUSIVE = RBD_LOCK_MODE_EXCLUSIVE
      \<and> 0 \<le> get_owner_r (example_lock_break_env\<lparr>lb_blacklist_on_break_lock := False\<rparr>)
      \<and> address (locker (example_lock_break_env\<lparr>lb_blacklist_on_break_lock := False\<rparr>))
          = ''10.0.0.7:0/33''"
    by (simp add: example_lock_break_env_def example_locker_def)
  from lock_break_protocol [where lock_mode = RBD_LOCK_MODE_EXCLUSIVE
      and env = "example_lock_break_env\<lparr>lb_blacklist_on_break_lock := False\<rparr>"
      and lock_owner = "''10.0.0.7:0/33''", THEN conjunct2, THEN conjunct2, THEN conjunct2,
      THEN conjunct1, THEN mp, OF h4, THEN conjunct2]
  have c4: "lock_break_steps (example_lock_break_env\<lparr>lb_blacklist_on_break_lock := False\<rparr>)
         RBD_LOCK_MODE_EXCLUSIVE ''10.0.0.7:0/33''
       = [ReadLocker, BreakLocker example_locker]"
    by (simp add: example_lock_break_env_def)
  have h5: "RBD_LOCK_MODE_EXCLUSIVE = RBD_LOCK_MODE_EXCLUSIVE
      \<and> get_owner_r example_vacated_env = - ENOENT"
    by (simp add: example_vacated_env_def)
  from lock_break_protocol [where lock_mode = RBD_LOCK_MODE_EXCLUSIVE
      and env = example_vacated_env
      and lock_owner = "''10.0.0.7:0/33''", THEN conjunct2, THEN conjunct2, THEN conjunct2,
      THEN conjunct2, THEN conjunct1, THEN mp, OF h5, THEN conjunct1]
  have c5: "lock_break example_vacated_env
         RBD_LOCK_MODE_EXCLUSIVE ''10.0.0.7:0/33''
       = (- ENOENT, [GetLockerRequest])" .
  have h6: "blacklist_on_break_lock example_break_lock_env \<and> 0 \<le> bl_refresh_r example_break_lock_env
      \<and> parse_client example_break_lock_env ''client.4123'' = Some ''client.4123''
      \<and> 0 \<le> lock_info_r example_break_lock_env
      \<and> find_client_address (lockers example_break_lock_env) ''client.4123'' \<noteq> []"
    by (simp add: example_break_lock_env_def)
  from lock_break_protocol [where benv = example_break_lock_env and client = "''client.4123''"
      and c = "''client.4123''" and ck' = "''c1''", THEN conjunct2, THEN conjunct2, THEN conjunct2,
      THEN conjunct2, THEN conjunct2, THEN conjunct2, THEN mp, OF h6]
  have c6: "break_lock example_break_lock_env ''client.4123'' ''c1''
       = (0, [BreakLockRefresh, GetLockInfo, BlacklistAdd ''10.0.0.7:0/33'' 3600,
              ClsBreakLock ''c1'' ''client.4123'', NotifyUpdate])"
    by (simp add: example_break_lock_env_def)
  have h7: "blacklist_on_break_lock (example_break_lock_env\<lparr>blacklist_r := - 1\<rparr>)
      \<and> 0 \<le> bl_refresh_r (example_break_lock_env\<lparr>blacklist_r := - 1\<rparr>)
      \<and> parse_client (example_break_lock_env\<lparr>blacklist_r := - 1\<rparr>) ''client.4123''
          = Some ''client.4123''
      \<and> 0 \<le> lock_info_r (example_break_lock_env\<lparr>blacklist_r := - 1\<rparr>)
      \<and> find_client_address (lockers (example_break_lock_env\<lparr>blacklist_r := - 1\<rparr>))
           ''client.4123'' \<noteq> []"
    by (simp add: example_break_lock_env_def)
  from lock_break_protocol [where benv = "example_break_lock_env\<lparr>blacklist_r := - 1\<rparr>"
      and client = "''client.4123''"
      and c = "''client.4123''" and ck' = "''c1''", THEN conjunct2, THEN conjunct2, THEN conjunct2,
      THEN conjunct2, THEN conjunct2, THEN conjunct2, THEN mp, OF h7]
  have c7: "break_lock (example_break_lock_env\<lparr>blacklist_r := - 1\<rparr>) ''client.4123'' ''c1''
       = (- 1, [BreakLockRefresh, GetLockInfo, BlacklistAdd ''10.0.0.7:0/33'' 3600])"
    by (simp add: example_break_lock_env_def)
  from c1 have c1a: "lock_break example_lock_break_env RBD_LOCK_MODE_SHARED ''10.0.0.7:0/33''
      = (- EOPNOTSUPP, [])" by (rule conjunct1)
  show ?thesis
    by (intro conjI)
      (rule c1a, rule c2 [THEN conjunct1], rule c2 [THEN conjunct2], rule c3 [THEN conjunct1],
       rule c3 [THEN conjunct2], rule c4, rule c5, rule c6, rule c7)
qed

text \<open>
  No current locker: the request to read the locker answers \<open>-ENOENT\<close>, and \<open>lock_break\<close>
  hands that negative code to its caller. And a request in shared mode is refused without
  the locker being read.
\<close>

theorem lock_break_vacated_counterexample:
  "lock_break \<lparr>get_owner_r = - ENOENT,
       locker = \<lparr>entity = [], locker_cookie = [], address = [], handle = 0\<rparr>,
       lb_blacklist_on_break_lock = True, break_r = 0\<rparr>
     RBD_LOCK_MODE_EXCLUSIVE ''10.0.0.7:0/33''
     = (- 2, [GetLockerRequest])
   \<and> \<not> 0 \<le> fst (lock_break \<lparr>get_owner_r = - ENOENT,
       locker = \<lparr>entity = [], locker_cookie = [], address = [], handle = 0\<rparr>,
       lb_blacklist_on_break_lock = True, break_r = 0\<rparr>
     RBD_LOCK_MODE_EXCLUSIVE ''10.0.0.7:0/33'')
   \<and> lock_break example_lock_break_env RBD_LOCK_MODE_SHARED ''10.0.0.7:0/33'' = (- 95, [])"
  by (simp add: lock_break_def ENOENT_def EOPNOTSUPP_def example_lock_break_env_def)

section \<open>Properties of clone\<close>

lemma clone_validate_Inl:
  assumes "clone_validate fc p env c_opts np = Inl (r, ops)"
  shows "r < 0 \<and> set ops \<subseteq> {DetectFormat, IsTagOwner}"
  using assms
  by (auto simp add: clone_validate_def Let_def errno_defs split: if_splits)

lemma clone_validate_Inr:
  assumes "clone_validate fc p env c_opts np = Inr (sz, opts, ops)"
  shows "p_snap_id p \<noteq> CEPH_NOSNAP
       \<and> cl_detect_format_r env = - ENOENT \<and> \<not> p_old_format p
       \<and> p_features p AND RBD_FEATURE_LAYERING fc = RBD_FEATURE_LAYERING fc
       \<and> 0 \<le> cl_snap_protected_r env \<and> cl_snap_protected env
       \<and> sz = p_size p
       \<and> set ops \<subseteq> {DetectFormat, IsTagOwner}
       \<and> opt_features opts
          = Some (case opt_features c_opts of Some f \<Rightarrow> f | None \<Rightarrow> p_features p)
       \<and> (case opt_features c_opts of Some f \<Rightarrow> f | None \<Rightarrow> p_features p)
            AND RBD_FEATURE_LAYERING fc = RBD_FEATURE_LAYERING fc"
  using assms
  by (auto simp add: clone_validate_def Let_def split: if_splits)

lemma clone_child_ops:
  "set (snd (clone_child env np sp))
     \<subseteq> {OpenChild, SetParent, AddChild, RefreshParent, MetadataList, MetadataSet,
         MirrorModeGet, MirrorEnable, CloseChild, RemoveChild, RemoveImage}"
  by (auto simp add: clone_child_def Let_def err_remove_child_def err_close_child_def err_remove_def)

lemma clone_early:
  assumes "clone_validate fc p env c_opts np = Inl (r, ops)"
  shows "clone fc p env c_opts np = (r, ops)"
  using assms by (simp add: clone_def)

lemma clone_late:
  assumes "clone_validate fc p env c_opts np = Inr (sz, opts, ops)"
  shows "clone fc p env c_opts np =
           (if cl_create_r env < 0 then (cl_create_r env, ops @ [Create sz opts])
            else (fst (clone_child env np True),
                  ops @ [Create sz opts] @ snd (clone_child env np True)))"
  using assms clone_validate_Inr [OF assms]
  by (simp add: clone_def Let_def split_beta)

lemma clone_child_op_in:
  assumes "x \<in> set (snd (clone fc p env c_opts np))"
    and "x \<in> {OpenChild, SetParent, AddChild, RefreshParent, MetadataList, MetadataSet,
         MirrorModeGet, MirrorEnable, CloseChild, RemoveChild, RemoveImage}"
  shows "\<exists>sz opts ops. clone_validate fc p env c_opts np = Inr (sz, opts, ops)
          \<and> 0 \<le> cl_create_r env
          \<and> clone fc p env c_opts np =
               (fst (clone_child env np True),
                ops @ [Create sz opts] @ snd (clone_child env np True))
          \<and> x \<in> set (snd (clone_child env np True))"
proof (cases "clone_validate fc p env c_opts np")
  case (Inl early)
  obtain r ops where "early = (r, ops)" by (cases early)
  with Inl clone_early [of fc p env c_opts np r ops] clone_validate_Inl [of fc p env c_opts np r ops]
    assms show ?thesis by auto
next
  case (Inr late)
  obtain sz opts ops where l: "late = (sz, opts, ops)" by (cases late)
  from Inr l have v: "clone_validate fc p env c_opts np = Inr (sz, opts, ops)" by simp
  from clone_validate_Inr [OF v] have ops: "set ops \<subseteq> {DetectFormat, IsTagOwner}" by simp
  show ?thesis
  proof (cases "cl_create_r env < 0")
    case True
    with clone_late [OF v] assms ops show ?thesis by auto
  next
    case False
    with clone_late [OF v] assms ops v show ?thesis by auto
  qed
qed

lemma child_open_fail:
  "OpenChild \<in> set (snd (clone_child env np True)) \<and> cl_open_r env < 0 \<Longrightarrow>
   clone_child env np True = (cl_open_r env, [OpenChild, RemoveImage])"
  by (simp add: clone_child_def err_remove_def)

lemma child_set_parent_fail:
  "SetParent \<in> set (snd (clone_child env np True)) \<and> cl_set_parent_r env < 0 \<Longrightarrow>
   clone_child env np True = (cl_set_parent_r env, [OpenChild, SetParent, CloseChild, RemoveImage])"
  by (auto simp add: clone_child_def err_remove_def err_close_child_def split: if_splits)

lemma child_add_child_fail:
  "AddChild \<in> set (snd (clone_child env np True)) \<and> cl_add_child_r env < 0 \<Longrightarrow>
   clone_child env np True
     = (cl_add_child_r env, [OpenChild, SetParent, AddChild, CloseChild, RemoveImage])"
  by (auto simp add: clone_child_def err_remove_def err_close_child_def split: if_splits)

lemma child_recheck_fail:
  "RefreshParent \<in> set (snd (clone_child env np True))
   \<and> (cl_refresh_r env < 0
      \<or> cl_refresh_r env = 0 \<and> (cl_snap_protected2_r env < 0 \<or> \<not> cl_snap_protected2 env)) \<Longrightarrow>
   clone_child env np True
     = (- EINVAL, [OpenChild, SetParent, AddChild, RefreshParent, RemoveChild, CloseChild, RemoveImage])"
  by (auto simp add: clone_child_def Let_def err_remove_def err_close_child_def
        err_remove_child_def split: if_splits)

lemma child_metadata_list_fail:
  "MetadataList \<in> set (snd (clone_child env np True))
   \<and> cl_metadata_list_r env < 0 \<and> cl_metadata_list_r env \<noteq> - EOPNOTSUPP
   \<and> cl_metadata_list_r env \<noteq> - EIO \<Longrightarrow>
   clone_child env np True
     = (cl_metadata_list_r env,
        [OpenChild, SetParent, AddChild, RefreshParent, MetadataList,
         RemoveChild, CloseChild, RemoveImage])"
  by (auto simp add: clone_child_def Let_def err_remove_def err_close_child_def
        err_remove_child_def split: if_splits)

lemma child_metadata_set_fail:
  "MetadataSet \<in> set (snd (clone_child env np True)) \<and> cl_metadata_set_r env < 0 \<Longrightarrow>
   clone_child env np True
     = (cl_metadata_set_r env,
        [OpenChild, SetParent, AddChild, RefreshParent, MetadataList, MetadataSet,
         RemoveChild, CloseChild, RemoveImage])"
  by (auto simp add: clone_child_def Let_def err_remove_def err_close_child_def
        err_remove_child_def split: if_splits)

lemma child_mirror_mode_get_fail:
  "MirrorModeGet \<in> set (snd (clone_child env np True)) \<and> cl_mirror_mode_get_r env < 0
   \<and> cl_mirror_mode_get_r env \<noteq> - ENOENT \<Longrightarrow>
   fst (clone_child env np True) = cl_mirror_mode_get_r env \<and>
   filter (\<lambda>op. op \<in> {RemoveChild, CloseChild, RemoveImage}) (snd (clone_child env np True))
     = [RemoveChild, CloseChild, RemoveImage]"
  by (auto simp add: clone_child_def Let_def err_remove_def err_close_child_def
        err_remove_child_def split: if_splits)

lemma child_mirror_enable_fail:
  "MirrorEnable \<in> set (snd (clone_child env np True)) \<and> cl_mirror_enable_r env < 0 \<Longrightarrow>
   fst (clone_child env np True) = cl_mirror_enable_r env \<and>
   filter (\<lambda>op. op \<in> {RemoveChild, CloseChild, RemoveImage}) (snd (clone_child env np True))
     = [RemoveChild, CloseChild, RemoveImage]"
  by (auto simp add: clone_child_def Let_def err_remove_def err_close_child_def
        err_remove_child_def split: if_splits)

lemma child_undo_last:
  "filter (\<lambda>op. op \<notin> {RemoveChild, CloseChild, RemoveImage}) (snd (clone_child env np sp))
     @ filter (\<lambda>op. op \<in> {RemoveChild, CloseChild, RemoveImage}) (snd (clone_child env np sp))
   = snd (clone_child env np sp)"
  by (simp add: clone_child_def Let_def err_remove_def err_close_child_def err_remove_child_def)

lemma clone_undo_last:
  "filter (\<lambda>op. op \<notin> {RemoveChild, CloseChild, RemoveImage}) (snd (clone fc p env c_opts np))
     @ filter (\<lambda>op. op \<in> {RemoveChild, CloseChild, RemoveImage}) (snd (clone fc p env c_opts np))
   = snd (clone fc p env c_opts np)"
proof (cases "clone_validate fc p env c_opts np")
  case (Inl early)
  obtain r ops where e: "early = (r, ops)" by (cases early)
  from Inl e clone_validate_Inl [of fc p env c_opts np r ops]
  have "set ops \<subseteq> {DetectFormat, IsTagOwner}" by simp
  then have "filter (\<lambda>op. op \<notin> {RemoveChild, CloseChild, RemoveImage}) ops = ops"
    "filter (\<lambda>op. op \<in> {RemoveChild, CloseChild, RemoveImage}) ops = []"
    by (auto simp add: filter_id_conv filter_empty_conv)
  with Inl e clone_early [of fc p env c_opts np r ops] show ?thesis by simp
next
  case (Inr late)
  obtain sz opts ops where l: "late = (sz, opts, ops)" by (cases late)
  from Inr l have v: "clone_validate fc p env c_opts np = Inr (sz, opts, ops)" by simp
  from clone_validate_Inr [OF v] have "set ops \<subseteq> {DetectFormat, IsTagOwner}" by simp
  then have f: "filter (\<lambda>op. op \<notin> {RemoveChild, CloseChild, RemoveImage}) ops = ops"
    "filter (\<lambda>op. op \<in> {RemoveChild, CloseChild, RemoveImage}) ops = []"
    by (auto simp add: filter_id_conv filter_empty_conv)
  show ?thesis
    using clone_late [OF v] f child_undo_last [of env np True]
    by (cases "cl_create_r env < 0") simp_all
qed


lemma child_success:
  assumes "0 \<le> fst (clone_child env np True)"
  shows "0 \<le> cl_refresh_r env
       \<and> (cl_refresh_r env = 0 \<longrightarrow> 0 \<le> cl_snap_protected2_r env \<and> cl_snap_protected2 env)"
  using assms
  by (auto simp add: clone_child_def Let_def errno_defs split: if_splits)

lemma child_registered:
  assumes "AddChild \<in> set (snd (clone_child env np True))" "0 \<le> cl_add_child_r env"
  shows "\<exists>rest. snd (clone_child env np True)
           = [OpenChild, SetParent, AddChild, RefreshParent] @ rest"
  using assms
  by (auto simp add: clone_child_def Let_def err_remove_def err_close_child_def
        err_remove_child_def split: if_splits)

lemma clone_success:
  assumes "0 \<le> fst (clone fc p env c_opts np)"
  shows "\<exists>sz opts ops. clone_validate fc p env c_opts np = Inr (sz, opts, ops)
          \<and> 0 \<le> cl_create_r env
          \<and> clone fc p env c_opts np =
               (fst (clone_child env np True),
                ops @ [Create sz opts] @ snd (clone_child env np True))"
proof (cases "clone_validate fc p env c_opts np")
  case (Inl early)
  obtain r ops where "early = (r, ops)" by (cases early)
  with Inl clone_early [of fc p env c_opts np r ops] clone_validate_Inl [of fc p env c_opts np r ops]
    assms show ?thesis by auto
next
  case (Inr late)
  obtain sz opts ops where l: "late = (sz, opts, ops)" by (cases late)
  from Inr l have v: "clone_validate fc p env c_opts np = Inr (sz, opts, ops)" by simp
  show ?thesis
    using clone_late [OF v] assms v by (cases "cl_create_r env < 0") auto
qed

lemma clone_create_in:
  assumes "Create sz opts \<in> set (snd (clone fc p env c_opts np))"
  shows "\<exists>ops. clone_validate fc p env c_opts np = Inr (sz, opts, ops)"
proof (cases "clone_validate fc p env c_opts np")
  case (Inl early)
  obtain r ops where "early = (r, ops)" by (cases early)
  with Inl clone_early [of fc p env c_opts np r ops] clone_validate_Inl [of fc p env c_opts np r ops]
    assms show ?thesis by auto
next
  case (Inr late)
  obtain sz' opts' ops where l: "late = (sz', opts', ops)" by (cases late)
  from Inr l have v: "clone_validate fc p env c_opts np = Inr (sz', opts', ops)" by simp
  from clone_validate_Inr [OF v] have o: "set ops \<subseteq> {DetectFormat, IsTagOwner}" by simp
  have "Create sz opts \<notin> set (snd (clone_child env np True))"
    using clone_child_ops [of env np True] by auto
  with clone_late [OF v] assms o have "sz = sz' \<and> opts = opts'"
    by (cases "cl_create_r env < 0") auto
  with v show ?thesis by simp
qed


lemma clone_validate_reaches_layering:
  assumes "p_snap_id p \<noteq> CEPH_NOSNAP"
    and "\<forall>v. opt_format c_opts = Some v \<longrightarrow> 2 \<le> v"
    and "\<forall>f. opt_features c_opts = Some f \<longrightarrow> f AND NOT (RBD_FEATURES_ALL fc) = 0"
    and "cl_detect_format_r env = - ENOENT" and "\<not> p_old_format p"
    and "p_features p AND RBD_FEATURE_LAYERING fc = RBD_FEATURE_LAYERING fc"
    and "0 \<le> cl_snap_protected_r env" and "cl_snap_protected env"
    and "p_features p AND RBD_FEATURE_JOURNALING fc \<noteq> 0 \<longrightarrow>
                 0 \<le> cl_tag_owner_r env \<and> (cl_is_primary env \<or> np \<noteq> [])"
    and "(case opt_features c_opts of Some f \<Rightarrow> f | None \<Rightarrow> p_features p)
           AND RBD_FEATURE_LAYERING fc \<noteq> RBD_FEATURE_LAYERING fc"
  shows "clone_validate fc p env c_opts np
     = Inl (- ENOSYS, DetectFormat #
             (if p_features p AND RBD_FEATURE_JOURNALING fc \<noteq> 0 then [IsTagOwner] else []))"
proof -
  have f: "\<not> (case opt_format (if opt_format c_opts = None then c_opts\<lparr>opt_format := Some 2\<rparr>
                                 else c_opts) of Some v \<Rightarrow> v | None \<Rightarrow> 0) < 2"
    using assms(2) by (cases "opt_format c_opts") (simp_all add: not_less)
  have g: "\<not> (case opt_features (if opt_format c_opts = None then c_opts\<lparr>opt_format := Some 2\<rparr>
                                 else c_opts) of
                   Some features \<Rightarrow> features AND NOT (RBD_FEATURES_ALL fc) \<noteq> 0
                 | None \<Rightarrow> False)"
    using assms(3) by (cases "opt_features c_opts") simp_all
  have h: "opt_features (if opt_format c_opts = None then c_opts\<lparr>opt_format := Some 2\<rparr>
                                 else c_opts) = opt_features c_opts"
    by simp
  show ?thesis
    unfolding clone_validate_def Let_def
    using assms(1,4-9) f g assms(10)
    by (simp only: h if_False if_True not_less not_not simp_thms) (auto simp add: not_less)
qed

lemma clone_checks_pass_validate:
  assumes "clone_checks_pass fc p env c_opts np"
  shows "\<exists>opts. clone_validate fc p env c_opts np
     = Inr (p_size p, opts, DetectFormat #
             (if p_features p AND RBD_FEATURE_JOURNALING fc \<noteq> 0 then [IsTagOwner] else []))"
proof -
  have f: "\<not> (case opt_format (if opt_format c_opts = None then c_opts\<lparr>opt_format := Some 2\<rparr>
                                 else c_opts) of Some v \<Rightarrow> v | None \<Rightarrow> 0) < 2"
    using assms by (cases "opt_format c_opts") (simp_all add: not_less clone_checks_pass_def)
  have g: "\<not> (case opt_features (if opt_format c_opts = None then c_opts\<lparr>opt_format := Some 2\<rparr>
                                 else c_opts) of
                   Some features \<Rightarrow> features AND NOT (RBD_FEATURES_ALL fc) \<noteq> 0
                 | None \<Rightarrow> False)"
    using assms by (cases "opt_features c_opts") (simp_all add: clone_checks_pass_def)
  have h: "opt_features (if opt_format c_opts = None then c_opts\<lparr>opt_format := Some 2\<rparr>
                                 else c_opts) = opt_features c_opts"
    by simp
  from assms have a: "p_snap_id p \<noteq> CEPH_NOSNAP" "cl_detect_format_r env = - ENOENT"
    "\<not> p_old_format p"
    "p_features p AND RBD_FEATURE_LAYERING fc = RBD_FEATURE_LAYERING fc"
    "0 \<le> cl_snap_protected_r env" "cl_snap_protected env"
    "p_features p AND RBD_FEATURE_JOURNALING fc \<noteq> 0 \<longrightarrow>
                 0 \<le> cl_tag_owner_r env \<and> (cl_is_primary env \<or> np \<noteq> [])"
    "(case opt_features c_opts of Some f \<Rightarrow> f | None \<Rightarrow> p_features p)
          AND RBD_FEATURE_LAYERING fc = RBD_FEATURE_LAYERING fc"
    by (auto simp add: clone_checks_pass_def)
  show ?thesis
    unfolding clone_validate_def Let_def
    using a f g
    by (simp only: h if_False if_True not_less not_not simp_thms) (auto simp add: not_less)
qed

lemma clone_checks_pass_iff:
  "clone_checks_pass fc p env c_opts np \<longleftrightarrow> (\<exists>x. clone_validate fc p env c_opts np = Inr x)"
proof
  assume "clone_checks_pass fc p env c_opts np"
  from clone_checks_pass_validate [OF this] show "\<exists>x. clone_validate fc p env c_opts np = Inr x"
    by blast
next
  assume "\<exists>x. clone_validate fc p env c_opts np = Inr x"
  then show "clone_checks_pass fc p env c_opts np"
    by (auto simp add: clone_validate_def clone_checks_pass_def Let_def
          split: if_splits option.splits)
qed

lemma child_registers:
  assumes "0 \<le> cl_open_r env" "0 \<le> cl_set_parent_r env" "0 \<le> cl_add_child_r env"
  shows "\<exists>rest. snd (clone_child env np sp)
           = [OpenChild, SetParent, AddChild, RefreshParent] @ rest"
  using assms
  by (simp add: clone_child_def Let_def)

lemma child_recheck_fails:
  assumes "0 \<le> cl_open_r env" "0 \<le> cl_set_parent_r env" "0 \<le> cl_add_child_r env"
    and "cl_refresh_r env < 0
      \<or> cl_refresh_r env = 0 \<and> (cl_snap_protected2_r env < 0 \<or> \<not> cl_snap_protected2 env)"
  shows "clone_child env np True
     = (- EINVAL, [OpenChild, SetParent, AddChild, RefreshParent, RemoveChild, CloseChild, RemoveImage])"
  using assms
  by (auto simp add: clone_child_def Let_def err_remove_def err_close_child_def
        err_remove_child_def)

lemma child_recheck_passes:
  assumes "0 \<le> cl_open_r env" "0 \<le> cl_set_parent_r env" "0 \<le> cl_add_child_r env"
    and "cl_refresh_r env = 0" "0 \<le> cl_snap_protected2_r env" "cl_snap_protected2 env"
  shows "\<exists>rest. snd (clone_child env np True)
     = [OpenChild, SetParent, AddChild, RefreshParent, MetadataList] @ rest"
  using assms
  by (simp add: clone_child_def Let_def)

text \<open>
  C1, as the code has it. When a step of \<open>clone\<close> after the creation of the child fails, the
  calls that undo the earlier steps are made in reverse order and only for the steps that
  were taken: the removal of the image alone when the child could not be opened; the close
  of the child and the removal when setting the parent or registering the child failed; the
  removal of the child from the parent's index, the close and the removal when the
  protection re-check, the listing or copying of the metadata, the reading of the mirror
  mode or the enabling of mirroring failed. The code returned is that of the failed step
  (\<open>-EINVAL\<close> for the re-check). All undo calls come after all other calls, and the codes
  they return do not change the result.
\<close>

theorem clone_compensation:
  fixes fc p env c_opts np
  defines "r \<equiv> fst (clone fc p env c_opts np)"
    and "ops \<equiv> snd (clone fc p env c_opts np)"
  defines "undo \<equiv> filter (\<lambda>op. op \<in> {RemoveChild, CloseChild, RemoveImage}) ops"
  shows "(OpenChild \<in> set ops \<and> cl_open_r env < 0 \<longrightarrow>
            r = cl_open_r env \<and> undo = [RemoveImage])
       \<and> (SetParent \<in> set ops \<and> cl_set_parent_r env < 0 \<longrightarrow>
            r = cl_set_parent_r env \<and> undo = [CloseChild, RemoveImage])
       \<and> (AddChild \<in> set ops \<and> cl_add_child_r env < 0 \<longrightarrow>
            r = cl_add_child_r env \<and> undo = [CloseChild, RemoveImage])
       \<and> (RefreshParent \<in> set ops
            \<and> (cl_refresh_r env < 0
                \<or> cl_refresh_r env = 0
                  \<and> (cl_snap_protected2_r env < 0 \<or> \<not> cl_snap_protected2 env)) \<longrightarrow>
            r = - EINVAL \<and> undo = [RemoveChild, CloseChild, RemoveImage])
       \<and> (MetadataList \<in> set ops \<and> cl_metadata_list_r env < 0
            \<and> cl_metadata_list_r env \<noteq> - EOPNOTSUPP \<and> cl_metadata_list_r env \<noteq> - EIO \<longrightarrow>
            r = cl_metadata_list_r env \<and> undo = [RemoveChild, CloseChild, RemoveImage])
       \<and> (MetadataSet \<in> set ops \<and> cl_metadata_set_r env < 0 \<longrightarrow>
            r = cl_metadata_set_r env \<and> undo = [RemoveChild, CloseChild, RemoveImage])
       \<and> (MirrorModeGet \<in> set ops \<and> cl_mirror_mode_get_r env < 0
            \<and> cl_mirror_mode_get_r env \<noteq> - ENOENT \<longrightarrow>
            r = cl_mirror_mode_get_r env \<and> undo = [RemoveChild, CloseChild, RemoveImage])
       \<and> (MirrorEnable \<in> set ops \<and> cl_mirror_enable_r env < 0 \<longrightarrow>
            r = cl_mirror_enable_r env \<and> undo = [RemoveChild, CloseChild, RemoveImage])
       \<and> ops = filter (\<lambda>op. op \<notin> {RemoveChild, CloseChild, RemoveImage}) ops @ undo
       \<and> clone fc p (env\<lparr>cl_remove_child_r := a, cl_close_on_error_r := b, cl_remove_r := c\<rparr>)
             c_opts np
           = clone fc p env c_opts np"
proof -
  have step: "r = fst (clone_child env np True)
      \<and> undo = filter (\<lambda>op. op \<in> {RemoveChild, CloseChild, RemoveImage})
                 (snd (clone_child env np True))
      \<and> x \<in> set (snd (clone_child env np True))"
    if "x \<in> set ops"
      "x \<in> {OpenChild, SetParent, AddChild, RefreshParent, MetadataList, MetadataSet,
         MirrorModeGet, MirrorEnable, CloseChild, RemoveChild, RemoveImage}" for x
  proof -
    from clone_child_op_in [of x fc p env c_opts np] that obtain sz opts pre where
      v: "clone_validate fc p env c_opts np = Inr (sz, opts, pre)"
      and c: "clone fc p env c_opts np =
               (fst (clone_child env np True),
                pre @ [Create sz opts] @ snd (clone_child env np True))"
      and x: "x \<in> set (snd (clone_child env np True))"
      unfolding ops_def by blast
    from clone_validate_Inr [OF v] have "set pre \<subseteq> {DetectFormat, IsTagOwner}" by simp
    then have "filter (\<lambda>op. op \<in> {RemoveChild, CloseChild, RemoveImage}) pre = []"
      by (auto simp add: filter_empty_conv)
    with c x show ?thesis unfolding r_def undo_def ops_def by simp
  qed
  have 1: "OpenChild \<in> set ops \<and> cl_open_r env < 0 \<longrightarrow>
            r = cl_open_r env \<and> undo = [RemoveImage]"
    using step [of OpenChild] child_open_fail [of env np] by auto
  have 2: "SetParent \<in> set ops \<and> cl_set_parent_r env < 0 \<longrightarrow>
            r = cl_set_parent_r env \<and> undo = [CloseChild, RemoveImage]"
    using step [of SetParent] child_set_parent_fail [of env np] by auto
  have 3: "AddChild \<in> set ops \<and> cl_add_child_r env < 0 \<longrightarrow>
            r = cl_add_child_r env \<and> undo = [CloseChild, RemoveImage]"
    using step [of AddChild] child_add_child_fail [of env np] by auto
  have 4: "RefreshParent \<in> set ops
            \<and> (cl_refresh_r env < 0
                \<or> cl_refresh_r env = 0
                  \<and> (cl_snap_protected2_r env < 0 \<or> \<not> cl_snap_protected2 env)) \<longrightarrow>
            r = - EINVAL \<and> undo = [RemoveChild, CloseChild, RemoveImage]"
    using step [of RefreshParent] child_recheck_fail [of env np] by auto
  have 5: "MetadataList \<in> set ops \<and> cl_metadata_list_r env < 0
            \<and> cl_metadata_list_r env \<noteq> - EOPNOTSUPP \<and> cl_metadata_list_r env \<noteq> - EIO \<longrightarrow>
            r = cl_metadata_list_r env \<and> undo = [RemoveChild, CloseChild, RemoveImage]"
    using step [of MetadataList] child_metadata_list_fail [of env np] by auto
  have 6: "MetadataSet \<in> set ops \<and> cl_metadata_set_r env < 0 \<longrightarrow>
            r = cl_metadata_set_r env \<and> undo = [RemoveChild, CloseChild, RemoveImage]"
    using step [of MetadataSet] child_metadata_set_fail [of env np] by auto
  have 7: "MirrorModeGet \<in> set ops \<and> cl_mirror_mode_get_r env < 0
            \<and> cl_mirror_mode_get_r env \<noteq> - ENOENT \<longrightarrow>
            r = cl_mirror_mode_get_r env \<and> undo = [RemoveChild, CloseChild, RemoveImage]"
    using step [of MirrorModeGet] child_mirror_mode_get_fail [of env np] by auto
  have 8: "MirrorEnable \<in> set ops \<and> cl_mirror_enable_r env < 0 \<longrightarrow>
            r = cl_mirror_enable_r env \<and> undo = [RemoveChild, CloseChild, RemoveImage]"
    using step [of MirrorEnable] child_mirror_enable_fail [of env np] by auto
  have 9: "ops = filter (\<lambda>op. op \<notin> {RemoveChild, CloseChild, RemoveImage}) ops @ undo"
    unfolding ops_def undo_def using clone_undo_last [of fc p env c_opts np] by simp
  have 10: "clone fc p
       (env\<lparr>cl_remove_child_r := a, cl_close_on_error_r := b, cl_remove_r := c\<rparr>) c_opts np
           = clone fc p env c_opts np"
  proof -
    have v: "clone_validate fc p
        (env\<lparr>cl_remove_child_r := a, cl_close_on_error_r := b, cl_remove_r := c\<rparr>) c_opts np
          = clone_validate fc p env c_opts np"
      unfolding clone_validate_def by (simp add: Let_def cong: if_cong)
    have k: "clone_child
        (env\<lparr>cl_remove_child_r := a, cl_close_on_error_r := b, cl_remove_r := c\<rparr>) np sp
          = clone_child env np sp" for sp
      unfolding clone_child_def by (simp add: Let_def cong: if_cong)
    show ?thesis unfolding clone_def v k
      by (cases "clone_validate fc p env c_opts np") (simp_all add: Let_def split_beta)
  qed
  from 1 2 3 4 5 6 7 8 9 10 show ?thesis by blast
qed

theorem clone_compensation_witness:
  "fst (clone example_features example_parent
       (example_clone_env\<lparr>cl_open_r := - 5\<rparr>) example_opts []) = - 5
   \<and> filter (\<lambda>op. op \<in> {RemoveChild, CloseChild, RemoveImage})
       (snd (clone example_features example_parent
       (example_clone_env\<lparr>cl_open_r := - 5\<rparr>) example_opts [])) = [RemoveImage]
   \<and> fst (clone example_features example_parent
       (example_clone_env\<lparr>cl_set_parent_r := - 5\<rparr>) example_opts []) = - 5
   \<and> filter (\<lambda>op. op \<in> {RemoveChild, CloseChild, RemoveImage})
       (snd (clone example_features example_parent
       (example_clone_env\<lparr>cl_set_parent_r := - 5\<rparr>) example_opts [])) = [CloseChild, RemoveImage]
   \<and> fst (clone example_features example_parent
       (example_clone_env\<lparr>cl_add_child_r := - 17\<rparr>) example_opts []) = - 17
   \<and> filter (\<lambda>op. op \<in> {RemoveChild, CloseChild, RemoveImage})
       (snd (clone example_features example_parent
       (example_clone_env\<lparr>cl_add_child_r := - 17\<rparr>) example_opts [])) = [CloseChild, RemoveImage]
   \<and> fst (clone example_features example_parent
       (example_clone_env\<lparr>cl_snap_protected2 := False\<rparr>) example_opts []) = - EINVAL
   \<and> filter (\<lambda>op. op \<in> {RemoveChild, CloseChild, RemoveImage})
       (snd (clone example_features example_parent
       (example_clone_env\<lparr>cl_snap_protected2 := False\<rparr>) example_opts [])) = [RemoveChild, CloseChild, RemoveImage]
   \<and> fst (clone example_features example_parent
       (example_clone_env\<lparr>cl_metadata_list_r := - 13\<rparr>) example_opts []) = - 13
   \<and> filter (\<lambda>op. op \<in> {RemoveChild, CloseChild, RemoveImage})
       (snd (clone example_features example_parent
       (example_clone_env\<lparr>cl_metadata_list_r := - 13\<rparr>) example_opts [])) = [RemoveChild, CloseChild, RemoveImage]
   \<and> fst (clone example_features example_parent
       (example_clone_env\<lparr>cl_metadata_set_r := - 28\<rparr>) example_opts []) = - 28
   \<and> filter (\<lambda>op. op \<in> {RemoveChild, CloseChild, RemoveImage})
       (snd (clone example_features example_parent
       (example_clone_env\<lparr>cl_metadata_set_r := - 28\<rparr>) example_opts [])) = [RemoveChild, CloseChild, RemoveImage]
   \<and> fst (clone example_features example_parent
       (example_clone_env\<lparr>cl_mirror_mode_get_r := - 5\<rparr>) example_opts []) = - 5
   \<and> filter (\<lambda>op. op \<in> {RemoveChild, CloseChild, RemoveImage})
       (snd (clone example_features example_parent
       (example_clone_env\<lparr>cl_mirror_mode_get_r := - 5\<rparr>) example_opts [])) = [RemoveChild, CloseChild, RemoveImage]
   \<and> fst (clone example_features example_parent
       (example_clone_env\<lparr>cl_mirror_enable_r := - 30\<rparr>) example_opts []) = - 30
   \<and> filter (\<lambda>op. op \<in> {RemoveChild, CloseChild, RemoveImage})
       (snd (clone example_features example_parent
       (example_clone_env\<lparr>cl_mirror_enable_r := - 30\<rparr>) example_opts [])) = [RemoveChild, CloseChild, RemoveImage]"
proof -
  have h1: "OpenChild \<in> set (snd (clone example_features example_parent
       (example_clone_env\<lparr>cl_open_r := - 5\<rparr>) example_opts []))
      \<and> cl_open_r (example_clone_env\<lparr>cl_open_r := - 5\<rparr>) < 0"
    by (simp add: clone_def clone_validate_def clone_child_def example_defs CEPH_NOSNAP_def
        err_remove_def err_close_child_def err_remove_child_def Let_def errno_defs mirror_mode_defs)
  from clone_compensation [where fc = example_features and p = example_parent and c_opts = example_opts and np = "[]"
      and env = "example_clone_env\<lparr>cl_open_r := - 5\<rparr>"] h1
  have c1: "fst (clone example_features example_parent
       (example_clone_env\<lparr>cl_open_r := - 5\<rparr>) example_opts []) = cl_open_r (example_clone_env\<lparr>cl_open_r := - 5\<rparr>)
   \<and> filter (\<lambda>op. op \<in> {RemoveChild, CloseChild, RemoveImage})
       (snd (clone example_features example_parent
       (example_clone_env\<lparr>cl_open_r := - 5\<rparr>) example_opts [])) = [RemoveImage]"
    by blast
  have h2: "SetParent \<in> set (snd (clone example_features example_parent
       (example_clone_env\<lparr>cl_set_parent_r := - 5\<rparr>) example_opts []))
      \<and> cl_set_parent_r (example_clone_env\<lparr>cl_set_parent_r := - 5\<rparr>) < 0"
    by (simp add: clone_def clone_validate_def clone_child_def example_defs CEPH_NOSNAP_def
        err_remove_def err_close_child_def err_remove_child_def Let_def errno_defs mirror_mode_defs)
  from clone_compensation [where fc = example_features and p = example_parent and c_opts = example_opts and np = "[]"
      and env = "example_clone_env\<lparr>cl_set_parent_r := - 5\<rparr>"] h2
  have c2: "fst (clone example_features example_parent
       (example_clone_env\<lparr>cl_set_parent_r := - 5\<rparr>) example_opts []) = cl_set_parent_r (example_clone_env\<lparr>cl_set_parent_r := - 5\<rparr>)
   \<and> filter (\<lambda>op. op \<in> {RemoveChild, CloseChild, RemoveImage})
       (snd (clone example_features example_parent
       (example_clone_env\<lparr>cl_set_parent_r := - 5\<rparr>) example_opts [])) = [CloseChild, RemoveImage]"
    by blast
  have h3: "AddChild \<in> set (snd (clone example_features example_parent
       (example_clone_env\<lparr>cl_add_child_r := - 17\<rparr>) example_opts []))
      \<and> cl_add_child_r (example_clone_env\<lparr>cl_add_child_r := - 17\<rparr>) < 0"
    by (simp add: clone_def clone_validate_def clone_child_def example_defs CEPH_NOSNAP_def
        err_remove_def err_close_child_def err_remove_child_def Let_def errno_defs mirror_mode_defs)
  from clone_compensation [where fc = example_features and p = example_parent and c_opts = example_opts and np = "[]"
      and env = "example_clone_env\<lparr>cl_add_child_r := - 17\<rparr>"] h3
  have c3: "fst (clone example_features example_parent
       (example_clone_env\<lparr>cl_add_child_r := - 17\<rparr>) example_opts []) = cl_add_child_r (example_clone_env\<lparr>cl_add_child_r := - 17\<rparr>)
   \<and> filter (\<lambda>op. op \<in> {RemoveChild, CloseChild, RemoveImage})
       (snd (clone example_features example_parent
       (example_clone_env\<lparr>cl_add_child_r := - 17\<rparr>) example_opts [])) = [CloseChild, RemoveImage]"
    by blast
  have h4: "RefreshParent \<in> set (snd (clone example_features example_parent
       (example_clone_env\<lparr>cl_snap_protected2 := False\<rparr>) example_opts []))
      \<and> (cl_refresh_r (example_clone_env\<lparr>cl_snap_protected2 := False\<rparr>) < 0 \<or> cl_refresh_r (example_clone_env\<lparr>cl_snap_protected2 := False\<rparr>) = 0 \<and> (cl_snap_protected2_r (example_clone_env\<lparr>cl_snap_protected2 := False\<rparr>) < 0 \<or> \<not> cl_snap_protected2 (example_clone_env\<lparr>cl_snap_protected2 := False\<rparr>)))"
    by (simp add: clone_def clone_validate_def clone_child_def example_defs CEPH_NOSNAP_def
        err_remove_def err_close_child_def err_remove_child_def Let_def errno_defs mirror_mode_defs)
  from clone_compensation [where fc = example_features and p = example_parent and c_opts = example_opts and np = "[]"
      and env = "example_clone_env\<lparr>cl_snap_protected2 := False\<rparr>"] h4
  have c4: "fst (clone example_features example_parent
       (example_clone_env\<lparr>cl_snap_protected2 := False\<rparr>) example_opts []) = - EINVAL
   \<and> filter (\<lambda>op. op \<in> {RemoveChild, CloseChild, RemoveImage})
       (snd (clone example_features example_parent
       (example_clone_env\<lparr>cl_snap_protected2 := False\<rparr>) example_opts [])) = [RemoveChild, CloseChild, RemoveImage]"
    by blast
  have h5: "MetadataList \<in> set (snd (clone example_features example_parent
       (example_clone_env\<lparr>cl_metadata_list_r := - 13\<rparr>) example_opts []))
      \<and> cl_metadata_list_r (example_clone_env\<lparr>cl_metadata_list_r := - 13\<rparr>) < 0 \<and> cl_metadata_list_r (example_clone_env\<lparr>cl_metadata_list_r := - 13\<rparr>) \<noteq> - EOPNOTSUPP \<and> cl_metadata_list_r (example_clone_env\<lparr>cl_metadata_list_r := - 13\<rparr>) \<noteq> - EIO"
    by (simp add: clone_def clone_validate_def clone_child_def example_defs CEPH_NOSNAP_def
        err_remove_def err_close_child_def err_remove_child_def Let_def errno_defs mirror_mode_defs)
  from clone_compensation [where fc = example_features and p = example_parent and c_opts = example_opts and np = "[]"
      and env = "example_clone_env\<lparr>cl_metadata_list_r := - 13\<rparr>"] h5
  have c5: "fst (clone example_features example_parent
       (example_clone_env\<lparr>cl_metadata_list_r := - 13\<rparr>) example_opts [])
       = cl_metadata_list_r (example_clone_env\<lparr>cl_metadata_list_r := - 13\<rparr>)
   \<and> filter (\<lambda>op. op \<in> {RemoveChild, CloseChild, RemoveImage})
       (snd (clone example_features example_parent
       (example_clone_env\<lparr>cl_metadata_list_r := - 13\<rparr>) example_opts [])) = [RemoveChild, CloseChild, RemoveImage]"
    by blast
  have h6: "MetadataSet \<in> set (snd (clone example_features example_parent
       (example_clone_env\<lparr>cl_metadata_set_r := - 28\<rparr>) example_opts []))
      \<and> cl_metadata_set_r (example_clone_env\<lparr>cl_metadata_set_r := - 28\<rparr>) < 0"
    by (simp add: clone_def clone_validate_def clone_child_def example_defs CEPH_NOSNAP_def
        err_remove_def err_close_child_def err_remove_child_def Let_def errno_defs mirror_mode_defs)
  from clone_compensation [where fc = example_features and p = example_parent and c_opts = example_opts and np = "[]"
      and env = "example_clone_env\<lparr>cl_metadata_set_r := - 28\<rparr>"] h6
  have c6: "fst (clone example_features example_parent
       (example_clone_env\<lparr>cl_metadata_set_r := - 28\<rparr>) example_opts []) = cl_metadata_set_r (example_clone_env\<lparr>cl_metadata_set_r := - 28\<rparr>)
   \<and> filter (\<lambda>op. op \<in> {RemoveChild, CloseChild, RemoveImage})
       (snd (clone example_features example_parent
       (example_clone_env\<lparr>cl_metadata_set_r := - 28\<rparr>) example_opts [])) = [RemoveChild, CloseChild, RemoveImage]"
    by blast
  have h7: "MirrorModeGet \<in> set (snd (clone example_features example_parent
       (example_clone_env\<lparr>cl_mirror_mode_get_r := - 5\<rparr>) example_opts []))
      \<and> cl_mirror_mode_get_r (example_clone_env\<lparr>cl_mirror_mode_get_r := - 5\<rparr>) < 0 \<and> cl_mirror_mode_get_r (example_clone_env\<lparr>cl_mirror_mode_get_r := - 5\<rparr>) \<noteq> - ENOENT"
    by (simp add: clone_def clone_validate_def clone_child_def example_defs CEPH_NOSNAP_def
        err_remove_def err_close_child_def err_remove_child_def Let_def errno_defs mirror_mode_defs)
  from clone_compensation [where fc = example_features and p = example_parent and c_opts = example_opts and np = "[]"
      and env = "example_clone_env\<lparr>cl_mirror_mode_get_r := - 5\<rparr>"] h7
  have c7: "fst (clone example_features example_parent
       (example_clone_env\<lparr>cl_mirror_mode_get_r := - 5\<rparr>) example_opts [])
       = cl_mirror_mode_get_r (example_clone_env\<lparr>cl_mirror_mode_get_r := - 5\<rparr>)
   \<and> filter (\<lambda>op. op \<in> {RemoveChild, CloseChild, RemoveImage})
       (snd (clone example_features example_parent
       (example_clone_env\<lparr>cl_mirror_mode_get_r := - 5\<rparr>) example_opts [])) = [RemoveChild, CloseChild, RemoveImage]"
    by blast
  have h8: "MirrorEnable \<in> set (snd (clone example_features example_parent
       (example_clone_env\<lparr>cl_mirror_enable_r := - 30\<rparr>) example_opts []))
      \<and> cl_mirror_enable_r (example_clone_env\<lparr>cl_mirror_enable_r := - 30\<rparr>) < 0"
    by (simp add: clone_def clone_validate_def clone_child_def example_defs CEPH_NOSNAP_def
        err_remove_def err_close_child_def err_remove_child_def Let_def errno_defs mirror_mode_defs)
  from clone_compensation [where fc = example_features and p = example_parent and c_opts = example_opts and np = "[]"
      and env = "example_clone_env\<lparr>cl_mirror_enable_r := - 30\<rparr>"] h8
  have c8: "fst (clone example_features example_parent
       (example_clone_env\<lparr>cl_mirror_enable_r := - 30\<rparr>) example_opts []) = cl_mirror_enable_r (example_clone_env\<lparr>cl_mirror_enable_r := - 30\<rparr>)
   \<and> filter (\<lambda>op. op \<in> {RemoveChild, CloseChild, RemoveImage})
       (snd (clone example_features example_parent
       (example_clone_env\<lparr>cl_mirror_enable_r := - 30\<rparr>) example_opts [])) = [RemoveChild, CloseChild, RemoveImage]"
    by blast
  from c1 c2 c3 c4 c5 c6 c7 c8 show ?thesis
    by (simp add: example_clone_env_def)
qed

text \<open>
  A failure to open the child is followed by the removal of the image alone, and a failure
  to register the child by the close and the removal: neither removes the child from the
  parent's index.
\<close>

theorem clone_compensation_counterexample:
  "clone example_features example_parent (example_clone_env\<lparr>cl_open_r := - 5\<rparr>) example_opts []
     = (- 5, [DetectFormat, IsTagOwner,
              Create 1024 \<lparr>opt_format = Some 2, opt_features = Some 65, opt_order = Some 22\<rparr>,
              OpenChild, RemoveImage])
   \<and> clone example_features example_parent (example_clone_env\<lparr>cl_add_child_r := - 5\<rparr>)
       example_opts []
     = (- 5, [DetectFormat, IsTagOwner,
              Create 1024 \<lparr>opt_format = Some 2, opt_features = Some 65, opt_order = Some 22\<rparr>,
              OpenChild, SetParent, AddChild, CloseChild, RemoveImage])"
  by (simp add: clone_def clone_validate_def clone_child_def example_defs CEPH_NOSNAP_def
        err_remove_def err_close_child_def err_remove_child_def Let_def errno_defs
        mirror_mode_defs)

text \<open>
  C2. \<open>clone\<close> returns \<open>-EINVAL\<close> at once when the parent is opened at its head. When the first
  protection query reports the snapshot unprotected, \<open>clone\<close> fails and creates nothing, and
  the code is \<open>-EINVAL\<close> when the checks before the query have passed. When the checks pass
  and the child has been created, opened, given its parent and registered in the index of
  children, the next call is the refresh of the parent, followed by the second protection
  query. When then the refresh or the query fails, or the snapshot is no longer protected,
  \<open>clone\<close> returns \<open>-EINVAL\<close> and its last calls remove the child from the index, close it
  and remove the image; when the snapshot is still protected, \<open>clone\<close> goes on to the
  metadata. The same holds read off the calls: a registration in the calls made is
  followed by the refresh, and a refresh with a failed re-check by the three undo calls. A
  \<open>clone\<close> that returns success has seen the snapshot protected in the first query and,
  the refresh having returned 0, in the second.
\<close>

theorem clone_requires_protected_snapshot:
  fixes fc p env c_opts np
  defines "r \<equiv> fst (clone fc p env c_opts np)"
    and "ops \<equiv> snd (clone fc p env c_opts np)"
    and "checks \<equiv> DetectFormat
           # (if p_features p AND RBD_FEATURE_JOURNALING fc \<noteq> 0 then [IsTagOwner] else [])"
  shows "(p_snap_id p = CEPH_NOSNAP \<longrightarrow> clone fc p env c_opts np = (- EINVAL, []))
       \<and> (0 \<le> cl_snap_protected_r env \<and> \<not> cl_snap_protected env \<longrightarrow>
            r < 0 \<and> (\<forall>sz opts. Create sz opts \<notin> set ops))
       \<and> (p_snap_id p \<noteq> CEPH_NOSNAP
            \<and> (\<forall>v. opt_format c_opts = Some v \<longrightarrow> 2 \<le> v)
            \<and> (\<forall>f. opt_features c_opts = Some f \<longrightarrow> f AND NOT (RBD_FEATURES_ALL fc) = 0)
            \<and> cl_detect_format_r env = - ENOENT \<and> \<not> p_old_format p
            \<and> p_features p AND RBD_FEATURE_LAYERING fc = RBD_FEATURE_LAYERING fc
            \<and> 0 \<le> cl_snap_protected_r env \<and> \<not> cl_snap_protected env \<longrightarrow>
            clone fc p env c_opts np = (- EINVAL, [DetectFormat]))
       \<and> (clone_checks_pass fc p env c_opts np \<and> 0 \<le> cl_create_r env \<and> 0 \<le> cl_open_r env
            \<and> 0 \<le> cl_set_parent_r env \<and> 0 \<le> cl_add_child_r env \<longrightarrow>
            (\<exists>opts rest. ops = checks @ [Create (p_size p) opts, OpenChild, SetParent,
                                          AddChild, RefreshParent] @ rest))
       \<and> (clone_checks_pass fc p env c_opts np \<and> 0 \<le> cl_create_r env \<and> 0 \<le> cl_open_r env
            \<and> 0 \<le> cl_set_parent_r env \<and> 0 \<le> cl_add_child_r env
            \<and> (cl_refresh_r env < 0
                \<or> cl_refresh_r env = 0
                  \<and> (cl_snap_protected2_r env < 0 \<or> \<not> cl_snap_protected2 env)) \<longrightarrow>
            (\<exists>opts. clone fc p env c_opts np
               = (- EINVAL, checks @ [Create (p_size p) opts, OpenChild, SetParent, AddChild,
                                      RefreshParent, RemoveChild, CloseChild, RemoveImage])))
       \<and> (clone_checks_pass fc p env c_opts np \<and> 0 \<le> cl_create_r env \<and> 0 \<le> cl_open_r env
            \<and> 0 \<le> cl_set_parent_r env \<and> 0 \<le> cl_add_child_r env
            \<and> cl_refresh_r env = 0 \<and> 0 \<le> cl_snap_protected2_r env
            \<and> cl_snap_protected2 env \<longrightarrow>
            (\<exists>opts rest. ops = checks @ [Create (p_size p) opts, OpenChild, SetParent,
                                          AddChild, RefreshParent, MetadataList] @ rest))
       \<and> (AddChild \<in> set ops \<and> 0 \<le> cl_add_child_r env \<longrightarrow>
            (\<exists>before rest. ops = before @ [AddChild, RefreshParent] @ rest))
       \<and> (RefreshParent \<in> set ops
            \<and> (cl_refresh_r env < 0
                \<or> cl_refresh_r env = 0
                  \<and> (cl_snap_protected2_r env < 0 \<or> \<not> cl_snap_protected2 env)) \<longrightarrow>
            r = - EINVAL
            \<and> (\<exists>before. ops = before @ [RefreshParent, RemoveChild, CloseChild, RemoveImage]))
       \<and> (0 \<le> r \<longrightarrow>
            0 \<le> cl_snap_protected_r env \<and> cl_snap_protected env \<and> 0 \<le> cl_refresh_r env
            \<and> (cl_refresh_r env = 0 \<longrightarrow>
                 0 \<le> cl_snap_protected2_r env \<and> cl_snap_protected2 env))"
proof -
  have 1: "p_snap_id p = CEPH_NOSNAP \<longrightarrow> clone fc p env c_opts np = (- EINVAL, [])"
    by (simp add: clone_def clone_validate_def)
  have 2: "0 \<le> cl_snap_protected_r env \<and> \<not> cl_snap_protected env \<longrightarrow>
            r < 0 \<and> (\<forall>sz opts. Create sz opts \<notin> set ops)"
  proof (cases "clone_validate fc p env c_opts np")
    case (Inl early)
    obtain r' ops' where "early = (r', ops')" by (cases early)
    with Inl clone_early [of fc p env c_opts np r' ops']
      clone_validate_Inl [of fc p env c_opts np r' ops']
    show ?thesis unfolding r_def ops_def by auto
  next
    case (Inr late)
    obtain sz opts ops' where "late = (sz, opts, ops')" by (cases late)
    with Inr clone_validate_Inr [of fc p env c_opts np sz opts ops']
    show ?thesis by simp
  qed
  have 3: "p_snap_id p \<noteq> CEPH_NOSNAP
            \<and> (\<forall>v. opt_format c_opts = Some v \<longrightarrow> 2 \<le> v)
            \<and> (\<forall>f. opt_features c_opts = Some f \<longrightarrow> f AND NOT (RBD_FEATURES_ALL fc) = 0)
            \<and> cl_detect_format_r env = - ENOENT \<and> \<not> p_old_format p
            \<and> p_features p AND RBD_FEATURE_LAYERING fc = RBD_FEATURE_LAYERING fc
            \<and> 0 \<le> cl_snap_protected_r env \<and> \<not> cl_snap_protected env \<longrightarrow>
            clone fc p env c_opts np = (- EINVAL, [DetectFormat])"
    by (auto simp add: clone_def clone_validate_def Let_def
          split: option.splits)
  have reg: "clone_checks_pass fc p env c_opts np \<and> 0 \<le> cl_create_r env \<longrightarrow>
             (\<exists>opts. clone fc p env c_opts np
               = (fst (clone_child env np True),
                  checks @ [Create (p_size p) opts] @ snd (clone_child env np True)))"
  proof
    assume a: "clone_checks_pass fc p env c_opts np \<and> 0 \<le> cl_create_r env"
    then have "clone_checks_pass fc p env c_opts np" by simp
    from clone_checks_pass_validate [OF this] obtain opts where
      v: "clone_validate fc p env c_opts np = Inr (p_size p, opts, checks)"
      unfolding checks_def by blast
    from clone_late [OF v] a
    show "\<exists>opts. clone fc p env c_opts np
               = (fst (clone_child env np True),
                  checks @ [Create (p_size p) opts] @ snd (clone_child env np True))"
      by auto
  qed
  have 4: "clone_checks_pass fc p env c_opts np \<and> 0 \<le> cl_create_r env \<and> 0 \<le> cl_open_r env
            \<and> 0 \<le> cl_set_parent_r env \<and> 0 \<le> cl_add_child_r env \<longrightarrow>
            (\<exists>opts rest. ops = checks @ [Create (p_size p) opts, OpenChild, SetParent,
                                          AddChild, RefreshParent] @ rest)"
  proof
    assume a: "clone_checks_pass fc p env c_opts np \<and> 0 \<le> cl_create_r env \<and> 0 \<le> cl_open_r env
            \<and> 0 \<le> cl_set_parent_r env \<and> 0 \<le> cl_add_child_r env"
    with reg obtain opts where c: "clone fc p env c_opts np
               = (fst (clone_child env np True),
                  checks @ [Create (p_size p) opts] @ snd (clone_child env np True))" by blast
    from a child_registers [of env np True] obtain rest where
      "snd (clone_child env np True) = [OpenChild, SetParent, AddChild, RefreshParent] @ rest"
      by blast
    with c have "ops = checks @ [Create (p_size p) opts, OpenChild, SetParent,
                                 AddChild, RefreshParent] @ rest"
      unfolding ops_def by simp
    then show "\<exists>opts rest. ops = checks @ [Create (p_size p) opts, OpenChild, SetParent,
                                          AddChild, RefreshParent] @ rest" by blast
  qed
  have 5: "clone_checks_pass fc p env c_opts np \<and> 0 \<le> cl_create_r env \<and> 0 \<le> cl_open_r env
            \<and> 0 \<le> cl_set_parent_r env \<and> 0 \<le> cl_add_child_r env
            \<and> (cl_refresh_r env < 0
                \<or> cl_refresh_r env = 0
                  \<and> (cl_snap_protected2_r env < 0 \<or> \<not> cl_snap_protected2 env)) \<longrightarrow>
            (\<exists>opts. clone fc p env c_opts np
               = (- EINVAL, checks @ [Create (p_size p) opts, OpenChild, SetParent, AddChild,
                                      RefreshParent, RemoveChild, CloseChild, RemoveImage]))"
  proof
    assume a: "clone_checks_pass fc p env c_opts np \<and> 0 \<le> cl_create_r env \<and> 0 \<le> cl_open_r env
            \<and> 0 \<le> cl_set_parent_r env \<and> 0 \<le> cl_add_child_r env
            \<and> (cl_refresh_r env < 0
                \<or> cl_refresh_r env = 0
                  \<and> (cl_snap_protected2_r env < 0 \<or> \<not> cl_snap_protected2 env))"
    with reg obtain opts where c: "clone fc p env c_opts np
               = (fst (clone_child env np True),
                  checks @ [Create (p_size p) opts] @ snd (clone_child env np True))" by blast
    from a child_recheck_fails [of env np] have
      "clone_child env np True
         = (- EINVAL, [OpenChild, SetParent, AddChild, RefreshParent, RemoveChild, CloseChild, RemoveImage])"
      by blast
    with c have "clone fc p env c_opts np
               = (- EINVAL, checks @ [Create (p_size p) opts, OpenChild, SetParent, AddChild,
                                      RefreshParent, RemoveChild, CloseChild, RemoveImage])"
      by simp
    then show "\<exists>opts. clone fc p env c_opts np
               = (- EINVAL, checks @ [Create (p_size p) opts, OpenChild, SetParent, AddChild,
                                      RefreshParent, RemoveChild, CloseChild, RemoveImage])"
      by blast
  qed
  have 6: "clone_checks_pass fc p env c_opts np \<and> 0 \<le> cl_create_r env \<and> 0 \<le> cl_open_r env
            \<and> 0 \<le> cl_set_parent_r env \<and> 0 \<le> cl_add_child_r env
            \<and> cl_refresh_r env = 0 \<and> 0 \<le> cl_snap_protected2_r env
            \<and> cl_snap_protected2 env \<longrightarrow>
            (\<exists>opts rest. ops = checks @ [Create (p_size p) opts, OpenChild, SetParent,
                                          AddChild, RefreshParent, MetadataList] @ rest)"
  proof
    assume a: "clone_checks_pass fc p env c_opts np \<and> 0 \<le> cl_create_r env \<and> 0 \<le> cl_open_r env
            \<and> 0 \<le> cl_set_parent_r env \<and> 0 \<le> cl_add_child_r env
            \<and> cl_refresh_r env = 0 \<and> 0 \<le> cl_snap_protected2_r env
            \<and> cl_snap_protected2 env"
    with reg obtain opts where c: "clone fc p env c_opts np
               = (fst (clone_child env np True),
                  checks @ [Create (p_size p) opts] @ snd (clone_child env np True))" by blast
    from a child_recheck_passes [of env np] obtain rest where
      "snd (clone_child env np True)
         = [OpenChild, SetParent, AddChild, RefreshParent, MetadataList] @ rest"
      by blast
    with c have "ops = checks @ [Create (p_size p) opts, OpenChild, SetParent,
                                 AddChild, RefreshParent, MetadataList] @ rest"
      unfolding ops_def by simp
    then show "\<exists>opts rest. ops = checks @ [Create (p_size p) opts, OpenChild, SetParent,
                                          AddChild, RefreshParent, MetadataList] @ rest" by blast
  qed
  have 7: "AddChild \<in> set ops \<and> 0 \<le> cl_add_child_r env \<longrightarrow>
            (\<exists>before rest. ops = before @ [AddChild, RefreshParent] @ rest)"
  proof
    assume a: "AddChild \<in> set ops \<and> 0 \<le> cl_add_child_r env"
    with clone_child_op_in [of AddChild fc p env c_opts np] obtain sz opts pre where
      c: "clone fc p env c_opts np =
               (fst (clone_child env np True),
                pre @ [Create sz opts] @ snd (clone_child env np True))"
      and x: "AddChild \<in> set (snd (clone_child env np True))"
      unfolding ops_def by auto
    from child_registered [OF x] a obtain rest where
      "snd (clone_child env np True) = [OpenChild, SetParent, AddChild, RefreshParent] @ rest"
      by blast
    with c have "ops = (pre @ [Create sz opts, OpenChild, SetParent])
                   @ [AddChild, RefreshParent] @ rest"
      unfolding ops_def by simp
    then show "\<exists>before rest. ops = before @ [AddChild, RefreshParent] @ rest" by blast
  qed
  have 8: "RefreshParent \<in> set ops
            \<and> (cl_refresh_r env < 0
                \<or> cl_refresh_r env = 0
                  \<and> (cl_snap_protected2_r env < 0 \<or> \<not> cl_snap_protected2 env)) \<longrightarrow>
            r = - EINVAL
            \<and> (\<exists>before. ops = before @ [RefreshParent, RemoveChild, CloseChild, RemoveImage])"
  proof
    assume a: "RefreshParent \<in> set ops
            \<and> (cl_refresh_r env < 0
                \<or> cl_refresh_r env = 0
                  \<and> (cl_snap_protected2_r env < 0 \<or> \<not> cl_snap_protected2 env))"
    with clone_child_op_in [of RefreshParent fc p env c_opts np] obtain sz opts pre where
      c: "clone fc p env c_opts np =
               (fst (clone_child env np True),
                pre @ [Create sz opts] @ snd (clone_child env np True))"
      and x: "RefreshParent \<in> set (snd (clone_child env np True))"
      unfolding ops_def by auto
    from child_recheck_fail [of env np] x a have
      k: "clone_child env np True
         = (- EINVAL, [OpenChild, SetParent, AddChild, RefreshParent, RemoveChild, CloseChild, RemoveImage])"
      by blast
    with c have "r = - EINVAL" "ops = (pre @ [Create sz opts, OpenChild, SetParent, AddChild])
                   @ [RefreshParent, RemoveChild, CloseChild, RemoveImage]"
      unfolding ops_def r_def by simp_all
    then show "r = - EINVAL
            \<and> (\<exists>before. ops = before @ [RefreshParent, RemoveChild, CloseChild, RemoveImage])"
      by blast
  qed
  have 9: "0 \<le> r \<longrightarrow>
            0 \<le> cl_snap_protected_r env \<and> cl_snap_protected env \<and> 0 \<le> cl_refresh_r env
            \<and> (cl_refresh_r env = 0 \<longrightarrow>
                 0 \<le> cl_snap_protected2_r env \<and> cl_snap_protected2 env)"
  proof
    assume a: "0 \<le> r"
    with clone_success [of fc p env c_opts np] obtain sz opts pre where
      v: "clone_validate fc p env c_opts np = Inr (sz, opts, pre)"
      and c: "clone fc p env c_opts np =
               (fst (clone_child env np True),
                pre @ [Create sz opts] @ snd (clone_child env np True))"
      unfolding r_def by blast
    from a c have "0 \<le> fst (clone_child env np True)" unfolding r_def by simp
    from child_success [OF this] clone_validate_Inr [OF v]
    show "0 \<le> cl_snap_protected_r env \<and> cl_snap_protected env \<and> 0 \<le> cl_refresh_r env
            \<and> (cl_refresh_r env = 0 \<longrightarrow>
                 0 \<le> cl_snap_protected2_r env \<and> cl_snap_protected2 env)"
      by simp
  qed
  from 1 2 3 4 5 6 7 8 9 show ?thesis by blast
qed

theorem clone_requires_protected_snapshot_witness:
  "clone example_features (example_parent\<lparr>p_snap_id := CEPH_NOSNAP\<rparr>) example_clone_env example_opts []
     = (- EINVAL, [])
   \<and> clone example_features example_parent (example_clone_env\<lparr>cl_snap_protected := False\<rparr>) example_opts []
       = (- EINVAL, [DetectFormat])
   \<and> (\<exists>opts. clone example_features example_parent
                (example_clone_env\<lparr>cl_snap_protected2 := False\<rparr>) example_opts []
         = (- EINVAL, [DetectFormat, IsTagOwner, Create 1024 opts, OpenChild, SetParent, AddChild,
                       RefreshParent, RemoveChild, CloseChild, RemoveImage]))
   \<and> (\<exists>opts. clone example_features example_parent
                (example_clone_env\<lparr>cl_refresh_r := - 5\<rparr>) example_opts []
         = (- EINVAL, [DetectFormat, IsTagOwner, Create 1024 opts, OpenChild, SetParent, AddChild,
                       RefreshParent, RemoveChild, CloseChild, RemoveImage]))
   \<and> (\<exists>opts rest. snd (clone example_features example_parent example_clone_env example_opts [])
         = [DetectFormat, IsTagOwner, Create 1024 opts, OpenChild, SetParent, AddChild,
            RefreshParent, MetadataList] @ rest)
   \<and> 0 \<le> fst (clone example_features example_parent example_clone_env example_opts [])
   \<and> cl_snap_protected example_clone_env \<and> cl_snap_protected2 example_clone_env"
proof -
  have h1: "p_snap_id (example_parent\<lparr>p_snap_id := CEPH_NOSNAP\<rparr>) = CEPH_NOSNAP"
    by simp
  from clone_requires_protected_snapshot [where fc = example_features and c_opts = example_opts and np = "[]"
      and env = example_clone_env and p = "example_parent\<lparr>p_snap_id := CEPH_NOSNAP\<rparr>", THEN conjunct1] h1
  have c1: "clone example_features (example_parent\<lparr>p_snap_id := CEPH_NOSNAP\<rparr>) example_clone_env example_opts [] = (- EINVAL, [])"
    by (rule mp)
  have h2: "p_snap_id example_parent \<noteq> CEPH_NOSNAP
      \<and> (\<forall>v. opt_format example_opts = Some v \<longrightarrow> 2 \<le> v)
      \<and> (\<forall>f. opt_features example_opts = Some f \<longrightarrow> f AND NOT (RBD_FEATURES_ALL example_features) = 0)
      \<and> cl_detect_format_r (example_clone_env\<lparr>cl_snap_protected := False\<rparr>) = - ENOENT
      \<and> \<not> p_old_format example_parent
      \<and> p_features example_parent AND RBD_FEATURE_LAYERING example_features = RBD_FEATURE_LAYERING example_features
      \<and> 0 \<le> cl_snap_protected_r (example_clone_env\<lparr>cl_snap_protected := False\<rparr>)
      \<and> \<not> cl_snap_protected (example_clone_env\<lparr>cl_snap_protected := False\<rparr>)"
    by (simp add: example_defs CEPH_NOSNAP_def ENOENT_def)
  from clone_requires_protected_snapshot [where fc = example_features and c_opts = example_opts and np = "[]"
      and env = "example_clone_env\<lparr>cl_snap_protected := False\<rparr>" and p = example_parent, THEN conjunct2, THEN conjunct2, THEN conjunct1] h2
  have c2: "clone example_features example_parent (example_clone_env\<lparr>cl_snap_protected := False\<rparr>) example_opts []
       = (- EINVAL, [DetectFormat])"
    by (rule mp)
  have h3: "clone_checks_pass example_features example_parent
              (example_clone_env\<lparr>cl_snap_protected2 := False\<rparr>) example_opts []
      \<and> 0 \<le> cl_create_r (example_clone_env\<lparr>cl_snap_protected2 := False\<rparr>)
      \<and> 0 \<le> cl_open_r (example_clone_env\<lparr>cl_snap_protected2 := False\<rparr>)
      \<and> 0 \<le> cl_set_parent_r (example_clone_env\<lparr>cl_snap_protected2 := False\<rparr>)
      \<and> 0 \<le> cl_add_child_r (example_clone_env\<lparr>cl_snap_protected2 := False\<rparr>)
      \<and> (cl_refresh_r (example_clone_env\<lparr>cl_snap_protected2 := False\<rparr>) < 0
         \<or> cl_refresh_r (example_clone_env\<lparr>cl_snap_protected2 := False\<rparr>) = 0
           \<and> (cl_snap_protected2_r (example_clone_env\<lparr>cl_snap_protected2 := False\<rparr>) < 0
              \<or> \<not> cl_snap_protected2 (example_clone_env\<lparr>cl_snap_protected2 := False\<rparr>)))"
    by (simp add: clone_checks_pass_def example_defs CEPH_NOSNAP_def ENOENT_def)
  from clone_requires_protected_snapshot [where fc = example_features and c_opts = example_opts and np = "[]"
      and env = "example_clone_env\<lparr>cl_snap_protected2 := False\<rparr>" and p = example_parent, THEN conjunct2, THEN conjunct2, THEN conjunct2, THEN conjunct2, THEN conjunct1] h3
  have "\<exists>opts. clone example_features example_parent
                (example_clone_env\<lparr>cl_snap_protected2 := False\<rparr>) example_opts []
         = (- EINVAL,
            (DetectFormat # (if p_features example_parent AND RBD_FEATURE_JOURNALING example_features \<noteq> 0
                             then [IsTagOwner] else []))
            @ [Create (p_size example_parent) opts, OpenChild, SetParent, AddChild,
               RefreshParent, RemoveChild, CloseChild, RemoveImage])"
    by (rule mp)
  then have c3: "\<exists>opts. clone example_features example_parent
                (example_clone_env\<lparr>cl_snap_protected2 := False\<rparr>) example_opts []
         = (- EINVAL, [DetectFormat, IsTagOwner, Create 1024 opts, OpenChild, SetParent, AddChild,
                       RefreshParent, RemoveChild, CloseChild, RemoveImage])"
    by (simp add: example_features_def example_parent_def)
  have h4: "clone_checks_pass example_features example_parent
              (example_clone_env\<lparr>cl_refresh_r := - 5\<rparr>) example_opts []
      \<and> 0 \<le> cl_create_r (example_clone_env\<lparr>cl_refresh_r := - 5\<rparr>)
      \<and> 0 \<le> cl_open_r (example_clone_env\<lparr>cl_refresh_r := - 5\<rparr>)
      \<and> 0 \<le> cl_set_parent_r (example_clone_env\<lparr>cl_refresh_r := - 5\<rparr>)
      \<and> 0 \<le> cl_add_child_r (example_clone_env\<lparr>cl_refresh_r := - 5\<rparr>)
      \<and> (cl_refresh_r (example_clone_env\<lparr>cl_refresh_r := - 5\<rparr>) < 0
         \<or> cl_refresh_r (example_clone_env\<lparr>cl_refresh_r := - 5\<rparr>) = 0
           \<and> (cl_snap_protected2_r (example_clone_env\<lparr>cl_refresh_r := - 5\<rparr>) < 0
              \<or> \<not> cl_snap_protected2 (example_clone_env\<lparr>cl_refresh_r := - 5\<rparr>)))"
    by (simp add: clone_checks_pass_def example_defs CEPH_NOSNAP_def ENOENT_def)
  from clone_requires_protected_snapshot [where fc = example_features and c_opts = example_opts and np = "[]"
      and env = "example_clone_env\<lparr>cl_refresh_r := - 5\<rparr>" and p = example_parent, THEN conjunct2, THEN conjunct2, THEN conjunct2, THEN conjunct2, THEN conjunct1] h4
  have "\<exists>opts. clone example_features example_parent
                (example_clone_env\<lparr>cl_refresh_r := - 5\<rparr>) example_opts []
         = (- EINVAL,
            (DetectFormat # (if p_features example_parent AND RBD_FEATURE_JOURNALING example_features \<noteq> 0
                             then [IsTagOwner] else []))
            @ [Create (p_size example_parent) opts, OpenChild, SetParent, AddChild,
               RefreshParent, RemoveChild, CloseChild, RemoveImage])"
    by (rule mp)
  then have c4: "\<exists>opts. clone example_features example_parent
                (example_clone_env\<lparr>cl_refresh_r := - 5\<rparr>) example_opts []
         = (- EINVAL, [DetectFormat, IsTagOwner, Create 1024 opts, OpenChild, SetParent, AddChild,
                       RefreshParent, RemoveChild, CloseChild, RemoveImage])"
    by (simp add: example_features_def example_parent_def)
  have h5: "clone_checks_pass example_features example_parent example_clone_env example_opts []
      \<and> 0 \<le> cl_create_r example_clone_env \<and> 0 \<le> cl_open_r example_clone_env
      \<and> 0 \<le> cl_set_parent_r example_clone_env \<and> 0 \<le> cl_add_child_r example_clone_env
      \<and> cl_refresh_r example_clone_env = 0 \<and> 0 \<le> cl_snap_protected2_r example_clone_env
      \<and> cl_snap_protected2 example_clone_env"
    by (simp add: clone_checks_pass_def example_defs CEPH_NOSNAP_def ENOENT_def)
  from clone_requires_protected_snapshot [where fc = example_features and c_opts = example_opts and np = "[]"
      and env = example_clone_env and p = example_parent, THEN conjunct2, THEN conjunct2, THEN conjunct2, THEN conjunct2, THEN conjunct2, THEN conjunct1] h5
  have "\<exists>opts rest. snd (clone example_features example_parent example_clone_env example_opts [])
         = (DetectFormat # (if p_features example_parent AND RBD_FEATURE_JOURNALING example_features \<noteq> 0
                             then [IsTagOwner] else []))
            @ [Create (p_size example_parent) opts, OpenChild, SetParent, AddChild,
               RefreshParent, MetadataList] @ rest"
    by (rule mp)
  then have c5: "\<exists>opts rest. snd (clone example_features example_parent example_clone_env example_opts [])
         = [DetectFormat, IsTagOwner, Create 1024 opts, OpenChild, SetParent, AddChild,
            RefreshParent, MetadataList] @ rest"
    by (simp add: example_features_def example_parent_def)
  have h6: "0 \<le> fst (clone example_features example_parent example_clone_env example_opts [])"
    by (simp add: clone_def clone_validate_def clone_child_def example_defs CEPH_NOSNAP_def
        err_remove_def err_close_child_def err_remove_child_def Let_def errno_defs mirror_mode_defs)
  from clone_requires_protected_snapshot [where fc = example_features and c_opts = example_opts and np = "[]"
      and env = example_clone_env and p = example_parent, THEN conjunct2, THEN conjunct2, THEN conjunct2, THEN conjunct2, THEN conjunct2, THEN conjunct2, THEN conjunct2, THEN conjunct2] h6
  have c6: "cl_snap_protected example_clone_env
      \<and> (cl_refresh_r example_clone_env = 0 \<longrightarrow> cl_snap_protected2 example_clone_env)"
    by blast
  have "cl_refresh_r example_clone_env = 0" by (simp add: example_clone_env_def)
  with c6 have c7: "cl_snap_protected example_clone_env" and c8: "cl_snap_protected2 example_clone_env"
    by blast+
  show ?thesis
    by (intro conjI) (rule c1, rule c2, rule c3, rule c4, rule c5, rule h6, rule c7, rule c8)
qed

text \<open>
  C8. With \<open>features\<close> the features the caller put into the options, or those of the parent
  when the caller put none: a requested bit outside \<open>RBD_FEATURES_ALL\<close> makes \<open>clone\<close> return
  \<open>-ENOSYS\<close> (the snapshot and format checks come first); whenever \<open>create\<close> is called, the
  options it gets hold \<open>features\<close>, and \<open>features\<close> has the layering bit; a \<open>clone\<close> that
  returns success has called \<open>create\<close> so; without the layering bit in \<open>features\<close> the call
  always fails and creates nothing, with \<open>-ENOSYS\<close> when the checks before the layering
  tests have passed.
\<close>

theorem clone_child_features:
  fixes fc p env c_opts np
  defines "r \<equiv> fst (clone fc p env c_opts np)"
    and "ops \<equiv> snd (clone fc p env c_opts np)"
    and "features \<equiv> (case opt_features c_opts of Some f \<Rightarrow> f | None \<Rightarrow> p_features p)"
  shows "(p_snap_id p \<noteq> CEPH_NOSNAP
            \<and> (\<forall>v. opt_format c_opts = Some v \<longrightarrow> 2 \<le> v)
            \<and> (\<exists>f. opt_features c_opts = Some f \<and> f AND NOT (RBD_FEATURES_ALL fc) \<noteq> 0) \<longrightarrow>
            clone fc p env c_opts np = (- ENOSYS, []))
       \<and> (\<forall>sz opts. Create sz opts \<in> set ops \<longrightarrow>
            opt_features opts = Some features
            \<and> features AND RBD_FEATURE_LAYERING fc = RBD_FEATURE_LAYERING fc)
       \<and> (0 \<le> r \<longrightarrow>
            (\<exists>sz opts. Create sz opts \<in> set ops \<and> opt_features opts = Some features)
            \<and> features AND RBD_FEATURE_LAYERING fc = RBD_FEATURE_LAYERING fc)
       \<and> (features AND RBD_FEATURE_LAYERING fc \<noteq> RBD_FEATURE_LAYERING fc \<longrightarrow>
            r < 0 \<and> (\<forall>sz opts. Create sz opts \<notin> set ops))
       \<and> (p_snap_id p \<noteq> CEPH_NOSNAP
            \<and> (\<forall>v. opt_format c_opts = Some v \<longrightarrow> 2 \<le> v)
            \<and> (\<forall>f. opt_features c_opts = Some f \<longrightarrow> f AND NOT (RBD_FEATURES_ALL fc) = 0)
            \<and> cl_detect_format_r env = - ENOENT \<and> \<not> p_old_format p
            \<and> p_features p AND RBD_FEATURE_LAYERING fc = RBD_FEATURE_LAYERING fc
            \<and> 0 \<le> cl_snap_protected_r env \<and> cl_snap_protected env
            \<and> (p_features p AND RBD_FEATURE_JOURNALING fc \<noteq> 0 \<longrightarrow>
                 0 \<le> cl_tag_owner_r env \<and> (cl_is_primary env \<or> np \<noteq> []))
            \<and> features AND RBD_FEATURE_LAYERING fc \<noteq> RBD_FEATURE_LAYERING fc \<longrightarrow>
            r = - ENOSYS \<and> (\<forall>sz opts. Create sz opts \<notin> set ops))
       \<and> (p_snap_id p \<noteq> CEPH_NOSNAP
            \<and> (\<forall>v. opt_format c_opts = Some v \<longrightarrow> 2 \<le> v)
            \<and> opt_features c_opts = None
            \<and> cl_detect_format_r env = - ENOENT \<and> \<not> p_old_format p
            \<and> p_features p AND RBD_FEATURE_LAYERING fc \<noteq> RBD_FEATURE_LAYERING fc \<longrightarrow>
            clone fc p env c_opts np = (- ENOSYS, [DetectFormat]))"
proof -
  have 1: "p_snap_id p \<noteq> CEPH_NOSNAP
            \<and> (\<forall>v. opt_format c_opts = Some v \<longrightarrow> 2 \<le> v)
            \<and> (\<exists>f. opt_features c_opts = Some f \<and> f AND NOT (RBD_FEATURES_ALL fc) \<noteq> 0) \<longrightarrow>
            clone fc p env c_opts np = (- ENOSYS, [])"
    by (auto simp add: clone_def clone_validate_def Let_def split: option.splits)
  have 2: "\<forall>sz opts. Create sz opts \<in> set ops \<longrightarrow>
            opt_features opts = Some features
            \<and> features AND RBD_FEATURE_LAYERING fc = RBD_FEATURE_LAYERING fc"
  proof (intro allI impI)
    fix sz opts assume "Create sz opts \<in> set ops"
    with clone_create_in [of sz opts fc p env c_opts np] obtain pre where
      "clone_validate fc p env c_opts np = Inr (sz, opts, pre)" unfolding ops_def by blast
    from clone_validate_Inr [OF this]
    show "opt_features opts = Some features
            \<and> features AND RBD_FEATURE_LAYERING fc = RBD_FEATURE_LAYERING fc"
      unfolding features_def by simp
  qed
  have 3: "0 \<le> r \<longrightarrow>
            (\<exists>sz opts. Create sz opts \<in> set ops \<and> opt_features opts = Some features)
            \<and> features AND RBD_FEATURE_LAYERING fc = RBD_FEATURE_LAYERING fc"
  proof
    assume "0 \<le> r"
    with clone_success [of fc p env c_opts np] obtain sz opts pre where
      v: "clone_validate fc p env c_opts np = Inr (sz, opts, pre)"
      and c: "clone fc p env c_opts np =
               (fst (clone_child env np True),
                pre @ [Create sz opts] @ snd (clone_child env np True))"
      unfolding r_def by blast
    from c have "Create sz opts \<in> set ops" unfolding ops_def by simp
    with clone_validate_Inr [OF v]
    show "(\<exists>sz opts. Create sz opts \<in> set ops \<and> opt_features opts = Some features)
            \<and> features AND RBD_FEATURE_LAYERING fc = RBD_FEATURE_LAYERING fc"
      unfolding features_def by blast
  qed
  have 4: "features AND RBD_FEATURE_LAYERING fc \<noteq> RBD_FEATURE_LAYERING fc \<longrightarrow>
            r < 0 \<and> (\<forall>sz opts. Create sz opts \<notin> set ops)"
    using 2 3 by (meson not_le)
  have 5: "p_snap_id p \<noteq> CEPH_NOSNAP
            \<and> (\<forall>v. opt_format c_opts = Some v \<longrightarrow> 2 \<le> v)
            \<and> (\<forall>f. opt_features c_opts = Some f \<longrightarrow> f AND NOT (RBD_FEATURES_ALL fc) = 0)
            \<and> cl_detect_format_r env = - ENOENT \<and> \<not> p_old_format p
            \<and> p_features p AND RBD_FEATURE_LAYERING fc = RBD_FEATURE_LAYERING fc
            \<and> 0 \<le> cl_snap_protected_r env \<and> cl_snap_protected env
            \<and> (p_features p AND RBD_FEATURE_JOURNALING fc \<noteq> 0 \<longrightarrow>
                 0 \<le> cl_tag_owner_r env \<and> (cl_is_primary env \<or> np \<noteq> []))
            \<and> features AND RBD_FEATURE_LAYERING fc \<noteq> RBD_FEATURE_LAYERING fc \<longrightarrow>
            r = - ENOSYS \<and> (\<forall>sz opts. Create sz opts \<notin> set ops)"
  proof (intro impI, elim conjE)
    assume a: "p_snap_id p \<noteq> CEPH_NOSNAP"
      "\<forall>v. opt_format c_opts = Some v \<longrightarrow> 2 \<le> v"
      "\<forall>f. opt_features c_opts = Some f \<longrightarrow> f AND NOT (RBD_FEATURES_ALL fc) = 0"
      "cl_detect_format_r env = - ENOENT" "\<not> p_old_format p"
      "p_features p AND RBD_FEATURE_LAYERING fc = RBD_FEATURE_LAYERING fc"
      "0 \<le> cl_snap_protected_r env" "cl_snap_protected env"
      "p_features p AND RBD_FEATURE_JOURNALING fc \<noteq> 0 \<longrightarrow>
                 0 \<le> cl_tag_owner_r env \<and> (cl_is_primary env \<or> np \<noteq> [])"
      "features AND RBD_FEATURE_LAYERING fc \<noteq> RBD_FEATURE_LAYERING fc"
    from clone_validate_reaches_layering [OF a(1-9)] a(10)
    have "clone_validate fc p env c_opts np
        = Inl (- ENOSYS, DetectFormat #
             (if p_features p AND RBD_FEATURE_JOURNALING fc \<noteq> 0 then [IsTagOwner] else []))"
      unfolding features_def by simp
    from clone_early [OF this]
    show "r = - ENOSYS \<and> (\<forall>sz opts. Create sz opts \<notin> set ops)"
      unfolding r_def ops_def by simp
  qed
  have 6: "p_snap_id p \<noteq> CEPH_NOSNAP
            \<and> (\<forall>v. opt_format c_opts = Some v \<longrightarrow> 2 \<le> v)
            \<and> opt_features c_opts = None
            \<and> cl_detect_format_r env = - ENOENT \<and> \<not> p_old_format p
            \<and> p_features p AND RBD_FEATURE_LAYERING fc \<noteq> RBD_FEATURE_LAYERING fc \<longrightarrow>
            clone fc p env c_opts np = (- ENOSYS, [DetectFormat])"
    by (auto simp add: clone_def clone_validate_def Let_def split: option.splits)
  from 1 2 3 4 5 6 show ?thesis by blast
qed

theorem clone_child_features_witness:
  "clone example_features example_parent example_clone_env (example_opts\<lparr>opt_features := Some 256\<rparr>) [] = (- ENOSYS, [])
   \<and> (\<exists>sz opts. Create sz opts \<in> set (snd (clone example_features example_parent example_clone_env example_opts []))
        \<and> opt_features opts = Some 65)
   \<and> fst (clone example_features example_parent example_clone_env (example_opts\<lparr>opt_features := Some 2\<rparr>) []) = - ENOSYS
   \<and> clone example_features (example_parent\<lparr>p_features := 64\<rparr>) example_clone_env example_opts [] = (- ENOSYS, [DetectFormat])"
proof -
  have h1: "p_snap_id example_parent \<noteq> CEPH_NOSNAP
      \<and> (\<forall>v. opt_format (example_opts\<lparr>opt_features := Some 256\<rparr>) = Some v \<longrightarrow> 2 \<le> v)
      \<and> (\<exists>f. opt_features (example_opts\<lparr>opt_features := Some 256\<rparr>) = Some f
           \<and> f AND NOT (RBD_FEATURES_ALL example_features) \<noteq> 0)"
    by (simp add: example_defs CEPH_NOSNAP_def)
  from clone_child_features [where fc = example_features and np = "[]" and env = example_clone_env and p = example_parent
      and c_opts = "example_opts\<lparr>opt_features := Some 256\<rparr>"] h1
  have c1: "clone example_features example_parent example_clone_env (example_opts\<lparr>opt_features := Some 256\<rparr>) [] = (- ENOSYS, [])"
    by blast
  have h2: "0 \<le> fst (clone example_features example_parent example_clone_env example_opts [])"
    by (simp add: clone_def clone_validate_def clone_child_def example_defs CEPH_NOSNAP_def
        err_remove_def err_close_child_def err_remove_child_def Let_def errno_defs mirror_mode_defs)
  from clone_child_features [where fc = example_features and np = "[]" and env = example_clone_env and p = example_parent
      and c_opts = example_opts] h2
  have "\<exists>sz opts. Create sz opts \<in> set (snd (clone example_features example_parent example_clone_env example_opts []))
        \<and> opt_features opts
           = Some (case opt_features example_opts of Some f \<Rightarrow> f | None \<Rightarrow> p_features example_parent)"
    by blast
  then have c2: "\<exists>sz opts. Create sz opts \<in> set (snd (clone example_features example_parent example_clone_env example_opts []))
        \<and> opt_features opts = Some 65"
    by (simp add: example_opts_def example_parent_def)
  have h3: "p_snap_id example_parent \<noteq> CEPH_NOSNAP
      \<and> (\<forall>v. opt_format (example_opts\<lparr>opt_features := Some 2\<rparr>) = Some v \<longrightarrow> 2 \<le> v)
      \<and> (\<forall>f. opt_features (example_opts\<lparr>opt_features := Some 2\<rparr>) = Some f
            \<longrightarrow> f AND NOT (RBD_FEATURES_ALL example_features) = 0)
      \<and> cl_detect_format_r example_clone_env = - ENOENT \<and> \<not> p_old_format example_parent
      \<and> p_features example_parent AND RBD_FEATURE_LAYERING example_features = RBD_FEATURE_LAYERING example_features
      \<and> 0 \<le> cl_snap_protected_r example_clone_env \<and> cl_snap_protected example_clone_env
      \<and> (p_features example_parent AND RBD_FEATURE_JOURNALING example_features \<noteq> 0 \<longrightarrow>
           0 \<le> cl_tag_owner_r example_clone_env \<and> (cl_is_primary example_clone_env \<or> ([] :: string) \<noteq> []))
      \<and> (case opt_features (example_opts\<lparr>opt_features := Some 2\<rparr>) of
            Some f \<Rightarrow> f | None \<Rightarrow> p_features example_parent)
          AND RBD_FEATURE_LAYERING example_features \<noteq> RBD_FEATURE_LAYERING example_features"
    by (simp add: example_defs CEPH_NOSNAP_def ENOENT_def)
  from clone_child_features [where fc = example_features and np = "[]" and env = example_clone_env and p = example_parent
      and c_opts = "example_opts\<lparr>opt_features := Some 2\<rparr>"] h3
  have c3: "fst (clone example_features example_parent example_clone_env (example_opts\<lparr>opt_features := Some 2\<rparr>) []) = - ENOSYS"
    by blast
  have h4: "p_snap_id (example_parent\<lparr>p_features := 64\<rparr>) \<noteq> CEPH_NOSNAP
      \<and> (\<forall>v. opt_format example_opts = Some v \<longrightarrow> 2 \<le> v)
      \<and> opt_features example_opts = None
      \<and> cl_detect_format_r example_clone_env = - ENOENT
      \<and> \<not> p_old_format (example_parent\<lparr>p_features := 64\<rparr>)
      \<and> p_features (example_parent\<lparr>p_features := 64\<rparr>) AND RBD_FEATURE_LAYERING example_features
          \<noteq> RBD_FEATURE_LAYERING example_features"
    by (simp add: example_defs CEPH_NOSNAP_def ENOENT_def)
  from clone_child_features [where fc = example_features and np = "[]" and env = example_clone_env
      and p = "example_parent\<lparr>p_features := 64\<rparr>" and c_opts = example_opts] h4
  have c4: "clone example_features (example_parent\<lparr>p_features := 64\<rparr>) example_clone_env example_opts [] = (- ENOSYS, [DetectFormat])"
    by blast
  from c1 c2 c3 c4 show ?thesis by blast
qed

section \<open>Properties of copy\<close>

lemma first_error_le: "first_error ops \<le> 0"
  by (induction ops rule: first_error.induct) simp_all

lemma first_error_append:
  "first_error (xs @ ys) = (if first_error xs = 0 then first_error ys else first_error xs)"
  by (induction xs rule: first_error.induct) auto

lemma first_error_in:
  "first_error ops \<noteq> 0 \<Longrightarrow> EndOp (first_error ops) \<in> set ops"
  by (induction ops rule: first_error.induct) (auto split: if_splits)

lemma first_error_zero:
  "first_error ops = 0 \<longleftrightarrow> (\<forall>e. EndOp e \<in> set ops \<longrightarrow> 0 \<le> e)"
  by (induction ops rule: first_error.induct) auto

lemma set_remove_nth: "set (remove_nth i xs) \<subseteq> set xs"
  unfolding remove_nth_def using set_take_subset [of i xs] set_drop_subset [of "Suc i" xs] by auto

lemma end_op_inv:
  assumes "copy_inv env st"
  shows "copy_inv env (end_op r st)"
  using assms first_error_le [of "copy_ops st"]
  by (auto simp add: copy_inv_def end_op_def first_error_append)

lemma complete_at_inv:
  assumes inv: "copy_inv env st" and c: "complete_at env i st = Some st'"
    and i: "i < length (pending st)"
  shows "copy_inv env st'"
proof -
  let ?st = "st\<lparr>pending := remove_nth i (pending st)\<rparr>"
  have rem: "copy_inv env ?st"
    using inv set_remove_nth [of i "pending st"] by (auto simp add: copy_inv_def)
  show ?thesis
  proof (cases "pending st ! i")
    case (Reading offset len)
    obtain r bl where rb: "read_chunk env offset len = (r, bl)"
      by (cases "read_chunk env offset len")
    from i Reading have "Reading offset len \<in> set (pending st)" by (metis nth_mem)
    with inv have len: "len = chunk_len env offset" by (simp add: copy_inv_def)
    show ?thesis
    proof (cases "r < 0 \<or> is_zero bl")
      case True
      with c Reading rb have "st' = end_op r ?st"
        by (auto simp add: complete_at_def Let_def split: if_splits)
      with end_op_inv [OF rem] show ?thesis by simp
    next
      case False
      with c Reading rb have st': "st' = ?st\<lparr>pending := pending ?st @ [Writing offset bl],
                            copy_ops := copy_ops ?st @ [AioWrite offset bl]\<rparr>"
        by (auto simp add: complete_at_def Let_def split: if_splits)
      from False rb len have "written_ok env offset bl" by (simp add: written_ok_def)
      with rem st' show ?thesis
        by (auto simp add: copy_inv_def first_error_append)
    qed
  next
    case (Writing offset bl)
    with c have "st' = end_op (write_chunk env offset bl) ?st"
      by (simp add: complete_at_def)
    with end_op_inv [OF rem] show ?thesis by simp
  qed
qed

lemma complete_picks_inv:
  "copy_inv env st \<Longrightarrow> complete_picks env picks st = Some st' \<Longrightarrow> copy_inv env st'"
proof (induction picks arbitrary: st)
  case Nil
  then show ?case by simp
next
  case (Cons p ps)
  show ?case
  proof (cases "pending st = []")
    case True
    with Cons show ?thesis by simp
  next
    case False
    with Cons.prems obtain st1 where
      c: "complete_at env (p mod length (pending st)) st = Some st1"
      and r: "complete_picks env ps st1 = Some st'"
      by (auto split: option.splits)
    from False have "p mod length (pending st) < length (pending st)" by simp
    from complete_at_inv [OF Cons.prems(1) c this] Cons.IH r show ?thesis by blast
  qed
qed

lemma drain_inv:
  "copy_inv env st \<Longrightarrow> drain env picks st = Some st' \<Longrightarrow> copy_inv env st' \<and> pending st' = []"
proof (induction env picks st rule: drain.induct)
  case (1 env picks st)
  note d = "1.prems"(2) [unfolded drain.simps [of env picks st]]
  show ?case
  proof (cases "pending st = []")
    case True
    with d "1.prems"(1) show ?thesis by simp
  next
    case False
    let ?i = "case picks of [] \<Rightarrow> 0 | p # _ \<Rightarrow> p mod length (pending st)"
    from False d obtain st1 where
      c: "complete_at env ?i st = Some st1" and r: "drain env (tl picks) st1 = Some st'"
      by (auto split: option.splits)
    have "?i < length (pending st)" using False by (cases picks) simp_all
    from complete_at_inv [OF "1.prems"(1) c this] "1.IH" [OF False c] r show ?thesis by blast
  qed
qed

lemma start_op_inv:
  "copy_inv env st \<Longrightarrow> start_op env st = Some st' \<Longrightarrow> copy_inv env st'"
proof (induction env st rule: start_op.induct)
  case (1 env st)
  note d = "1.prems"(2) [unfolded start_op.simps [of env st]]
  show ?case
  proof (cases "length (pending st) < concurrent_management_ops env")
    case True
    with d "1.prems"(1) show ?thesis by simp
  next
    case False
    with d have ne: "pending st \<noteq> []" by (auto split: if_splits)
    with False d obtain st1 where
      c: "complete_at env 0 st = Some st1" and r: "start_op env st1 = Some st'"
      by (auto split: option.splits)
    from ne have "0 < length (pending st)" by simp
    from complete_at_inv [OF "1.prems"(1) c this] "1.IH" [OF False ne c] r show ?thesis by blast
  qed
qed

lemma end_op_neg: "m_ret st < 0 \<Longrightarrow> m_ret (end_op r st) < 0"
  by (simp add: end_op_def)

lemma complete_at_neg:
  assumes c: "complete_at env i st = Some st'" and n: "m_ret st < 0"
  shows "m_ret st' < 0"
proof (cases "pending st ! i")
  case (Reading offset len)
  obtain r bl where rb: "read_chunk env offset len = (r, bl)"
    by (cases "read_chunk env offset len")
  let ?st = "st\<lparr>pending := remove_nth i (pending st)\<rparr>"
  have n': "m_ret ?st < 0" using n by simp
  show ?thesis
  proof (cases "r < 0 \<or> is_zero bl")
    case True
    with c Reading rb have "st' = end_op r ?st"
      by (auto simp add: complete_at_def Let_def split: if_splits)
    with end_op_neg [OF n'] show ?thesis by simp
  next
    case False
    with c Reading rb have st': "st' = ?st\<lparr>pending := pending ?st @ [Writing offset bl],
                            copy_ops := copy_ops ?st @ [AioWrite offset bl]\<rparr>"
      by (auto simp add: complete_at_def Let_def split: if_splits)
    with n show ?thesis by simp
  qed
next
  case (Writing offset bl)
  let ?st = "st\<lparr>pending := remove_nth i (pending st)\<rparr>"
  have n': "m_ret ?st < 0" using n by simp
  from Writing c have "st' = end_op (write_chunk env offset bl) ?st"
    by (simp add: complete_at_def)
  with end_op_neg [OF n'] show ?thesis by simp
qed

lemma drain_neg:
  "drain env picks st = Some st' \<Longrightarrow> m_ret st < 0 \<Longrightarrow> m_ret st' < 0"
proof (induction env picks st rule: drain.induct)
  case (1 env picks st)
  note d = "1.prems"(1) [unfolded drain.simps [of env picks st]]
  show ?case
  proof (cases "pending st = []")
    case True
    with d "1.prems"(2) show ?thesis by simp
  next
    case False
    let ?i = "case picks of [] \<Rightarrow> 0 | p # _ \<Rightarrow> p mod length (pending st)"
    from False d obtain st1 where
      c: "complete_at env ?i st = Some st1" and r: "drain env (tl picks) st1 = Some st'"
      by (auto split: option.splits)
    from complete_at_neg [OF c "1.prems"(2)] "1.IH" [OF False c r] show ?thesis by blast
  qed
qed

lemma wait_for_ret_inv:
  assumes "wait_for_ret env final st = Some (r, st')" and "copy_inv env st"
  shows "copy_inv env st' \<and> pending st' = [] \<and> r = m_ret st' \<and> (m_ret st < 0 \<longrightarrow> r < 0)"
proof -
  from assms(1) have d: "drain env final st = Some st'" and r: "r = m_ret st'"
    by (auto simp add: wait_for_ret_def split: option.splits)
  from drain_inv [OF assms(2) d] drain_neg [OF d] r show ?thesis by blast
qed

lemma copy_inv_progress:
  "copy_inv env st \<Longrightarrow> copy_inv env (st\<lparr>copy_ops := copy_ops st @ [UpdateProgress a b]\<rparr>)"
  by (simp add: copy_inv_def first_error_append)

lemma copy_inv_issue:
  "copy_inv env st \<Longrightarrow>
   copy_inv env (st\<lparr>pending := pending st @ [Reading offset (chunk_len env offset)],
                    copy_ops := copy_ops st
                       @ [AioRead offset (chunk_len env offset), UpdateProgress offset b]\<rparr>)"
  by (simp add: copy_inv_def first_error_append)

lemma copy_loop_post:
  "copy_loop env sched final offset st = Some res \<Longrightarrow> copy_inv env st \<Longrightarrow> copy_post env res"
proof (induction env sched final offset st res
    rule: copy_loop.raw_induct [rotated 1, consumes 1])
  case (1 copy_loop env sched final offset st res)
  note eq = "1.hyps" and inv = "1.prems"
  show ?case
  proof (cases "offset < src_size env")
    case False
    with eq obtain r st' where
      w: "wait_for_ret env final st = Some (r, st')"
      and res: "res = (if 0 \<le> r
            then (r, st'\<lparr>copy_ops := copy_ops st' @ [UpdateProgress (src_size env) (src_size env)]\<rparr>)
            else (r, st'))"
      by (auto split: option.splits if_splits)
    from wait_for_ret_inv [OF w inv] copy_inv_progress [of env st'] res
    show ?thesis by (auto simp add: copy_post_def)
  next
    case True
    with eq obtain st1 where
      c1: "complete_picks env (case sched of [] \<Rightarrow> [] | s # _ \<Rightarrow> fst s) st = Some st1"
      by (auto split: option.splits)
    note i1 = complete_picks_inv [OF inv c1]
    show ?thesis
    proof (cases "pending_error st1")
      case pe: True
      with True c1 eq have w: "wait_for_ret env final st1 = Some res" by simp
      obtain r st' where res: "res = (r, st')" by (cases res)
      from wait_for_ret_inv [OF w [unfolded res] i1] pe res show ?thesis
        by (auto simp add: copy_post_def pending_error_def)
    next
      case npe: False
      with True c1 eq obtain st2 st3 where
        c2: "complete_picks env (case sched of [] \<Rightarrow> [] | s # _ \<Rightarrow> snd s) st1 = Some st2"
        and s: "start_op env st2 = Some st3"
        and rec: "copy_loop env (tl sched) final (offset + period env)
                    (st3\<lparr>pending := pending st3 @ [Reading offset (chunk_len env offset)],
                        copy_ops := copy_ops st3
                          @ [AioRead offset (chunk_len env offset),
                             UpdateProgress offset (src_size env)]\<rparr>) = Some res"
        by (auto simp add: Let_def split: option.splits)
      from start_op_inv [OF complete_picks_inv [OF i1 c2] s]
      have "copy_inv env st3" .
      from "1.IH" [OF rec copy_inv_issue [OF this]] show ?thesis .
    qed
  qed
qed

lemma complete_at_total:
  assumes "reads_consistent env"
  shows "\<exists>st'. complete_at env i st = Some st'"
proof (cases "pending st ! i")
  case (Reading offset len)
  obtain r bl where rb: "read_chunk env offset len = (r, bl)"
    by (cases "read_chunk env offset len")
  with assms have "0 \<le> r \<longrightarrow> int (length bl) = r"
    unfolding reads_consistent_def by (metis fst_conv snd_conv)
  with Reading rb show ?thesis
    by (auto simp add: complete_at_def Let_def)
next
  case (Writing offset bl)
  then show ?thesis by (simp add: complete_at_def)
qed

lemma complete_picks_total:
  assumes "reads_consistent env"
  shows "\<exists>st'. complete_picks env picks st = Some st'"
proof (induction picks arbitrary: st)
  case Nil
  then show ?case by simp
next
  case (Cons p ps)
  show ?case
  proof (cases "pending st = []")
    case True
    with Cons show ?thesis by simp
  next
    case False
    from complete_at_total [OF assms, where i = "p mod length (pending st)" and st = st] obtain st1 where
      "complete_at env (p mod length (pending st)) st = Some st1" by blast
    with False Cons [of st1] show ?thesis by simp
  qed
qed

lemma drain_total:
  assumes "reads_consistent env"
  shows "\<exists>st'. drain env picks st = Some st'"
  using assms
proof (induction env picks st rule: drain.induct)
  case (1 env picks st)
  show ?case
  proof (cases "pending st = []")
    case True
    then show ?thesis by (simp add: drain.simps [of env picks st])
  next
    case False
    let ?i = "case picks of [] \<Rightarrow> 0 | p # _ \<Rightarrow> p mod length (pending st)"
    from complete_at_total [OF "1.prems", where i = ?i and st = st] obtain st1 where
      c: "complete_at env ?i st = Some st1" by blast
    from "1.IH" [OF False c "1.prems"] False c show ?thesis
      by (simp add: drain.simps [of env picks st])
  qed
qed

lemma start_op_total:
  assumes "reads_consistent env" and "0 < concurrent_management_ops env"
  shows "\<exists>st'. start_op env st = Some st'"
  using assms
proof (induction env st rule: start_op.induct)
  case (1 env st)
  show ?case
  proof (cases "length (pending st) < concurrent_management_ops env")
    case True
    then show ?thesis by (simp add: start_op.simps [of env st])
  next
    case False
    with "1.prems"(2) have ne: "pending st \<noteq> []" by auto
    from complete_at_total [OF "1.prems"(1), where i = 0 and st = st] obtain st1 where
      c: "complete_at env 0 st = Some st1" by blast
    from "1.IH" [OF False ne c "1.prems"] False ne c show ?thesis
      by (simp add: start_op.simps [of env st])
  qed
qed

lemma wait_for_ret_total:
  assumes "reads_consistent env"
  shows "\<exists>res. wait_for_ret env final st = Some res"
  using drain_total [OF assms, of final st] by (auto simp add: wait_for_ret_def)

lemma copy_loop_total:
  assumes rc: "reads_consistent env" and m: "0 < concurrent_management_ops env"
    and p: "0 < period env" and nw: "unat (src_size env) + unat (period env) \<le> 2 ^ 64"
  shows "\<exists>res. copy_loop env sched final offset st = Some res"
proof (induction "unat (src_size env) - unat offset" arbitrary: offset sched st rule: less_induct)
  case less
  show ?case
  proof (cases "offset < src_size env")
    case False
    from wait_for_ret_total [OF rc, of final st] obtain r st' where
      "wait_for_ret env final st = Some (r, st')" by auto
    with False show ?thesis
      by (subst copy_loop.simps) simp
  next
    case True
    obtain st1 where
      c1: "complete_picks env (case sched of [] \<Rightarrow> [] | s # _ \<Rightarrow> fst s) st = Some st1"
      using complete_picks_total [OF rc] by blast
    show ?thesis
    proof (cases "pending_error st1")
      case pe: True
      from wait_for_ret_total [OF rc, of final st1] obtain res where
        "wait_for_ret env final st1 = Some res" by auto
      with True c1 pe show ?thesis
        by (subst copy_loop.simps) simp
    next
      case npe: False
      obtain st2 where
        c2: "complete_picks env (case sched of [] \<Rightarrow> [] | s # _ \<Rightarrow> snd s) st1 = Some st2"
        using complete_picks_total [OF rc] by blast
      obtain st3 where s: "start_op env st2 = Some st3"
        using start_op_total [OF rc m] by blast
      from True have lt: "unat offset < unat (src_size env)" by (simp add: word_less_nat_alt)
      with nw have "unat offset + unat (period env) < 2 ^ 64" by simp
      then have u: "unat (offset + period env) = unat offset + unat (period env)"
        by (simp add: unat_word_ariths)
      from p have "0 < unat (period env)" by (simp add: word_less_nat_alt)
      with u lt have "unat (src_size env) - unat (offset + period env)
                   < unat (src_size env) - unat offset" by simp
      from less [OF this] obtain res where
        "copy_loop env (tl sched) final (offset + period env)
           (st3\<lparr>pending := pending st3 @ [Reading offset (chunk_len env offset)],
               copy_ops := copy_ops st3
                 @ [AioRead offset (chunk_len env offset),
                    UpdateProgress offset (src_size env)]\<rparr>) = Some res"
        by blast
      with True c1 npe c2 s show ?thesis
        by (subst copy_loop.simps) (simp add: Let_def)
    qed
  qed
qed

lemma first_error_split:
  assumes "ops = before @ EndOp e # after" "e < 0" "\<forall>e'. EndOp e' \<in> set before \<longrightarrow> 0 \<le> e'"
  shows "first_error ops = e"
proof -
  from assms(3) have "first_error before = 0" by (simp add: first_error_zero)
  with assms(1,2) show ?thesis by (simp add: first_error_append)
qed

lemma copy_reaches_loop:
  assumes "copy env sched final = Some (r, st)"
  shows "(r < 0 \<and> pending st = [] \<and> set (copy_ops st) \<subseteq> {CopyMetadataList, CopyMetadataSet})
      \<or> copy_post env (r, st)"
proof -
  let ?st0 = "\<lparr>m_ret = 0, pending = [],
      copy_ops = CopyMetadataList
         # (if cp_metadata_list_r env = 0 \<and> \<not> cp_pairs_empty env then [CopyMetadataSet] else [])\<rparr>"
  have i0: "copy_inv env ?st0" by (simp add: copy_inv_def)
  have "(r < 0 \<and> pending st = [] \<and> set (copy_ops st) \<subseteq> {CopyMetadataList, CopyMetadataSet})
      \<or> copy_loop env sched final 0 ?st0 = Some (r, st)"
    using assms
    by (auto simp add: copy_def Let_def EINVAL_def EIO_def EOPNOTSUPP_def split: if_splits)
  then show ?thesis using copy_loop_post [OF _ i0] by blast
qed

text \<open>
  C6. When the destination is smaller than the source, \<open>copy\<close> returns \<open>-EINVAL\<close> and has
  made no call at all. Whenever \<open>copy\<close> returns, whatever the order of the completions: no
  operation is left outstanding; every write made on the destination carries the content
  read from the source at the same offset, and that content is not all zero, so that a
  chunk read as all zero is never written; if a chunk operation ended with a negative
  code, the code returned is that of the first one that did; and a return without failure
  is 0, no chunk operation has failed, and the last call reports the progress as the size
  of the source out of the size of the source. \<open>copy\<close> does return when every read hands
  over as many bytes as its code says, the bound of the throttle and the stripe period are
  not 0, and the size of the source plus the period does not exceed \<open>2^64\<close>.
\<close>

theorem copy_sweep:
  "(dest_size env < src_size env \<longrightarrow>
      copy env sched final = Some (- EINVAL, \<lparr>m_ret = 0, pending = [], copy_ops = []\<rparr>))
   \<and> (\<forall>r st. copy env sched final = Some (r, st) \<longrightarrow>
        pending st = []
        \<and> (\<forall>offset bl. AioWrite offset bl \<in> set (copy_ops st) \<longrightarrow>
              bl = snd (read_chunk env offset (chunk_len env offset)) \<and> \<not> is_zero bl)
        \<and> (\<forall>offset bl. is_zero (snd (read_chunk env offset (chunk_len env offset))) \<longrightarrow>
              AioWrite offset bl \<notin> set (copy_ops st))
        \<and> (\<forall>before e after.
              copy_ops st = before @ EndOp e # after \<and> e < 0
              \<and> (\<forall>e'. EndOp e' \<in> set before \<longrightarrow> 0 \<le> e') \<longrightarrow> r = e)
        \<and> (0 \<le> r \<longrightarrow>
              r = 0 \<and> (\<forall>e. EndOp e \<in> set (copy_ops st) \<longrightarrow> 0 \<le> e)
              \<and> copy_ops st \<noteq> []
              \<and> last (copy_ops st) = UpdateProgress (src_size env) (src_size env)))
   \<and> (reads_consistent env \<and> 0 < concurrent_management_ops env \<and> 0 < period env
        \<and> unat (src_size env) + unat (period env) \<le> 2 ^ 64 \<longrightarrow>
        (\<exists>res. copy env sched final = Some res))"
proof -
  have 1: "dest_size env < src_size env \<longrightarrow>
      copy env sched final = Some (- EINVAL, \<lparr>m_ret = 0, pending = [], copy_ops = []\<rparr>)"
    by (simp add: copy_def)
  have 3: "reads_consistent env \<and> 0 < concurrent_management_ops env \<and> 0 < period env
        \<and> unat (src_size env) + unat (period env) \<le> 2 ^ 64 \<longrightarrow>
        (\<exists>res. copy env sched final = Some res)"
    using copy_loop_total [of env] by (simp add: copy_def Let_def)
  have 2: "\<forall>r st. copy env sched final = Some (r, st) \<longrightarrow>
        pending st = []
        \<and> (\<forall>offset bl. AioWrite offset bl \<in> set (copy_ops st) \<longrightarrow>
              bl = snd (read_chunk env offset (chunk_len env offset)) \<and> \<not> is_zero bl)
        \<and> (\<forall>offset bl. is_zero (snd (read_chunk env offset (chunk_len env offset))) \<longrightarrow>
              AioWrite offset bl \<notin> set (copy_ops st))
        \<and> (\<forall>before e after.
              copy_ops st = before @ EndOp e # after \<and> e < 0
              \<and> (\<forall>e'. EndOp e' \<in> set before \<longrightarrow> 0 \<le> e') \<longrightarrow> r = e)
        \<and> (0 \<le> r \<longrightarrow>
              r = 0 \<and> (\<forall>e. EndOp e \<in> set (copy_ops st) \<longrightarrow> 0 \<le> e)
              \<and> copy_ops st \<noteq> []
              \<and> last (copy_ops st) = UpdateProgress (src_size env) (src_size env))"
  proof (intro allI impI)
    fix r st
    assume c: "copy env sched final = Some (r, st)"
    note k = copy_reaches_loop [OF c]
    have a: "pending st = []"
      using k by (auto simp add: copy_post_def)
    have w: "\<forall>offset bl. AioWrite offset bl \<in> set (copy_ops st) \<longrightarrow>
              bl = snd (read_chunk env offset (chunk_len env offset)) \<and> \<not> is_zero bl"
      using k by (auto simp add: copy_post_def copy_inv_def written_ok_def)
    then have z: "\<forall>offset bl. is_zero (snd (read_chunk env offset (chunk_len env offset))) \<longrightarrow>
              AioWrite offset bl \<notin> set (copy_ops st)"
      by metis
    have f: "\<forall>before e after.
              copy_ops st = before @ EndOp e # after \<and> e < 0
              \<and> (\<forall>e'. EndOp e' \<in> set before \<longrightarrow> 0 \<le> e') \<longrightarrow> r = e"
    proof (intro allI impI)
      fix before e after
      assume h: "copy_ops st = before @ EndOp e # after \<and> e < 0
              \<and> (\<forall>e'. EndOp e' \<in> set before \<longrightarrow> 0 \<le> e')"
      then have fe: "first_error (copy_ops st) = e"
        using first_error_split [of "copy_ops st" before e after] by blast
      from h have "EndOp e \<in> set (copy_ops st)" by simp
      with k have "copy_post env (r, st)" by auto
      with fe show "r = e" by (simp add: copy_post_def copy_inv_def)
    qed
    have s: "0 \<le> r \<longrightarrow>
              r = 0 \<and> (\<forall>e. EndOp e \<in> set (copy_ops st) \<longrightarrow> 0 \<le> e)
              \<and> copy_ops st \<noteq> []
              \<and> last (copy_ops st) = UpdateProgress (src_size env) (src_size env)"
    proof
      assume nn: "0 \<le> r"
      with k have p: "copy_post env (r, st)" by auto
      then have "r = first_error (copy_ops st)" by (simp add: copy_post_def copy_inv_def)
      with nn first_error_le [of "copy_ops st"] have "first_error (copy_ops st) = 0" "r = 0"
        by simp_all
      with p nn show "r = 0 \<and> (\<forall>e. EndOp e \<in> set (copy_ops st) \<longrightarrow> 0 \<le> e)
              \<and> copy_ops st \<noteq> []
              \<and> last (copy_ops st) = UpdateProgress (src_size env) (src_size env)"
        by (simp add: first_error_zero copy_post_def)
    qed
    from a w z f s show "pending st = []
        \<and> (\<forall>offset bl. AioWrite offset bl \<in> set (copy_ops st) \<longrightarrow>
              bl = snd (read_chunk env offset (chunk_len env offset)) \<and> \<not> is_zero bl)
        \<and> (\<forall>offset bl. is_zero (snd (read_chunk env offset (chunk_len env offset))) \<longrightarrow>
              AioWrite offset bl \<notin> set (copy_ops st))
        \<and> (\<forall>before e after.
              copy_ops st = before @ EndOp e # after \<and> e < 0
              \<and> (\<forall>e'. EndOp e' \<in> set before \<longrightarrow> 0 \<le> e') \<longrightarrow> r = e)
        \<and> (0 \<le> r \<longrightarrow>
              r = 0 \<and> (\<forall>e. EndOp e \<in> set (copy_ops st) \<longrightarrow> 0 \<le> e)
              \<and> copy_ops st \<noteq> []
              \<and> last (copy_ops st) = UpdateProgress (src_size env) (src_size env))"
      by (intro conjI)
  qed
  show ?thesis by (intro conjI) (rule 1, rule 2, rule 3)
qed

lemmas copy_eval =
  copy_def copy_loop.simps complete_at_def drain.simps start_op.simps wait_for_ret_def
  end_op_def pending_error_def remove_nth_def chunk_len_def is_zero_def Let_def

theorem copy_sweep_witness:
  "copy (example_copy_env\<lparr>dest_size := 8\<rparr>) [] []
     = Some (- EINVAL, \<lparr>m_ret = 0, pending = [], copy_ops = []\<rparr>)
   \<and> (\<exists>st. copy example_copy_env [([], []), ([0], [])] [1, 0] = Some (0, st)
          \<and> copy_ops st
              = [CopyMetadataList, AioRead 0 4, UpdateProgress 0 10,
                 AioWrite 0 [3, 0, 5, 6], AioRead 4 4, UpdateProgress 4 10,
                 EndOp 0, AioRead 8 2, UpdateProgress 8 10, AioWrite 8 [7, 9],
                 EndOp 4, EndOp 0, UpdateProgress 10 10]
          \<and> (\<forall>bl. AioWrite 4 bl \<notin> set (copy_ops st))
          \<and> last (copy_ops st) = UpdateProgress 10 10)
   \<and> (\<exists>st. copy example_failing_copy_env [] [] = Some (- 5, st)
          \<and> copy_ops st
              = [CopyMetadataList, AioRead 0 4, UpdateProgress 0 10, AioRead 4 4,
                 UpdateProgress 4 10, AioWrite 0 [3, 0, 5, 6], EndOp 4, AioRead 8 2,
                 UpdateProgress 8 10, EndOp (- 5), EndOp (- 2)]
          \<and> pending st = [])
   \<and> (\<forall>sched final. \<exists>res. copy example_copy_env sched final = Some res)"
proof -
  have h1: "dest_size (example_copy_env\<lparr>dest_size := 8\<rparr>)
              < src_size (example_copy_env\<lparr>dest_size := 8\<rparr>)"
    by (simp add: example_copy_env_def)
  from copy_sweep [where env = "example_copy_env\<lparr>dest_size := 8\<rparr>" and sched = "[]"
      and final = "[]", THEN conjunct1] h1
  have c1: "copy (example_copy_env\<lparr>dest_size := 8\<rparr>) [] []
     = Some (- EINVAL, \<lparr>m_ret = 0, pending = [], copy_ops = []\<rparr>)"
    by (rule mp)
  let ?ok = "\<lparr>m_ret = 0, pending = [],
      copy_ops = [CopyMetadataList, AioRead 0 4, UpdateProgress 0 10,
                 AioWrite 0 [3, 0, 5, 6], AioRead 4 4, UpdateProgress 4 10,
                 EndOp 0, AioRead 8 2, UpdateProgress 8 10, AioWrite 8 [7, 9],
                 EndOp 4, EndOp 0, UpdateProgress 10 10]\<rparr>"
  have h2: "copy example_copy_env [([], []), ([0], [])] [1, 0] = Some (0, ?ok)"
    by (simp add: copy_eval example_copy_env_def)
  note t2 = copy_sweep [where env = example_copy_env and sched = "[([], []), ([0], [])]"
      and final = "[1, 0]", THEN conjunct2, THEN conjunct1, rule_format, OF h2]
  have z: "is_zero (snd (read_chunk example_copy_env 4 (chunk_len example_copy_env 4)))"
    by (simp add: example_copy_env_def is_zero_def)
  from t2 z have c2a: "\<forall>bl. AioWrite 4 bl \<notin> set (copy_ops ?ok)" by blast
  from t2 have "last (copy_ops ?ok)
      = UpdateProgress (src_size example_copy_env) (src_size example_copy_env)" by simp
  then have c2b: "last (copy_ops ?ok) = UpdateProgress 10 10"
    by (simp add: example_copy_env_def)
  have c2: "\<exists>st. copy example_copy_env [([], []), ([0], [])] [1, 0] = Some (0, st)
          \<and> copy_ops st
              = [CopyMetadataList, AioRead 0 4, UpdateProgress 0 10,
                 AioWrite 0 [3, 0, 5, 6], AioRead 4 4, UpdateProgress 4 10,
                 EndOp 0, AioRead 8 2, UpdateProgress 8 10, AioWrite 8 [7, 9],
                 EndOp 4, EndOp 0, UpdateProgress 10 10]
          \<and> (\<forall>bl. AioWrite 4 bl \<notin> set (copy_ops st))
          \<and> last (copy_ops st) = UpdateProgress 10 10"
    using h2 c2a c2b by (intro exI [of _ ?ok] conjI) simp_all
  let ?bad = "\<lparr>m_ret = - 5, pending = [],
      copy_ops = [CopyMetadataList, AioRead 0 4, UpdateProgress 0 10, AioRead 4 4,
                 UpdateProgress 4 10, AioWrite 0 [3, 0, 5, 6], EndOp 4, AioRead 8 2,
                 UpdateProgress 8 10, EndOp (- 5), EndOp (- 2)]\<rparr>"
  have h3: "copy example_failing_copy_env [] [] = Some (- 5, ?bad)"
    by (simp add: copy_eval example_failing_copy_env_def example_copy_env_def)
  note t3 = copy_sweep [where env = example_failing_copy_env and sched = "[]"
      and final = "[]", THEN conjunct2, THEN conjunct1, rule_format, OF h3]
  from t3 have c3a: "pending ?bad = []" by (rule conjunct1)
  have c3: "\<exists>st. copy example_failing_copy_env [] [] = Some (- 5, st)
          \<and> copy_ops st
              = [CopyMetadataList, AioRead 0 4, UpdateProgress 0 10, AioRead 4 4,
                 UpdateProgress 4 10, AioWrite 0 [3, 0, 5, 6], EndOp 4, AioRead 8 2,
                 UpdateProgress 8 10, EndOp (- 5), EndOp (- 2)]
          \<and> pending st = []"
    using h3 c3a by (intro exI [of _ ?bad] conjI) simp_all
  have h4: "reads_consistent example_copy_env \<and> 0 < concurrent_management_ops example_copy_env
      \<and> 0 < period example_copy_env
      \<and> unat (src_size example_copy_env) + unat (period example_copy_env) \<le> 2 ^ 64"
    by (simp add: reads_consistent_def example_copy_env_def)
  have c4: "\<forall>sched final. \<exists>res. copy example_copy_env sched final = Some res"
  proof (intro allI)
    fix sched final
    from copy_sweep [where env = example_copy_env and sched = sched and final = final,
        THEN conjunct2, THEN conjunct2] h4
    show "\<exists>res. copy example_copy_env sched final = Some res" by (rule mp)
  qed
  show ?thesis by (intro conjI) (rule c1, rule c2, rule c3, rule c4)
qed

section \<open>Properties of mirror\_image\_disable\<close>

lemma check_child_ids_result:
  "check_child_ids ids = (res, ops) \<Longrightarrow>
   (res = None \<or> res = Some (- EBUSY))
   \<and> (\<forall>x \<in> set ops. \<exists>cid cr. x = ChildRecordGet cid cr)
   \<and> (\<forall>cid cr. ChildRecordGet cid cr \<in> set ops \<and> cr \<noteq> - ENOENT \<longrightarrow> res = Some (- EBUSY))"
proof (induction ids arbitrary: res ops)
  case Nil
  then show ?case by simp
next
  case (Cons id_it rest)
  obtain res' ops' where r: "check_child_ids rest = (res', ops')"
    by (cases "check_child_ids rest")
  from Cons.IH [OF r] Cons.prems r show ?case
    by (auto split: if_splits)
qed

lemma check_image_info_result:
  "check_image_info infos = (res, ops) \<Longrightarrow>
   (\<forall>r. res = Some r \<longrightarrow> r < 0)
   \<and> (\<forall>x \<in> set ops. (\<exists>cid cr. x = ChildRecordGet cid cr) \<or> (\<exists>pl. x = IoctxCreate pl))
   \<and> (\<forall>cid cr. ChildRecordGet cid cr \<in> set ops \<and> cr \<noteq> - ENOENT \<longrightarrow> res = Some (- EBUSY))"
proof (induction infos arbitrary: res ops)
  case Nil
  then show ?case by simp
next
  case (Cons info rest)
  obtain res1 ops1 where c: "check_child_ids (pc_children info) = (res1, ops1)"
    by (cases "check_child_ids (pc_children info)")
  obtain res' ops' where r: "check_image_info rest = (res', ops')"
    by (cases "check_image_info rest")
  note ih = Cons.IH [OF r]
  note ch = check_child_ids_result [OF c]
  show ?case
  proof (cases "pc_ioctx_r info < 0")
    case True
    with Cons.prems show ?thesis by auto
  next
    case False
    show ?thesis
    proof (cases res1)
      case None
      with False c r Cons.prems have "res = res'" "ops = IoctxCreate (pc_pool_id info) # ops1 @ ops'"
        by auto
      with ih ch None show ?thesis by auto
    next
      case (Some b)
      with False c Cons.prems have "res = Some b" "ops = IoctxCreate (pc_pool_id info) # ops1"
        by auto
      with ch Some show ?thesis by (auto simp add: EBUSY_def)
    qed
  qed
qed

lemma check_snap_info_result:
  "check_snap_info infos = (res, ops) \<Longrightarrow>
   (\<forall>r. res = Some r \<longrightarrow> r < 0)
   \<and> (\<forall>x \<in> set ops. (\<exists>cid cr. x = ChildRecordGet cid cr) \<or> (\<exists>pl. x = IoctxCreate pl)
                      \<or> (\<exists>sn. x = ListChildrenInfo sn))
   \<and> (\<forall>cid cr. ChildRecordGet cid cr \<in> set ops \<and> cr \<noteq> - ENOENT \<longrightarrow> res = Some (- EBUSY))"
proof (induction infos arbitrary: res ops)
  case Nil
  then show ?case by simp
next
  case (Cons info rest)
  obtain res1 ops1 where c: "check_image_info (sc_image_info info) = (res1, ops1)"
    by (cases "check_image_info (sc_image_info info)")
  obtain res' ops' where r: "check_snap_info rest = (res', ops')"
    by (cases "check_snap_info rest")
  note ih = Cons.IH [OF r]
  note ch = check_image_info_result [OF c]
  show ?case
  proof (cases "sc_list_r info < 0")
    case True
    with Cons.prems show ?thesis by auto
  next
    case False
    show ?thesis
    proof (cases res1)
      case None
      with False c r Cons.prems have "res = res'"
        "ops = ListChildrenInfo (sc_snap_id info) # ops1 @ ops'"
        by auto
      with ih ch None show ?thesis by auto
    next
      case (Some b)
      with False c Cons.prems have "res = Some b" "ops = ListChildrenInfo (sc_snap_id info) # ops1"
        by auto
      with ch Some show ?thesis by auto
    qed
  qed
qed

lemma mirror_image_disable_marked:
  assumes "0 \<le> md_refresh_r env" "0 \<le> md_mode_get_r env"
    "md_mirror_mode env = MIRROR_MODE_IMAGE" "0 \<le> md_image_get_r env" "0 \<le> md_image_set_r env"
    and c: "check_snap_info (md_snaps env) = (res, check_ops)"
  shows "mirror_image_disable env force =
     (case res of
        Some r \<Rightarrow> (r, [ImageRefresh, PoolModeGet, ImageRecordGet,
                       ImageRecordSet MIRROR_IMAGE_STATE_DISABLING]
                      @ check_ops @ [ImageRecordSet MIRROR_IMAGE_STATE_ENABLED])
      | None \<Rightarrow>
          if md_disable_internal_r env < 0 then
            (md_disable_internal_r env,
             [ImageRefresh, PoolModeGet, ImageRecordGet,
              ImageRecordSet MIRROR_IMAGE_STATE_DISABLING]
             @ check_ops @ [SendDisableRequest force, ImageRecordSet MIRROR_IMAGE_STATE_ENABLED])
          else (0, [ImageRefresh, PoolModeGet, ImageRecordGet,
                    ImageRecordSet MIRROR_IMAGE_STATE_DISABLING]
                   @ check_ops @ [SendDisableRequest force]))"
  using assms
  by (simp add: mirror_image_disable_def Let_def errno_defs split: option.splits)

lemma mirror_image_disable_unmarked:
  assumes "\<not> (0 \<le> md_refresh_r env \<and> 0 \<le> md_mode_get_r env
    \<and> md_mirror_mode env = MIRROR_MODE_IMAGE \<and> 0 \<le> md_image_get_r env \<and> 0 \<le> md_image_set_r env)"
  shows "set (snd (mirror_image_disable env force))
          \<subseteq> {ImageRefresh, PoolModeGet, ImageRecordGet, ImageRecordSet MIRROR_IMAGE_STATE_DISABLING}
       \<and> (ImageRecordSet MIRROR_IMAGE_STATE_DISABLING \<in> set (snd (mirror_image_disable env force))
            \<longrightarrow> md_image_set_r env < 0)"
  using assms
  by (auto simp add: mirror_image_disable_def Let_def errno_defs)


lemma check_child_ids_mirrored:
  "\<exists>c \<in> set ids. snd c \<noteq> - ENOENT \<Longrightarrow> fst (check_child_ids ids) = Some (- EBUSY)"
  by (induction ids) (auto simp add: split_beta)

lemma check_image_info_mirrored:
  assumes "\<exists>p \<in> set infos. \<exists>c \<in> set (pc_children p). snd c \<noteq> - ENOENT"
  shows "(\<exists>r. fst (check_image_info infos) = Some r)
       \<and> ((\<forall>p \<in> set infos. 0 \<le> pc_ioctx_r p) \<longrightarrow>
            fst (check_image_info infos) = Some (- EBUSY))"
  using assms
proof (induction infos)
  case Nil
  then show ?case by simp
next
  case (Cons info rest)
  obtain res1 ops1 where c: "check_child_ids (pc_children info) = (res1, ops1)"
    by (cases "check_child_ids (pc_children info)")
  obtain res' ops' where r: "check_image_info rest = (res', ops')"
    by (cases "check_image_info rest")
  show ?case
  proof (cases "pc_ioctx_r info < 0")
    case True
    then show ?thesis by auto
  next
    case False
    show ?thesis
    proof (cases res1)
      case (Some b)
      from check_child_ids_result [OF c] Some have "b = - EBUSY" by simp
      with Some c False show ?thesis by simp
    next
      case None
      with c check_child_ids_mirrored [of "pc_children info"]
      have "\<not> (\<exists>c \<in> set (pc_children info). snd c \<noteq> - ENOENT)" by auto
      with Cons.prems have "\<exists>p \<in> set rest. \<exists>c \<in> set (pc_children p). snd c \<noteq> - ENOENT"
        by auto
      from Cons.IH [OF this] None c r False show ?thesis by simp
    qed
  qed
qed

lemma check_child_ids_found:
  "fst (check_child_ids ids) = Some b \<Longrightarrow> \<exists>c \<in> set ids. snd c \<noteq> - ENOENT"
  by (induction ids) (auto simp add: split_beta split: if_splits)

lemma check_image_info_found:
  "check_image_info infos = (Some b, ops) \<Longrightarrow>
   (\<exists>p \<in> set infos. pc_ioctx_r p < 0)
   \<or> (\<exists>p \<in> set infos. \<exists>c \<in> set (pc_children p). snd c \<noteq> - ENOENT)"
proof (induction infos arbitrary: ops)
  case Nil
  then show ?case by simp
next
  case (Cons info rest)
  obtain res1 ops1 where c: "check_child_ids (pc_children info) = (res1, ops1)"
    by (cases "check_child_ids (pc_children info)")
  obtain res' ops' where r: "check_image_info rest = (res', ops')"
    by (cases "check_image_info rest")
  show ?case
  proof (cases "pc_ioctx_r info < 0")
    case True
    then show ?thesis by simp
  next
    case False
    show ?thesis
    proof (cases res1)
      case (Some b1)
      with c have "fst (check_child_ids (pc_children info)) = Some b1" by simp
      from check_child_ids_found [OF this] show ?thesis by simp
    next
      case None
      with c r False Cons.prems have "check_image_info rest = (Some b, ops')" by simp
      from Cons.IH [OF this] show ?thesis by auto
    qed
  qed
qed

lemma check_snap_info_mirrored:
  assumes "\<exists>s \<in> set snaps. \<exists>p \<in> set (sc_image_info s). \<exists>c \<in> set (pc_children p).
             snd c \<noteq> - ENOENT"
  shows "(\<exists>r. fst (check_snap_info snaps) = Some r)
       \<and> ((\<forall>s \<in> set snaps. 0 \<le> sc_list_r s \<and> (\<forall>p \<in> set (sc_image_info s). 0 \<le> pc_ioctx_r p))
            \<longrightarrow> fst (check_snap_info snaps) = Some (- EBUSY))"
  using assms
proof (induction snaps)
  case Nil
  then show ?case by simp
next
  case (Cons info rest)
  obtain res1 ops1 where c: "check_image_info (sc_image_info info) = (res1, ops1)"
    by (cases "check_image_info (sc_image_info info)")
  obtain res' ops' where r: "check_snap_info rest = (res', ops')"
    by (cases "check_snap_info rest")
  show ?case
  proof (cases "sc_list_r info < 0")
    case True
    then show ?thesis by auto
  next
    case False
    show ?thesis
    proof (cases "\<exists>p \<in> set (sc_image_info info). \<exists>c \<in> set (pc_children p). snd c \<noteq> - ENOENT")
      case True
      from check_image_info_mirrored [OF True] c obtain b where
        b: "res1 = Some b"
           "(\<forall>p \<in> set (sc_image_info info). 0 \<le> pc_ioctx_r p) \<longrightarrow> b = - EBUSY"
        by auto
      with c False show ?thesis by simp
    next
      case nm: False
      with Cons.prems have m: "\<exists>s \<in> set rest. \<exists>p \<in> set (sc_image_info s).
           \<exists>c \<in> set (pc_children p). snd c \<noteq> - ENOENT"
        by auto
      note ih = Cons.IH [OF m]
      show ?thesis
      proof (cases res1)
        case None
        with ih c r False show ?thesis by simp
      next
        case (Some b)
        from check_image_info_result [OF c] Some have "b < 0" by simp
        from check_image_info_found [OF c [unfolded Some]] nm
        have "\<exists>p \<in> set (sc_image_info info). pc_ioctx_r p < 0" by blast
        then have "\<not> (\<forall>p \<in> set (sc_image_info info). 0 \<le> pc_ioctx_r p)" by force
        with Some c False show ?thesis by auto
      qed
    qed
  qed
qed

lemma check_snap_info_found:
  "fst (check_snap_info snaps) = Some b \<Longrightarrow>
   (\<exists>s \<in> set snaps. sc_list_r s < 0)
   \<or> (\<exists>s \<in> set snaps. \<exists>p \<in> set (sc_image_info s). pc_ioctx_r p < 0)
   \<or> (\<exists>s \<in> set snaps. \<exists>p \<in> set (sc_image_info s). \<exists>c \<in> set (pc_children p).
         snd c \<noteq> - ENOENT)"
proof (induction snaps)
  case Nil
  then show ?case by simp
next
  case (Cons info rest)
  obtain res1 ops1 where c: "check_image_info (sc_image_info info) = (res1, ops1)"
    by (cases "check_image_info (sc_image_info info)")
  obtain res' ops' where r: "check_snap_info rest = (res', ops')"
    by (cases "check_snap_info rest")
  show ?case
  proof (cases "sc_list_r info < 0")
    case True
    then show ?thesis by simp
  next
    case False
    show ?thesis
    proof (cases res1)
      case (Some b1)
      from check_image_info_found [OF c [unfolded Some]] show ?thesis by auto
    next
      case None
      with c r False Cons.prems have "fst (check_snap_info rest) = Some b" by simp
      from Cons.IH [OF this] show ?thesis by auto
    qed
  qed
qed

lemma check_snap_info_first:
  "\<exists>rest. snd (check_snap_info (s # others)) = ListChildrenInfo (sc_snap_id s) # rest"
  by (simp add: split_beta split: option.splits)

text \<open>
  C3, as the code has it. With the refresh and the reading of the pool mode successful, a
  pool mode other than per-image makes \<open>mirror_image_disable\<close> return \<open>-EINVAL\<close>. An image
  that has no mirror record gets \<open>0\<close> and nothing is checked. Once the record of the image
  has been read and written as disabling: if any child of any of the image's snapshots, in
  any pool, has a mirror record (the read of its record returns anything but \<open>-ENOENT\<close>),
  the call fails, sends no disable request and ends by writing the record back to enabled,
  whatever \<open>force\<close> is; the code is \<open>-EBUSY\<close> when the calls that list the children and
  open their pools succeed. With no such child and these calls successful, the disable
  request is sent. Read off the calls: whenever the scan reads a record that is there, the
  function returns \<open>-EBUSY\<close> and sends no disable request. The scan starts right after the
  write of the record as disabling, and any call of the scan comes after that write. Any
  negative return after that write ends with the write that puts the record back to
  enabled; a return without failure is 0, ends with the disable request and writes no such
  record.
\<close>

theorem mirror_image_disable_protocol:
  fixes env force
  defines "r \<equiv> fst (mirror_image_disable env force)"
    and "ops \<equiv> snd (mirror_image_disable env force)"
    and "marked \<equiv> 0 \<le> md_refresh_r env \<and> 0 \<le> md_mode_get_r env
           \<and> md_mirror_mode env = MIRROR_MODE_IMAGE \<and> 0 \<le> md_image_get_r env
           \<and> 0 \<le> md_image_set_r env"
    and "mirrored_child \<equiv> \<exists>s \<in> set (md_snaps env). \<exists>p \<in> set (sc_image_info s).
           \<exists>c \<in> set (pc_children p). snd c \<noteq> - ENOENT"
    and "scan_calls_succeed \<equiv> \<forall>s \<in> set (md_snaps env).
           0 \<le> sc_list_r s \<and> (\<forall>p \<in> set (sc_image_info s). 0 \<le> pc_ioctx_r p)"
  shows "(0 \<le> md_refresh_r env \<and> 0 \<le> md_mode_get_r env
            \<and> md_mirror_mode env \<noteq> MIRROR_MODE_IMAGE \<longrightarrow>
            mirror_image_disable env force = (- EINVAL, [ImageRefresh, PoolModeGet]))
       \<and> (marked \<and> mirrored_child \<longrightarrow>
            r < 0 \<and> (\<forall>f. SendDisableRequest f \<notin> set ops)
            \<and> last ops = ImageRecordSet MIRROR_IMAGE_STATE_ENABLED)
       \<and> (marked \<and> mirrored_child \<and> scan_calls_succeed \<longrightarrow> r = - EBUSY)
       \<and> (marked \<and> \<not> mirrored_child \<and> scan_calls_succeed \<and> 0 \<le> md_disable_internal_r env \<longrightarrow>
            r = 0 \<and> last ops = SendDisableRequest force)
       \<and> (\<forall>cid cr. ChildRecordGet cid cr \<in> set ops \<and> cr \<noteq> - ENOENT \<longrightarrow>
            r = - EBUSY \<and> (\<forall>f. SendDisableRequest f \<notin> set ops))
       \<and> (marked \<longrightarrow>
            (\<exists>rest. ops = [ImageRefresh, PoolModeGet, ImageRecordGet,
                              ImageRecordSet MIRROR_IMAGE_STATE_DISABLING] @ rest
               \<and> (\<forall>s others. md_snaps env = s # others \<longrightarrow>
                     (\<exists>rest'. rest = ListChildrenInfo (sc_snap_id s) # rest')))
            \<and> (r < 0 \<longrightarrow> last ops = ImageRecordSet MIRROR_IMAGE_STATE_ENABLED)
            \<and> (0 \<le> r \<longrightarrow> r = 0 \<and> last ops = SendDisableRequest force
                  \<and> ImageRecordSet MIRROR_IMAGE_STATE_ENABLED \<notin> set ops))
       \<and> ((\<exists>sn. ListChildrenInfo sn \<in> set ops) \<or> (\<exists>pl. IoctxCreate pl \<in> set ops)
            \<or> (\<exists>cid cr. ChildRecordGet cid cr \<in> set ops) \<longrightarrow>
            0 \<le> md_image_set_r env
            \<and> (\<exists>rest. ops = [ImageRefresh, PoolModeGet, ImageRecordGet,
                              ImageRecordSet MIRROR_IMAGE_STATE_DISABLING] @ rest))
       \<and> (ImageRecordSet MIRROR_IMAGE_STATE_DISABLING \<in> set ops \<and> 0 \<le> md_image_set_r env
            \<and> r < 0 \<longrightarrow>
            last ops = ImageRecordSet MIRROR_IMAGE_STATE_ENABLED)
       \<and> (ImageRecordSet MIRROR_IMAGE_STATE_DISABLING \<in> set ops \<and> 0 \<le> md_image_set_r env
            \<and> 0 \<le> r \<longrightarrow>
            r = 0 \<and> last ops = SendDisableRequest force
            \<and> ImageRecordSet MIRROR_IMAGE_STATE_ENABLED \<notin> set ops)
       \<and> (0 \<le> md_refresh_r env \<and> 0 \<le> md_mode_get_r env
            \<and> md_mirror_mode env = MIRROR_MODE_IMAGE \<and> md_image_get_r env = - ENOENT \<longrightarrow>
            mirror_image_disable env force = (0, [ImageRefresh, PoolModeGet, ImageRecordGet]))"
proof -
  have ten: "0 \<le> md_refresh_r env \<and> 0 \<le> md_mode_get_r env
            \<and> md_mirror_mode env = MIRROR_MODE_IMAGE \<and> md_image_get_r env = - ENOENT \<longrightarrow>
            mirror_image_disable env force = (0, [ImageRefresh, PoolModeGet, ImageRecordGet])"
    by (simp add: mirror_image_disable_def)
  show ?thesis
  proof (cases marked)
    case False
    then have nm: "\<not> (0 \<le> md_refresh_r env \<and> 0 \<le> md_mode_get_r env
      \<and> md_mirror_mode env = MIRROR_MODE_IMAGE \<and> 0 \<le> md_image_get_r env \<and> 0 \<le> md_image_set_r env)"
      unfolding marked_def by simp
    have 1: "0 \<le> md_refresh_r env \<and> 0 \<le> md_mode_get_r env
              \<and> md_mirror_mode env \<noteq> MIRROR_MODE_IMAGE \<longrightarrow>
              mirror_image_disable env force = (- EINVAL, [ImageRefresh, PoolModeGet])"
      by (simp add: mirror_image_disable_def)
    from mirror_image_disable_unmarked [OF nm, of force] 1 ten False show ?thesis
      unfolding r_def ops_def by auto
  next
    case True
    then have mk: "0 \<le> md_refresh_r env \<and> 0 \<le> md_mode_get_r env
      \<and> md_mirror_mode env = MIRROR_MODE_IMAGE \<and> 0 \<le> md_image_get_r env \<and> 0 \<le> md_image_set_r env"
      unfolding marked_def by simp
    obtain res check_ops where c: "check_snap_info (md_snaps env) = (res, check_ops)"
      by (cases "check_snap_info (md_snaps env)")
    note k = check_snap_info_result [OF c]
    from mk have m: "mirror_image_disable env force =
       (case res of
          Some r \<Rightarrow> (r, [ImageRefresh, PoolModeGet, ImageRecordGet,
                         ImageRecordSet MIRROR_IMAGE_STATE_DISABLING]
                        @ check_ops @ [ImageRecordSet MIRROR_IMAGE_STATE_ENABLED])
        | None \<Rightarrow>
            if md_disable_internal_r env < 0 then
              (md_disable_internal_r env,
               [ImageRefresh, PoolModeGet, ImageRecordGet,
                ImageRecordSet MIRROR_IMAGE_STATE_DISABLING]
               @ check_ops @ [SendDisableRequest force, ImageRecordSet MIRROR_IMAGE_STATE_ENABLED])
            else (0, [ImageRefresh, PoolModeGet, ImageRecordGet,
                      ImageRecordSet MIRROR_IMAGE_STATE_DISABLING]
                     @ check_ops @ [SendDisableRequest force]))"
      using mirror_image_disable_marked [OF _ _ _ _ _ c] by blast
    have nd: "\<forall>f. SendDisableRequest f \<notin> set check_ops"
      "ImageRecordSet MIRROR_IMAGE_STATE_ENABLED \<notin> set check_ops"
      using k by auto
    have first: "\<forall>s others. md_snaps env = s # others \<longrightarrow>
                       (\<exists>rest'. check_ops = ListChildrenInfo (sc_snap_id s) # rest')"
      using c check_snap_info_first by (metis snd_conv)
    have found: "mirrored_child \<longrightarrow> (\<exists>b. res = Some b)"
      "mirrored_child \<and> scan_calls_succeed \<longrightarrow> res = Some (- EBUSY)"
      using check_snap_info_mirrored [of "md_snaps env"] c
      unfolding mirrored_child_def scan_calls_succeed_def by auto
    have clean: "\<not> mirrored_child \<and> scan_calls_succeed \<longrightarrow> res = None"
    proof (cases res)
      case None
      then show ?thesis by simp
    next
      case (Some b)
      with c have "fst (check_snap_info (md_snaps env)) = Some b" by simp
      from check_snap_info_found [OF this] show ?thesis
        unfolding mirrored_child_def scan_calls_succeed_def by force
    qed
    show ?thesis
    proof (cases res)
      case None
      with found have nmc: "\<not> mirrored_child" by auto
      from None m have m': "mirror_image_disable env force =
            (if md_disable_internal_r env < 0 then
              (md_disable_internal_r env,
               [ImageRefresh, PoolModeGet, ImageRecordGet,
                ImageRecordSet MIRROR_IMAGE_STATE_DISABLING]
               @ check_ops @ [SendDisableRequest force, ImageRecordSet MIRROR_IMAGE_STATE_ENABLED])
            else (0, [ImageRefresh, PoolModeGet, ImageRecordGet,
                      ImageRecordSet MIRROR_IMAGE_STATE_DISABLING]
                     @ check_ops @ [SendDisableRequest force]))" by simp
      from m' k nd mk None first nmc True ten show ?thesis unfolding r_def ops_def by auto
    next
      case (Some b)
      with clean have cl: "\<not> (\<not> mirrored_child \<and> scan_calls_succeed)" by auto
      from Some found have fb: "mirrored_child \<and> scan_calls_succeed \<longrightarrow> b = - EBUSY" by auto
      from Some m have m': "mirror_image_disable env force =
            (b, [ImageRefresh, PoolModeGet, ImageRecordGet,
                         ImageRecordSet MIRROR_IMAGE_STATE_DISABLING]
                        @ check_ops @ [ImageRecordSet MIRROR_IMAGE_STATE_ENABLED])" by simp
      from m' k nd mk Some first cl fb True ten show ?thesis unfolding r_def ops_def by auto
    qed
  qed
qed

theorem mirror_image_disable_protocol_witness:
  "fst (mirror_image_disable example_disable_env False) = - EBUSY
   \<and> (\<forall>f. SendDisableRequest f \<notin> set (snd (mirror_image_disable example_disable_env False)))
   \<and> last (snd (mirror_image_disable example_disable_env False))
       = ImageRecordSet MIRROR_IMAGE_STATE_ENABLED
   \<and> mirror_image_disable (example_disable_env\<lparr>md_mirror_mode := MIRROR_MODE_POOL\<rparr>) False
       = (- EINVAL, [ImageRefresh, PoolModeGet])
   \<and> (\<exists>rest. snd (mirror_image_disable example_disable_env False)
         = [ImageRefresh, PoolModeGet, ImageRecordGet,
            ImageRecordSet MIRROR_IMAGE_STATE_DISABLING, ListChildrenInfo 4] @ rest)
   \<and> last (snd (mirror_image_disable
               (example_disable_env\<lparr>md_snaps := [], md_disable_internal_r := - 5\<rparr>) False))
       = ImageRecordSet MIRROR_IMAGE_STATE_ENABLED
   \<and> fst (mirror_image_disable (example_disable_env\<lparr>md_snaps := []\<rparr>) False) = 0
   \<and> last (snd (mirror_image_disable (example_disable_env\<lparr>md_snaps := []\<rparr>) False))
       = SendDisableRequest False"
proof -
  have marked: "0 \<le> md_refresh_r example_disable_env \<and> 0 \<le> md_mode_get_r example_disable_env
      \<and> md_mirror_mode example_disable_env = MIRROR_MODE_IMAGE
      \<and> 0 \<le> md_image_get_r example_disable_env \<and> 0 \<le> md_image_set_r example_disable_env"
    by (simp add: example_disable_env_def)
  have mirrored: "\<exists>s \<in> set (md_snaps example_disable_env). \<exists>p \<in> set (sc_image_info s).
      \<exists>c \<in> set (pc_children p). snd c \<noteq> - ENOENT"
    by (simp add: example_disable_env_def ENOENT_def)
  have scan_ok: "\<forall>s \<in> set (md_snaps example_disable_env).
      0 \<le> sc_list_r s \<and> (\<forall>p \<in> set (sc_image_info s). 0 \<le> pc_ioctx_r p)"
    by (simp add: example_disable_env_def)
  from marked mirrored have h1:
    "(0 \<le> md_refresh_r example_disable_env \<and> 0 \<le> md_mode_get_r example_disable_env
      \<and> md_mirror_mode example_disable_env = MIRROR_MODE_IMAGE
      \<and> 0 \<le> md_image_get_r example_disable_env \<and> 0 \<le> md_image_set_r example_disable_env)
     \<and> (\<exists>s \<in> set (md_snaps example_disable_env). \<exists>p \<in> set (sc_image_info s).
      \<exists>c \<in> set (pc_children p). snd c \<noteq> - ENOENT)"
    by (rule conjI)
  from mirror_image_disable_protocol [where env = example_disable_env and force = False,
      THEN conjunct2, THEN conjunct1] h1
  have c1: "fst (mirror_image_disable example_disable_env False) < 0
      \<and> (\<forall>f. SendDisableRequest f \<notin> set (snd (mirror_image_disable example_disable_env False)))
      \<and> last (snd (mirror_image_disable example_disable_env False))
          = ImageRecordSet MIRROR_IMAGE_STATE_ENABLED"
    by (rule mp)
  from marked mirrored scan_ok have h2:
    "(0 \<le> md_refresh_r example_disable_env \<and> 0 \<le> md_mode_get_r example_disable_env
      \<and> md_mirror_mode example_disable_env = MIRROR_MODE_IMAGE
      \<and> 0 \<le> md_image_get_r example_disable_env \<and> 0 \<le> md_image_set_r example_disable_env)
     \<and> (\<exists>s \<in> set (md_snaps example_disable_env). \<exists>p \<in> set (sc_image_info s).
      \<exists>c \<in> set (pc_children p). snd c \<noteq> - ENOENT)
     \<and> (\<forall>s \<in> set (md_snaps example_disable_env).
      0 \<le> sc_list_r s \<and> (\<forall>p \<in> set (sc_image_info s). 0 \<le> pc_ioctx_r p))"
    by blast
  from mirror_image_disable_protocol [where env = example_disable_env and force = False,
      THEN conjunct2, THEN conjunct2, THEN conjunct1] h2
  have c2: "fst (mirror_image_disable example_disable_env False) = - EBUSY"
    by (rule mp)
  have h3: "0 \<le> md_refresh_r (example_disable_env\<lparr>md_mirror_mode := MIRROR_MODE_POOL\<rparr>)
      \<and> 0 \<le> md_mode_get_r (example_disable_env\<lparr>md_mirror_mode := MIRROR_MODE_POOL\<rparr>)
      \<and> md_mirror_mode (example_disable_env\<lparr>md_mirror_mode := MIRROR_MODE_POOL\<rparr>) \<noteq> MIRROR_MODE_IMAGE"
    by (simp add: example_disable_env_def mirror_mode_defs)
  from mirror_image_disable_protocol
      [where env = "example_disable_env\<lparr>md_mirror_mode := MIRROR_MODE_POOL\<rparr>" and force = False,
       THEN conjunct1] h3
  have c3: "mirror_image_disable (example_disable_env\<lparr>md_mirror_mode := MIRROR_MODE_POOL\<rparr>) False
       = (- EINVAL, [ImageRefresh, PoolModeGet])"
    by (rule mp)
  from mirror_image_disable_protocol [where env = example_disable_env and force = False,
      THEN conjunct2, THEN conjunct2, THEN conjunct2, THEN conjunct2, THEN conjunct2,
      THEN conjunct1] marked
  have "\<exists>rest. snd (mirror_image_disable example_disable_env False)
            = [ImageRefresh, PoolModeGet, ImageRecordGet,
               ImageRecordSet MIRROR_IMAGE_STATE_DISABLING] @ rest
          \<and> (\<forall>s others. md_snaps example_disable_env = s # others \<longrightarrow>
                (\<exists>rest'. rest = ListChildrenInfo (sc_snap_id s) # rest'))"
    by blast
  then have c4: "\<exists>rest. snd (mirror_image_disable example_disable_env False)
         = [ImageRefresh, PoolModeGet, ImageRecordGet,
            ImageRecordSet MIRROR_IMAGE_STATE_DISABLING, ListChildrenInfo 4] @ rest"
    by (auto simp add: example_disable_env_def)
  have h5: "0 \<le> md_refresh_r (example_disable_env\<lparr>md_snaps := [], md_disable_internal_r := - 5\<rparr>)
      \<and> 0 \<le> md_mode_get_r (example_disable_env\<lparr>md_snaps := [], md_disable_internal_r := - 5\<rparr>)
      \<and> md_mirror_mode (example_disable_env\<lparr>md_snaps := [], md_disable_internal_r := - 5\<rparr>)
          = MIRROR_MODE_IMAGE
      \<and> 0 \<le> md_image_get_r (example_disable_env\<lparr>md_snaps := [], md_disable_internal_r := - 5\<rparr>)
      \<and> 0 \<le> md_image_set_r (example_disable_env\<lparr>md_snaps := [], md_disable_internal_r := - 5\<rparr>)"
    by (simp add: example_disable_env_def)
  have h5': "fst (mirror_image_disable
               (example_disable_env\<lparr>md_snaps := [], md_disable_internal_r := - 5\<rparr>) False) < 0"
    by (simp add: mirror_image_disable_def example_disable_env_def Let_def errno_defs mirror_mode_defs)
  from mirror_image_disable_protocol
      [where env = "example_disable_env\<lparr>md_snaps := [], md_disable_internal_r := - 5\<rparr>"
         and force = False,
       THEN conjunct2, THEN conjunct2, THEN conjunct2, THEN conjunct2, THEN conjunct2,
       THEN conjunct1] h5 h5'
  have c5: "last (snd (mirror_image_disable
               (example_disable_env\<lparr>md_snaps := [], md_disable_internal_r := - 5\<rparr>) False))
       = ImageRecordSet MIRROR_IMAGE_STATE_ENABLED"
    by blast
  have h6: "(0 \<le> md_refresh_r (example_disable_env\<lparr>md_snaps := []\<rparr>)
        \<and> 0 \<le> md_mode_get_r (example_disable_env\<lparr>md_snaps := []\<rparr>)
        \<and> md_mirror_mode (example_disable_env\<lparr>md_snaps := []\<rparr>) = MIRROR_MODE_IMAGE
        \<and> 0 \<le> md_image_get_r (example_disable_env\<lparr>md_snaps := []\<rparr>)
        \<and> 0 \<le> md_image_set_r (example_disable_env\<lparr>md_snaps := []\<rparr>))
      \<and> \<not> (\<exists>s \<in> set (md_snaps (example_disable_env\<lparr>md_snaps := []\<rparr>)).
              \<exists>p \<in> set (sc_image_info s). \<exists>c \<in> set (pc_children p). snd c \<noteq> - ENOENT)
      \<and> (\<forall>s \<in> set (md_snaps (example_disable_env\<lparr>md_snaps := []\<rparr>)).
            0 \<le> sc_list_r s \<and> (\<forall>p \<in> set (sc_image_info s). 0 \<le> pc_ioctx_r p))
      \<and> 0 \<le> md_disable_internal_r (example_disable_env\<lparr>md_snaps := []\<rparr>)"
    by (simp add: example_disable_env_def)
  from mirror_image_disable_protocol
      [where env = "example_disable_env\<lparr>md_snaps := []\<rparr>" and force = False,
       THEN conjunct2, THEN conjunct2, THEN conjunct2, THEN conjunct1] h6
  have c6: "fst (mirror_image_disable (example_disable_env\<lparr>md_snaps := []\<rparr>) False) = 0
      \<and> last (snd (mirror_image_disable (example_disable_env\<lparr>md_snaps := []\<rparr>) False))
          = SendDisableRequest False"
    by (rule mp)
  from c1 have c1a: "\<forall>f. SendDisableRequest f \<notin> set (snd (mirror_image_disable example_disable_env False))"
    and c1b: "last (snd (mirror_image_disable example_disable_env False))
          = ImageRecordSet MIRROR_IMAGE_STATE_ENABLED"
    by blast+
  from c6 have c6a: "fst (mirror_image_disable (example_disable_env\<lparr>md_snaps := []\<rparr>) False) = 0"
    and c6b: "last (snd (mirror_image_disable (example_disable_env\<lparr>md_snaps := []\<rparr>) False))
          = SendDisableRequest False"
    by blast+
  show ?thesis
    by (intro conjI) (rule c2, rule c1a, rule c1b, rule c3, rule c4, rule c5, rule c6a, rule c6b)
qed

text \<open>
  A forced disable of an image one of whose snapshots has a child with a mirror record: the
  scan finds the record and the call is refused with \<open>-EBUSY\<close>, the record of the image is
  put back to enabled and no disable request is sent. With a snapshot whose children
  cannot be listed placed before that one, the call returns the code of the listing and
  not \<open>-EBUSY\<close>; and for an image without a mirror record of its own the call returns 0.
\<close>

theorem mirror_image_disable_forced_counterexample:
  "mirror_image_disable example_disable_env True
     = (- EBUSY,
        [ImageRefresh, PoolModeGet, ImageRecordGet,
         ImageRecordSet MIRROR_IMAGE_STATE_DISABLING, ListChildrenInfo 4,
         ListChildrenInfo 7, IoctxCreate 2, ChildRecordGet ''10a4'' (- 2),
         IoctxCreate 5, ChildRecordGet ''10b7'' 0,
         ImageRecordSet MIRROR_IMAGE_STATE_ENABLED])
   \<and> mirror_image_disable
         (example_disable_env\<lparr>md_snaps :=
            \<lparr>sc_snap_id = 3, sc_list_r = - 5, sc_image_info = []\<rparr> # md_snaps example_disable_env\<rparr>)
         False
       = (- 5,
          [ImageRefresh, PoolModeGet, ImageRecordGet,
           ImageRecordSet MIRROR_IMAGE_STATE_DISABLING, ListChildrenInfo 3,
           ImageRecordSet MIRROR_IMAGE_STATE_ENABLED])
   \<and> mirror_image_disable (example_disable_env\<lparr>md_image_get_r := - ENOENT\<rparr>) False
       = (0, [ImageRefresh, PoolModeGet, ImageRecordGet])"
  by (simp add: mirror_image_disable_def example_disable_env_def Let_def errno_defs mirror_mode_defs)

section \<open>Properties of mirror\_mode\_set\<close>

lemma mirror_image_enable_no_uuid:
  "UuidSet u \<notin> set (snd (mirror_image_enable env relax))"
  by (simp add: mirror_image_enable_def Let_def)

lemma mirror_image_disable_no_uuid:
  "UuidSet u \<notin> set (snd (mirror_image_disable env force))"
proof (cases "0 \<le> md_refresh_r env \<and> 0 \<le> md_mode_get_r env
    \<and> md_mirror_mode env = MIRROR_MODE_IMAGE \<and> 0 \<le> md_image_get_r env \<and> 0 \<le> md_image_set_r env")
  case False
  from mirror_image_disable_unmarked [OF False, of force] show ?thesis by auto
next
  case True
  obtain res check_ops where c: "check_snap_info (md_snaps env) = (res, check_ops)"
    by (cases "check_snap_info (md_snaps env)")
  from check_snap_info_result [OF c] have "UuidSet u \<notin> set check_ops" by auto
  with mirror_image_disable_marked [OF _ _ _ _ _ c, of force] True show ?thesis
    by (cases res) auto
qed

lemma enable_images_no_uuid:
  "enable_images imgs = (res, ops) \<Longrightarrow> UuidSet u \<notin> set ops"
proof (induction imgs arbitrary: res ops)
  case Nil
  then show ?case by simp
next
  case (Cons img rest)
  obtain res' ops' where r: "enable_images rest = (res', ops')"
    by (cases "enable_images rest")
  obtain er eops where e: "mirror_image_enable (pi_enable img) True = (er, eops)"
    by (cases "mirror_image_enable (pi_enable img) True")
  from mirror_image_enable_no_uuid [of u "pi_enable img" True] e
  have "UuidSet u \<notin> set eops" by simp
  with Cons.IH [OF r] Cons.prems r e show ?case
    by (auto simp add: Let_def split: if_splits)
qed

lemma disable_images_no_uuid:
  "disable_images cur imgs = (res, ops) \<Longrightarrow> UuidSet u \<notin> set ops"
proof (induction imgs arbitrary: res ops)
  case Nil
  then show ?case by simp
next
  case (Cons img rest)
  obtain res' ops' where r: "disable_images cur rest = (res', ops')"
    by (cases "disable_images cur rest")
  obtain dr dops where d: "mirror_image_disable (mi_disable img) False = (dr, dops)"
    by (cases "mirror_image_disable (mi_disable img) False")
  from mirror_image_disable_no_uuid [of u "mi_disable img" False] d
  have "UuidSet u \<notin> set dops" by simp
  with Cons.IH [OF r] Cons.prems r d show ?case
    by (auto simp add: Let_def split: if_splits)
qed

lemma mirror_mode_set_walk_no_uuid:
  "filter (\<lambda>x. \<exists>u. x = UuidSet u) (snd (mirror_mode_set_walk env cur nxt)) = []"
proof -
  obtain res1 l1 where e: "enable_images (ms_images env) = (res1, l1)"
    by (cases "enable_images (ms_images env)")
  obtain res2 l2 where d: "disable_images cur (ms_mirror_images env) = (res2, l2)"
    by (cases "disable_images cur (ms_mirror_images env)")
  have n1: "filter (\<lambda>x. \<exists>u. x = UuidSet u) l1 = []"
    using enable_images_no_uuid [OF e] by (auto simp add: filter_empty_conv)
  have n2: "filter (\<lambda>x. \<exists>u. x = UuidSet u) l2 = []"
    using disable_images_no_uuid [OF d] by (auto simp add: filter_empty_conv)
  show ?thesis
    using e d n1 n2
    by (simp add: mirror_mode_set_walk_def Let_def split: option.splits)
qed


text \<open>
  C7. Among all the calls of \<open>mirror_mode_set\<close>, those of \<open>mirror_image_enable\<close> and
  \<open>mirror_image_disable\<close> on the images of the pool included, the pool's mirroring uuid is
  written exactly when the requested mode is image or pool, the current mode has been
  read, and the current mode is disabled. It is then written once, with the freshly
  generated uuid. A call that finds the pool in image or pool mode never writes it.
\<close>

theorem mirror_uuid_set_iff:
  fixes env mirror_mode
  defines "ops \<equiv> snd (mirror_mode_set env mirror_mode)"
  shows "((\<exists>u. UuidSet u \<in> set ops) \<longleftrightarrow>
            (mirror_mode = MIRROR_MODE_IMAGE \<or> mirror_mode = MIRROR_MODE_POOL)
            \<and> 0 \<le> ms_mode_get_r env \<and> ms_current_mode env = MIRROR_MODE_DISABLED)
       \<and> filter (\<lambda>x. \<exists>u. x = UuidSet u) ops
           = (if (mirror_mode = MIRROR_MODE_IMAGE \<or> mirror_mode = MIRROR_MODE_POOL)
                 \<and> 0 \<le> ms_mode_get_r env \<and> ms_current_mode env = MIRROR_MODE_DISABLED
              then [UuidSet (ms_uuid env)] else [])
       \<and> (ms_current_mode env = MIRROR_MODE_IMAGE \<or> ms_current_mode env = MIRROR_MODE_POOL
            \<longrightarrow> (\<forall>u. UuidSet u \<notin> set ops))"
proof -
  have f: "filter (\<lambda>x. \<exists>u. x = UuidSet u) ops
           = (if (mirror_mode = MIRROR_MODE_IMAGE \<or> mirror_mode = MIRROR_MODE_POOL)
                 \<and> 0 \<le> ms_mode_get_r env \<and> ms_current_mode env = MIRROR_MODE_DISABLED
              then [UuidSet (ms_uuid env)] else [])"
    unfolding ops_def
    using mirror_mode_set_walk_no_uuid [of env "ms_current_mode env" mirror_mode]
    by (auto simp add: mirror_mode_set_def Let_def split_beta mirror_mode_defs)
  have m: "(\<exists>u. UuidSet u \<in> set ops) \<longleftrightarrow> filter (\<lambda>x. \<exists>u. x = UuidSet u) ops \<noteq> []"
    by (auto simp add: filter_empty_conv)
  from f m show ?thesis by (auto simp add: mirror_mode_defs)
qed

theorem mirror_uuid_set_iff_witness:
  "filter (\<lambda>x. \<exists>u. x = UuidSet u) (snd (mirror_mode_set example_mode_set_env MIRROR_MODE_POOL))
     = [UuidSet ''7f3c9a52-5d0e-4c0b-9a61-2f8e5b1c7d44'']
   \<and> (\<forall>u. UuidSet u
         \<notin> set (snd (mirror_mode_set (example_mode_set_env\<lparr>ms_current_mode := MIRROR_MODE_IMAGE\<rparr>)
                       MIRROR_MODE_POOL)))
   \<and> (\<forall>u. UuidSet u
         \<notin> set (snd (mirror_mode_set (example_mode_set_env\<lparr>ms_current_mode := MIRROR_MODE_POOL\<rparr>)
                       MIRROR_MODE_DISABLED)))"
proof -
  have h1: "(MIRROR_MODE_POOL = MIRROR_MODE_IMAGE \<or> MIRROR_MODE_POOL = MIRROR_MODE_POOL)
      \<and> 0 \<le> ms_mode_get_r example_mode_set_env \<and> ms_current_mode example_mode_set_env = MIRROR_MODE_DISABLED"
    by (simp add: example_mode_set_env_def)
  from mirror_uuid_set_iff [where env = example_mode_set_env and mirror_mode = MIRROR_MODE_POOL] h1
  have c1: "filter (\<lambda>x. \<exists>u. x = UuidSet u) (snd (mirror_mode_set example_mode_set_env MIRROR_MODE_POOL))
     = [UuidSet (ms_uuid example_mode_set_env)]"
    by presburger
  have h2: "ms_current_mode (example_mode_set_env\<lparr>ms_current_mode := MIRROR_MODE_IMAGE\<rparr>) = MIRROR_MODE_IMAGE"
    by simp
  from mirror_uuid_set_iff
      [where env = "example_mode_set_env\<lparr>ms_current_mode := MIRROR_MODE_IMAGE\<rparr>"
         and mirror_mode = MIRROR_MODE_POOL] h2
  have c2: "\<forall>u. UuidSet u
         \<notin> set (snd (mirror_mode_set (example_mode_set_env\<lparr>ms_current_mode := MIRROR_MODE_IMAGE\<rparr>)
                       MIRROR_MODE_POOL))"
    by blast
  have h3: "ms_current_mode (example_mode_set_env\<lparr>ms_current_mode := MIRROR_MODE_POOL\<rparr>) = MIRROR_MODE_POOL"
    by simp
  from mirror_uuid_set_iff
      [where env = "example_mode_set_env\<lparr>ms_current_mode := MIRROR_MODE_POOL\<rparr>"
         and mirror_mode = MIRROR_MODE_DISABLED] h3
  have c3: "\<forall>u. UuidSet u
         \<notin> set (snd (mirror_mode_set (example_mode_set_env\<lparr>ms_current_mode := MIRROR_MODE_POOL\<rparr>)
                       MIRROR_MODE_DISABLED))"
    by blast
  from c1 c2 c3 show ?thesis by (simp add: example_mode_set_env_def)
qed

end
